theory Spec2Isabelle
  imports Complex_Main "HOL-Library.AList" "HOL-Library.Log_Nat"
begin

section \<open>JavaScript values\<close>

text \<open>
  The grid manager handles loosely typed data (\<^verbatim>\<open>any\<close>, \<^verbatim>\<open>Record<string, any>\<close>).
  A value is one of JavaScript's primitives, a \<^verbatim>\<open>Date\<close>, an array, a plain object, or
  one of the built-in members every plain object inherits from \<^verbatim>\<open>Object.prototype\<close>
  (named by its property key). A finite number is given by its exact value, \<^verbatim>\<open>NaN\<close> is a
  value of its own; the infinities are not represented. An object is the list of its
  own properties in insertion order.
\<close>

datatype jsval =
    JUndefined
  | JNull
  | JBool bool
  | JNum rat
  | JNaN
  | JStr string
  | JDate int
  | JArr "jsval list"
  | JObj "(string \<times> jsval) list"
  | JBuiltin string

type_synonym row = "(string \<times> jsval) list"

text \<open>The property keys of \<^verbatim>\<open>Object.prototype\<close>.\<close>

definition objectPrototypeKeys :: "string list" where
  "objectPrototypeKeys =
     [''constructor'', ''hasOwnProperty'', ''isPrototypeOf'', ''propertyIsEnumerable'',
      ''toLocaleString'', ''toString'', ''valueOf'', ''__proto__'', ''__defineGetter__'',
      ''__defineSetter__'', ''__lookupGetter__'', ''__lookupSetter__'']"

definition inherited :: "string \<Rightarrow> jsval" where
  "inherited k = (if k \<in> set objectPrototypeKeys then JBuiltin k else JUndefined)"

text \<open>
  \<^verbatim>\<open>row[field]\<close> on a plain object: an own property, else the member inherited from
  \<^verbatim>\<open>Object.prototype\<close>, else \<^verbatim>\<open>undefined\<close>.
\<close>

definition cell :: "row \<Rightarrow> string \<Rightarrow> jsval" where
  "cell r k = (case map_of r k of None \<Rightarrow> inherited k | Some v \<Rightarrow> v)"

text \<open>\<^verbatim>\<open>obj.k\<close> on a value that is known not to be \<^verbatim>\<open>null\<close> or \<^verbatim>\<open>undefined\<close>.\<close>

definition getProp :: "jsval \<Rightarrow> string \<Rightarrow> jsval" where
  "getProp v k = (case v of JObj kvs \<Rightarrow> cell kvs k | _ \<Rightarrow> JUndefined)"

text \<open>JavaScript's truthiness, as used by \<^verbatim>\<open>||\<close>, \<^verbatim>\<open>&&\<close> and \<^verbatim>\<open>?:\<close>.\<close>

fun truthy :: "jsval \<Rightarrow> bool" where
  "truthy JUndefined = False"
| "truthy JNull = False"
| "truthy (JBool b) = b"
| "truthy (JNum n) = (n \<noteq> 0)"
| "truthy JNaN = False"
| "truthy (JStr s) = (s \<noteq> [])"
| "truthy (JDate d) = True"
| "truthy (JArr xs) = True"
| "truthy (JObj kvs) = True"
| "truthy (JBuiltin k) = True"

section \<open>Errors\<close>

datatype err_code =
    BROWSER_INIT_FAILED | NOT_INITIALIZED | INVALID_CONFIG | HTML_LOAD_FAILED
  | GRID_CREATION_FAILED | UPDATE_DATA_FAILED | METHOD_EXECUTION_FAILED
  | INVALID_EXPORT_FORMAT | EXPORT_FAILED | GET_STATE_FAILED
  | GRID_NOT_FOUND | GRID_DESTROYED | DESTROY_FAILED | SUMMARY_GENERATION_FAILED

text \<open>
  A thrown value: a plain \<^verbatim>\<open>Error\<close> with its message, the error of a failed zod
  parse, or a \<^verbatim>\<open>GridManagerError\<close> with its code, grid identifier and cause (its
  message is fixed by the throwing site and left out).
\<close>

datatype js_error =
    Error string
  | ZodError
  | GridManagerError err_code "string option" "js_error option"

section \<open>Double-precision arithmetic\<close>

text \<open>
  JavaScript numbers are IEEE 754 binary64 values: 53 significant bits, exponents from
  -1022 up, subnormal numbers below. An arithmetic operation answers with its exact
  result rounded to the nearest such value, a tie going to the even significand.
  \<open>fl\<close> is that rounding. A result beyond the largest finite double, which JavaScript
  turns into an infinity, is not represented.
\<close>

definition roundEven :: "rat \<Rightarrow> int" where
  "roundEven y =
     (let f = \<lfloor>y\<rfloor>; d = y - rat_of_int f
      in if d < 1 / 2 then f
         else if 1 / 2 < d then f + 1
         else if even f then f else f + 1)"

text \<open>The binary exponent of a number other than 0: \<open>2 powi e \<le> \<bar>x\<bar> < 2 powi (e + 1)\<close>.\<close>

definition expo :: "rat \<Rightarrow> int" where
  "expo x =
     (let d = bitlen (fst (quotient_of \<bar>x\<bar>)) - bitlen (snd (quotient_of \<bar>x\<bar>))
      in if 2 powi d \<le> \<bar>x\<bar> then d else d - 1)"

definition fl :: "rat \<Rightarrow> rat" where
  "fl x =
     (let ulp = 2 powi (max (expo x) (- 1022) - 52)
      in rat_of_int (roundEven (x / ulp)) * ulp)"

section \<open>Column statistics (data-resources.ts)\<close>

record ColumnStats =
  field_c :: string
  type_c :: string
  nullCount :: nat
  uniqueCount :: nat
  sampleValues :: "jsval list"
  min_c :: "rat option"
  max_c :: "rat option"
  mean :: "rat option"
  median :: "rat option"
  avgLength :: "rat option"
  maxLength :: "nat option"
  minLength :: "nat option"

record GridSummaryStats =
  gridId_s :: string
  totalRows :: nat
  totalColumns :: nat
  columnStats :: "ColumnStats list"
  dataTypes :: row
  completeness :: rat
  generatedAt :: string

subsection \<open>inferDataType\<close>

record TypeCounts =
  numberCount :: nat
  stringCount :: nat
  booleanCount :: nat
  dateCount :: nat

definition noCounts :: TypeCounts where
  "noCounts = \<lparr>numberCount = 0, stringCount = 0, booleanCount = 0, dateCount = 0\<rparr>"

text \<open>
  The body of the \<^verbatim>\<open>for (const value of sample)\<close> loop. \<open>dateParse s\<close> stands for
  \<^verbatim>\<open>!isNaN(Date.parse(s))\<close>, which the JavaScript engine decides.
\<close>

fun countValue :: "(string \<Rightarrow> bool) \<Rightarrow> TypeCounts \<Rightarrow> jsval \<Rightarrow> TypeCounts" where
  "countValue dateParse c (JNum n) = c\<lparr>numberCount := numberCount c + 1\<rparr>"
| "countValue dateParse c (JBool b) = c\<lparr>booleanCount := booleanCount c + 1\<rparr>"
| "countValue dateParse c (JDate d) = c\<lparr>dateCount := dateCount c + 1\<rparr>"
| "countValue dateParse c (JStr s) =
     (if dateParse s then c\<lparr>dateCount := dateCount c + 1\<rparr>
      else c\<lparr>stringCount := stringCount c + 1\<rparr>)"
| "countValue dateParse c v = c"

definition inferDataType :: "(string \<Rightarrow> bool) \<Rightarrow> jsval list \<Rightarrow> string" where
  "inferDataType dateParse values =
     (if length values = 0 then ''unknown''
      else
        let sample = take 10 values;
            c = foldl (countValue dateParse) noCounts sample;
            total = length sample
        in if rat_of_nat (numberCount c) / rat_of_nat total > 8 / 10 then ''number''
           else if rat_of_nat (booleanCount c) / rat_of_nat total > 8 / 10 then ''boolean''
           else if rat_of_nat (dateCount c) / rat_of_nat total > 8 / 10 then ''date''
           else ''text'')"

subsection \<open>analyzeColumnData\<close>

definition notNullish :: "jsval \<Rightarrow> bool" where
  "notNullish v = (v \<noteq> JNull \<and> v \<noteq> JUndefined)"

text \<open>
  \<^verbatim>\<open>[...new Set(values)]\<close> keeps the first occurrence of every value. Primitives are
  compared by value (\<^verbatim>\<open>NaN\<close> equal to itself); objects, arrays and dates are compared
  by identity, and the rows are taken not to share them.
\<close>

fun sameValueZero :: "jsval \<Rightarrow> jsval \<Rightarrow> bool" where
  "sameValueZero (JDate a) w = False"
| "sameValueZero (JArr a) w = False"
| "sameValueZero (JObj a) w = False"
| "sameValueZero v w = (v = w)"

fun uniqueValuesOf :: "jsval list \<Rightarrow> jsval list \<Rightarrow> jsval list" where
  "uniqueValuesOf seen [] = seen"
| "uniqueValuesOf seen (v # vs) =
     (if list_ex (sameValueZero v) seen then uniqueValuesOf seen vs
      else uniqueValuesOf (seen @ [v]) vs)"

fun numericValuesOf :: "jsval list \<Rightarrow> rat list" where
  "numericValuesOf [] = []"
| "numericValuesOf (JNum n # vs) = n # numericValuesOf vs"
| "numericValuesOf (v # vs) = numericValuesOf vs"

fun stringValuesOf :: "jsval list \<Rightarrow> string list" where
  "stringValuesOf [] = []"
| "stringValuesOf (JStr s # vs) = s # stringValuesOf vs"
| "stringValuesOf (v # vs) = stringValuesOf vs"

text \<open>
  \<^verbatim>\<open>Math.min(...xs)\<close> and \<^verbatim>\<open>Math.max(...xs)\<close> pass every element as an argument; the
  engine takes only so many (\<open>maxArgs\<close>, some hundred thousand) and throws a
  \<^verbatim>\<open>RangeError\<close> beyond. On a list that is not empty and not too long they pick an
  element, exactly.
\<close>

definition mathMin :: "'a::linorder list \<Rightarrow> 'a" where
  "mathMin xs = fold min (tl xs) (hd xs)"

definition mathMax :: "'a::linorder list \<Rightarrow> 'a" where
  "mathMax xs = fold max (tl xs) (hd xs)"

definition rangeError :: js_error where
  "rangeError = Error ''RangeError: Maximum call stack size exceeded''"

text \<open>\<^verbatim>\<open>xs.reduce((sum, val) => sum + val, 0)\<close>, every addition rounded.\<close>

definition jsSum :: "rat list \<Rightarrow> rat" where
  "jsSum xs = foldl (\<lambda>sum val. fl (sum + val)) 0 xs"

text \<open>
  The median. \<^verbatim>\<open>sort((a, b) => a - b)\<close> orders the numbers ascending: the rounded
  difference of two doubles has the sign of the exact one.
\<close>

definition medianOf :: "rat list \<Rightarrow> rat" where
  "medianOf numericValues =
     (let sorted = sort numericValues;
          mid = length sorted div 2
      in if length sorted mod 2 = 0 then fl (fl (sorted ! (mid - 1) + sorted ! mid) / 2)
         else sorted ! mid)"

text \<open>
  A column definition is the object the caller gave, with its own properties;
  \<^verbatim>\<open>field: string\<close> and \<^verbatim>\<open>type?: string\<close> are read through their declared types.
\<close>

type_synonym ColumnDef = row

definition field :: "ColumnDef \<Rightarrow> string" where
  "field columnDef = (case cell columnDef ''field'' of JStr s \<Rightarrow> s | _ \<Rightarrow> [])"

definition declaredType :: "ColumnDef \<Rightarrow> string option" where
  "declaredType columnDef = (case cell columnDef ''type'' of JStr s \<Rightarrow> Some s | _ \<Rightarrow> None)"

text \<open>
  In \<^verbatim>\<open>columnDef.type || inferDataType(values)\<close> an empty string counts as absent.
  String lengths are counted in characters of the model's strings. The function throws
  where \<^verbatim>\<open>Math.min\<close> is given too many arguments.
\<close>

definition analyzeColumnData ::
  "(string \<Rightarrow> bool) \<Rightarrow> nat \<Rightarrow> row list \<Rightarrow> string \<Rightarrow> ColumnDef \<Rightarrow> js_error + ColumnStats" where
  "analyzeColumnData dateParse maxArgs data fld columnDef =
     (let values = filter notNullish (map (\<lambda>r. cell r fld) data);
          nulls = length data - length values;
          uniqueValues = uniqueValuesOf [] values;
          ty = (case declaredType columnDef of
                  Some t \<Rightarrow> if t \<noteq> [] then t else inferDataType dateParse values
                | None \<Rightarrow> inferDataType dateParse values);
          stats = \<lparr>field_c = fld, type_c = ty, nullCount = nulls,
                   uniqueCount = length uniqueValues, sampleValues = take 5 uniqueValues,
                   min_c = None, max_c = None, mean = None, median = None,
                   avgLength = None, maxLength = None, minLength = None\<rparr>;
          numericValues = numericValuesOf values;
          lengths = map length (stringValuesOf values)
      in if ty = ''number'' \<and> length values > 0 \<and> length numericValues > 0
         then
           (if length numericValues > maxArgs then Inl rangeError
            else Inr (stats\<lparr>min_c := Some (mathMin numericValues),
                             max_c := Some (mathMax numericValues),
                             mean := Some (fl (jsSum numericValues
                                               / rat_of_nat (length numericValues))),
                             median := Some (medianOf numericValues)\<rparr>))
         else if ty = ''text'' \<and> length values > 0 \<and> length lengths > 0
         then
           (if length lengths > maxArgs then Inl rangeError
            else Inr (stats\<lparr>minLength := Some (mathMin lengths),
                             maxLength := Some (mathMax lengths),
                             avgLength := Some (fl (jsSum (map rat_of_nat lengths)
                                                    / rat_of_nat (length lengths)))\<rparr>))
         else Inr stats)"

subsection \<open>The summary of a row snapshot\<close>

text \<open>
  \<^verbatim>\<open>columnDefs.map(colDef => analyzeColumnData(rowData, colDef.field, colDef))\<close>: the
  first column whose analysis throws ends the whole computation.
\<close>

fun analyzeColumns ::
  "(string \<Rightarrow> bool) \<Rightarrow> nat \<Rightarrow> row list \<Rightarrow> ColumnDef list \<Rightarrow> js_error + ColumnStats list" where
  "analyzeColumns dateParse maxArgs rows [] = Inr []"
| "analyzeColumns dateParse maxArgs rows (colDef # colDefs) =
     (case analyzeColumnData dateParse maxArgs rows (field colDef) colDef of
        Inl e \<Rightarrow> Inl e
      | Inr stat \<Rightarrow>
         (case analyzeColumns dateParse maxArgs rows colDefs of
            Inl e \<Rightarrow> Inl e
          | Inr stats \<Rightarrow> Inr (stat # stats)))"

text \<open>
  \<^verbatim>\<open>dataTypes[stat.type] = (dataTypes[stat.type] || 0) + 1\<close> on the plain object
  \<^verbatim>\<open>dataTypes\<close>. For a type named like a member of \<^verbatim>\<open>Object.prototype\<close> the read finds
  that member, and \<^verbatim>\<open>+ 1\<close> appends to its text (as Node prints a native function); an
  assignment to \<^verbatim>\<open>__proto__\<close> of a string changes nothing.
\<close>

fun plusOne :: "jsval \<Rightarrow> jsval" where
  "plusOne (JNum n) = JNum (fl (n + 1))"
| "plusOne (JStr s) = JStr (s @ ''1'')"
| "plusOne (JBuiltin k) =
     JStr ((if k = ''__proto__'' then ''[object Object]''
            else ''function '' @ k @ ''() { [native code] }'') @ ''1'')"
| "plusOne v = v"

definition countType :: "row \<Rightarrow> ColumnStats \<Rightarrow> row" where
  "countType types stat =
     (let old = cell types (type_c stat);
          new = (if truthy old then plusOne old else JNum 1)
      in if type_c stat = ''__proto__'' then types
         else AList.update (type_c stat) new types)"

text \<open>\<^verbatim>\<open>Math.round(x)\<close>: the nearest integer, halves going up; it is exact.\<close>

definition mathRound :: "rat \<Rightarrow> int" where
  "mathRound x = \<lfloor>x + 1 / 2\<rfloor>"

text \<open>
  The computation of \<^verbatim>\<open>generateGridSummary\<close> once the row snapshot \<open>rowData\<close> and the
  declared columns are at hand (from \<^verbatim>\<open>// Analyze each column\<close> to the returned
  object); \<open>now\<close> is \<^verbatim>\<open>new Date().toISOString()\<close>. The function itself, which
  first obtains the snapshot through the grid manager, follows the manager below.
\<close>

definition summarizeRows ::
  "(string \<Rightarrow> bool) \<Rightarrow> nat \<Rightarrow> string \<Rightarrow> string \<Rightarrow> row list \<Rightarrow> ColumnDef list
     \<Rightarrow> js_error + GridSummaryStats" where
  "summarizeRows dateParse maxArgs now gridId rowData columnDefs =
     (case analyzeColumns dateParse maxArgs rowData columnDefs of
        Inl e \<Rightarrow> Inl e
      | Inr stats \<Rightarrow>
         (let types = foldl countType [] stats;
              totalCells = fl (rat_of_nat (length rowData) * rat_of_nat (length stats));
              nullCells = foldl (\<lambda>sum stat. fl (sum + rat_of_nat (nullCount stat))) 0 stats;
              compl = (if totalCells > 0
                       then fl (fl (fl (totalCells - nullCells) / totalCells) * 100)
                       else 0)
          in Inr \<lparr>gridId_s = gridId, totalRows = length rowData, totalColumns = length stats,
                  columnStats = stats, dataTypes = types,
                  completeness = fl (rat_of_int (mathRound (fl (compl * 100))) / 100),
                  generatedAt = now\<rparr>))"

section \<open>The grid manager (grid-manager.ts)\<close>

subsection \<open>Validation schemas\<close>

text \<open>
  The zod combinators the schemas use: \<^verbatim>\<open>z.string()\<close>, \<^verbatim>\<open>z.number()\<close> (which rejects
  \<^verbatim>\<open>NaN\<close>), \<^verbatim>\<open>z.boolean()\<close>, \<^verbatim>\<open>.optional()\<close>, and \<^verbatim>\<open>z.record(z.any())\<close>, which
  accepts plain objects only (not arrays, dates or \<^verbatim>\<open>null\<close>).
\<close>

fun zString :: "jsval \<Rightarrow> bool" where
  "zString (JStr s) = True"
| "zString v = False"

fun zNumber :: "jsval \<Rightarrow> bool" where
  "zNumber (JNum n) = True"
| "zNumber v = False"

fun zBoolean :: "jsval \<Rightarrow> bool" where
  "zBoolean (JBool b) = True"
| "zBoolean v = False"

definition zOptional :: "(jsval \<Rightarrow> bool) \<Rightarrow> jsval \<Rightarrow> bool" where
  "zOptional schema v = (v = JUndefined \<or> schema v)"

fun zRecordAny :: "jsval \<Rightarrow> bool" where
  "zRecordAny (JObj kvs) = True"
| "zRecordAny v = False"

fun zArray :: "(jsval \<Rightarrow> bool) \<Rightarrow> jsval \<Rightarrow> bool" where
  "zArray schema (JArr xs) = list_all schema xs"
| "zArray schema v = False"

fun ColumnDefSchema :: "jsval \<Rightarrow> bool" where
  "ColumnDefSchema (JObj kvs) =
     (zString (cell kvs ''field'')
      \<and> zOptional zString (cell kvs ''headerName'')
      \<and> zOptional zNumber (cell kvs ''width'')
      \<and> zOptional zNumber (cell kvs ''minWidth'')
      \<and> zOptional zNumber (cell kvs ''maxWidth'')
      \<and> zOptional zBoolean (cell kvs ''sortable'')
      \<and> zOptional zBoolean (cell kvs ''filter'')
      \<and> zOptional zBoolean (cell kvs ''resizable'')
      \<and> zOptional zString (cell kvs ''type''))"
| "ColumnDefSchema v = False"

fun GridConfigSchema :: "jsval \<Rightarrow> bool" where
  "GridConfigSchema (JObj kvs) =
     (zArray ColumnDefSchema (cell kvs ''columnDefs'')
      \<and> zArray zRecordAny (cell kvs ''rowData'')
      \<and> zOptional zRecordAny (cell kvs ''gridOptions''))"
| "GridConfigSchema v = False"

definition ExportFormatSchema :: "string \<Rightarrow> bool" where
  "ExportFormatSchema format = (format = ''csv'' \<or> format = ''excel'')"

subsection \<open>Typed view of a configuration\<close>

record GridConfig =
  columnDefs :: "ColumnDef list"
  rowData :: "row list"
  gridOptions :: "row option"

fun objectsOf :: "jsval \<Rightarrow> row list" where
  "objectsOf (JArr xs) = concat (map (\<lambda>x. case x of JObj kvs \<Rightarrow> [kvs] | _ \<Rightarrow> []) xs)"
| "objectsOf v = []"

text \<open>
  The value \<^verbatim>\<open>createGrid\<close> receives is untyped at run time; once it has passed
  \<open>GridConfigSchema\<close> it is read through the \<^verbatim>\<open>GridConfig\<close> interface.
\<close>

definition asGridConfig :: "jsval \<Rightarrow> GridConfig" where
  "asGridConfig config =
     \<lparr>columnDefs = objectsOf (getProp config ''columnDefs''),
      rowData = objectsOf (getProp config ''rowData''),
      gridOptions = (case getProp config ''gridOptions'' of JObj kvs \<Rightarrow> Some kvs | _ \<Rightarrow> None)\<rparr>"

subsection \<open>The rendering surface\<close>

text \<open>
  One browser page showing one grid. The page is an external collaborator; what the
  manager can observe of it is kept here: whether \<^verbatim>\<open>window.gridApi\<close> is set, the rows
  the grid holds, its column state, its filter model together with the rows that
  filter lets through, the selection, and the CSV text the grid would export.
  \<open>builtColumnState\<close> is the column state the grid engine gives a grid it builds on
  this page (its own columns, such as the selection column, included);
  \<open>gridBuildError\<close> is the message of the exception the engine would raise instead.
  \<open>pgGridDestroyed\<close> says that \<^verbatim>\<open>gridApi.destroy()\<close> has run: \<^verbatim>\<open>window.gridApi\<close> stays
  set, but the API answers every read with \<^verbatim>\<open>undefined\<close> from then on.
  \<open>faults\<close> lists the round trips to the page that throw, with the message thrown;
  \<open>calls\<close> records every round trip made, oldest first.
\<close>

datatype surface_op =
    OpSetViewport | OpSetContent | OpWaitForFunction | OpCreateAGGrid
  | OpUpdateGridData | OpApiMethod string | OpGetDisplayedRowCount
  | OpGetDataAsCsv | OpReadState | OpApiDestroy | OpClosePage

record ColumnStateItem =
  colId :: string
  sort :: jsval
  sortIndex :: "int option"
  otherState :: row

record Page =
  gridApi :: bool
  gridBuildError :: "string option"
  builtColumnState :: "ColumnStateItem list"
  pgRows :: "row list"
  pgColumnState :: "ColumnStateItem list"
  pgFilterModel :: row
  pgRowPasses :: "row \<Rightarrow> bool"
  pgSelectedRows :: "row list"
  pgCsv :: string
  pgGridDestroyed :: bool
  pgClosed :: bool
  faults :: "(surface_op \<times> string) list"
  calls :: "surface_op list"

text \<open>A round trip to the page: it is recorded, and it throws if the page says so.\<close>

definition roundTrip :: "surface_op \<Rightarrow> Page \<Rightarrow> string option \<times> Page" where
  "roundTrip op p = (map_of (faults p) op, p\<lparr>calls := calls p @ [op]\<rparr>)"

text \<open>\<^verbatim>\<open>gridApi.getDisplayedRowCount()\<close>: the rows left after filtering.\<close>

definition getDisplayedRowCount :: "Page \<Rightarrow> nat" where
  "getDisplayedRowCount p = length (filter (pgRowPasses p) (pgRows p))"

text \<open>
  \<^verbatim>\<open>window.createAGGrid(config)\<close> of grid.html: it answers \<^verbatim>\<open>{success, error}\<close> and never
  throws. A fresh grid holds the rows of the configuration and the column state the
  engine builds, with no filter and no selection; a filter or selection requested
  through \<^verbatim>\<open>gridOptions\<close> is not represented.
\<close>

definition isArray :: "jsval \<Rightarrow> bool" where
  "isArray v = (case v of JArr xs \<Rightarrow> True | _ \<Rightarrow> False)"

definition createAGGrid :: "jsval \<Rightarrow> Page \<Rightarrow> (string + unit) \<times> Page" where
  "createAGGrid config p =
     (if \<not> truthy config then (Inl ''Configuration object is required'', p)
      else if \<not> truthy (getProp config ''columnDefs'') \<or> \<not> isArray (getProp config ''columnDefs'')
        then (Inl ''columnDefs must be provided as an array'', p)
      else if \<not> truthy (getProp config ''rowData'') \<or> \<not> isArray (getProp config ''rowData'')
        then (Inl ''rowData must be provided as an array'', p)
      else case gridBuildError p of
        Some e \<Rightarrow> (Inl e, p)
      | None \<Rightarrow>
          (Inr (),
           p\<lparr>gridApi := True,
             pgRows := objectsOf (getProp config ''rowData''),
             pgColumnState := builtColumnState p,
             pgGridDestroyed := False,
             pgFilterModel := [],
             pgRowPasses := (\<lambda>r. True),
             pgSelectedRows := []\<rparr>))"

text \<open>\<^verbatim>\<open>page.evaluate(config => window.createAGGrid(config), config)\<close>\<close>

definition pageCreateGrid :: "jsval \<Rightarrow> Page \<Rightarrow> (js_error + (string + unit)) \<times> Page" where
  "pageCreateGrid config p =
     (case roundTrip OpCreateAGGrid p of
        (Some e, p1) \<Rightarrow> (Inl (Error e), p1)
      | (None, p1) \<Rightarrow> (case createAGGrid config p1 of (r, p2) \<Rightarrow> (Inr r, p2)))"

text \<open>The page-side code of \<^verbatim>\<open>updateGridData\<close>, ending in \<^verbatim>\<open>window.updateGridData\<close> of grid.html.\<close>

definition pageUpdateGridData :: "row list \<Rightarrow> Page \<Rightarrow> (js_error + unit) \<times> Page" where
  "pageUpdateGridData newData p =
     (case roundTrip OpUpdateGridData p of
        (Some e, p1) \<Rightarrow> (Inl (Error e), p1)
      | (None, p1) \<Rightarrow>
          if \<not> gridApi p1 then (Inl (Error ''Grid not initialized''), p1)
          else (Inr (), p1\<lparr>pgRows := newData\<rparr>))"

text \<open>
  The page-side code of \<^verbatim>\<open>executeGridMethod\<close>. \<open>api\<close> is the grid API's own dispatch:
  given a method name and arguments it answers with a value and the page afterwards,
  or with the error thrown (a name that is no method of the API included).
\<close>

type_synonym grid_api = "string \<Rightarrow> jsval list \<Rightarrow> Page \<Rightarrow> js_error + (jsval \<times> Page)"

definition pageApiMethod ::
  "grid_api \<Rightarrow> string \<Rightarrow> jsval list option \<Rightarrow> Page \<Rightarrow> (js_error + jsval) \<times> Page" where
  "pageApiMethod api methodName methodParams p =
     (case roundTrip (OpApiMethod methodName) p of
        (Some e, p1) \<Rightarrow> (Inl (Error e), p1)
      | (None, p1) \<Rightarrow>
          if \<not> gridApi p1 then (Inl (Error ''Grid API not available''), p1)
          else (case api methodName (case methodParams of None \<Rightarrow> [] | Some ps \<Rightarrow> ps) p1 of
                  Inl e \<Rightarrow> (Inl e, p1)
                | Inr (v, p2) \<Rightarrow> (Inr v, p2)))"

text \<open>\<^verbatim>\<open>window.gridApi ? window.gridApi.getDisplayedRowCount() : 0\<close>\<close>

definition pageDisplayedRowCount :: "Page \<Rightarrow> (js_error + nat) \<times> Page" where
  "pageDisplayedRowCount p =
     (case roundTrip OpGetDisplayedRowCount p of
        (Some e, p1) \<Rightarrow> (Inl (Error e), p1)
      | (None, p1) \<Rightarrow> (Inr (if gridApi p1 then getDisplayedRowCount p1 else 0), p1))"

definition pageGetDataAsCsv :: "Page \<Rightarrow> (js_error + string) \<times> Page" where
  "pageGetDataAsCsv p =
     (case roundTrip OpGetDataAsCsv p of
        (Some e, p1) \<Rightarrow> (Inl (Error e), p1)
      | (None, p1) \<Rightarrow>
          if \<not> gridApi p1 then (Inl (Error ''Grid API not available''), p1)
          else (Inr (pgCsv p1), p1))"

text \<open>\<^verbatim>\<open>if (window.gridApi) window.gridApi.destroy()\<close>\<close>

definition pageApiDestroy :: "Page \<Rightarrow> (js_error + unit) \<times> Page" where
  "pageApiDestroy p =
     (case roundTrip OpApiDestroy p of
        (Some e, p1) \<Rightarrow> (Inl (Error e), p1)
      | (None, p1) \<Rightarrow> (Inr (), if gridApi p1 then p1\<lparr>pgGridDestroyed := True\<rparr> else p1))"

definition pageClose :: "Page \<Rightarrow> (js_error + unit) \<times> Page" where
  "pageClose p =
     (case roundTrip OpClosePage p of
        (Some e, p1) \<Rightarrow> (Inl (Error e), p1)
      | (None, p1) \<Rightarrow> (Inr (), p1\<lparr>pgClosed := True\<rparr>))"

subsection \<open>Reading the grid state\<close>

record SortItem =
  colId_s :: string
  sort_s :: jsval
  sortIndex_s :: "int option"

record GridState =
  columnState :: "ColumnStateItem list"
  filterState :: row
  sortState :: "SortItem list"
  selectedRows :: "row list"
  rowCount :: nat
  displayedRowCount :: nat

text \<open>
  \<^verbatim>\<open>Array.prototype.sort(compareFn)\<close> is stable; for a comparator that is a consistent
  ordering its result is the one stable arrangement, built here by insertion from the
  right: an element goes in front of the first one it does not compare greater than.
\<close>

fun insertBy :: "('a \<Rightarrow> 'a \<Rightarrow> int) \<Rightarrow> 'a \<Rightarrow> 'a list \<Rightarrow> 'a list" where
  "insertBy compareFn x [] = [x]"
| "insertBy compareFn x (y # ys) =
     (if compareFn x y \<le> 0 then x # y # ys else y # insertBy compareFn x ys)"

definition arraySort :: "('a \<Rightarrow> 'a \<Rightarrow> int) \<Rightarrow> 'a list \<Rightarrow> 'a list" where
  "arraySort compareFn xs = foldr (insertBy compareFn) xs []"

text \<open>\<^verbatim>\<open>x.sortIndex || 0\<close>: a missing index counts as 0.\<close>

definition sortIndexOr0 :: "SortItem \<Rightarrow> int" where
  "sortIndexOr0 x = (case sortIndex_s x of None \<Rightarrow> 0 | Some i \<Rightarrow> i)"

definition compareSortIndex :: "SortItem \<Rightarrow> SortItem \<Rightarrow> int" where
  "compareSortIndex a b = sortIndexOr0 a - sortIndexOr0 b"

definition toSortItem :: "ColumnStateItem \<Rightarrow> SortItem" where
  "toSortItem col = \<lparr>colId_s = colId col, sort_s = sort col, sortIndex_s = sortIndex col\<rparr>"

text \<open>\<^verbatim>\<open>// Extract sort state from column state\<close>\<close>

definition extractSortState :: "ColumnStateItem list \<Rightarrow> SortItem list" where
  "extractSortState colState =
     arraySort compareSortIndex (map toSortItem (filter (\<lambda>col. sort col \<noteq> JNull) colState))"

text \<open>
  The page-side code of \<^verbatim>\<open>getGridState\<close>. On a destroyed grid \<^verbatim>\<open>getColumnState()\<close>
  answers \<^verbatim>\<open>undefined\<close>, and \<^verbatim>\<open>columnState.filter\<close> throws a \<^verbatim>\<open>TypeError\<close>.
\<close>

definition pageReadState :: "Page \<Rightarrow> (js_error + GridState) \<times> Page" where
  "pageReadState p =
     (case roundTrip OpReadState p of
        (Some e, p1) \<Rightarrow> (Inl (Error e), p1)
      | (None, p1) \<Rightarrow>
          if \<not> gridApi p1 then (Inl (Error ''Grid API not available''), p1)
          else if pgGridDestroyed p1
            then (Inl (Error ''TypeError: Cannot read properties of undefined''), p1)
          else
            let colState = pgColumnState p1;
                filterModel = pgFilterModel p1;
                selected = pgSelectedRows p1;
                displayed = getDisplayedRowCount p1;
                sorting = extractSortState colState
            in (Inr \<lparr>columnState = colState, filterState = filterModel, sortState = sorting,
                     selectedRows = selected, rowCount = displayed,
                     displayedRowCount = displayed\<rparr>, p1))"

subsection \<open>The broadcast sink (class WebSocketManager, in web-server/server.ts)\<close>

datatype event_type =
    grid_created | grid_updated | grid_filtered | grid_sorted | grid_exported | grid_destroyed

record GridEvent =
  type_ev :: event_type
  gridId_ev :: string
  timestamp :: string
  data_ev :: jsval

text \<open>
  The mirrored state of one grid (the sink's own \<^verbatim>\<open>GridState\<close> interface); a field that is
  absent is undefined.
\<close>

record MirrorState =
  id_w :: string
  config_w :: jsval
  data_w :: "row list"
  filters :: jsval
  sorting :: jsval
  createdAt_w :: string
  lastUpdated_w :: string

text \<open>What \<^verbatim>\<open>io.emit\<close> broadcasts to the connected clients.\<close>

datatype io_message =
    MsgGridEvent GridEvent
  | MsgGridStateUpdated MirrorState
  | MsgGridRemoved string

text \<open>
  The sink: its \<^verbatim>\<open>gridStates\<close> map, the broadcasts it has made, oldest first, and its
  clock: the \<open>n\<close>-th \<^verbatim>\<open>new Date().toISOString()\<close> it evaluates answers \<open>clockAt n\<close>.
  Client connections and writes to the console are not represented.
\<close>

record WebSocketManager =
  gridStates :: "(string \<times> MirrorState) list"
  broadcasts :: "io_message list"
  clockAt :: "nat \<Rightarrow> string"
  clockReads :: nat

definition readClock :: "WebSocketManager \<Rightarrow> string \<times> WebSocketManager" where
  "readClock ws = (clockAt ws (clockReads ws), ws\<lparr>clockReads := clockReads ws + 1\<rparr>)"

definition ioEmit :: "io_message \<Rightarrow> WebSocketManager \<Rightarrow> WebSocketManager" where
  "ioEmit msg ws = ws\<lparr>broadcasts := broadcasts ws @ [msg]\<rparr>"

definition emitGridEvent :: "GridEvent \<Rightarrow> WebSocketManager \<Rightarrow> WebSocketManager" where
  "emitGridEvent event ws = ioEmit (MsgGridEvent event) ws"

datatype state_update = DataUpdate "row list" | FiltersUpdate jsval | SortingUpdate jsval

fun applyUpdate :: "state_update \<Rightarrow> MirrorState \<Rightarrow> MirrorState" where
  "applyUpdate (DataUpdate rows) st = st\<lparr>data_w := rows\<rparr>"
| "applyUpdate (FiltersUpdate f) st = st\<lparr>filters := f\<rparr>"
| "applyUpdate (SortingUpdate so) st = st\<lparr>sorting := so\<rparr>"

text \<open>
  \<^verbatim>\<open>{id, config: {}, data: [], createdAt: now, ...existingState, ...updates, lastUpdated: now}\<close>:
  the clock is read twice, whether or not a state exists already.
\<close>

definition updateGridState :: "string \<Rightarrow> state_update \<Rightarrow> WebSocketManager \<Rightarrow> WebSocketManager" where
  "updateGridState gridId updates ws =
     (let existingState = map_of (gridStates ws) gridId;
          (created, ws1) = readClock ws;
          (updated, ws2) = readClock ws1;
          base = (case existingState of
                    None \<Rightarrow> \<lparr>id_w = gridId, config_w = JObj [], data_w = [],
                              filters = JUndefined, sorting = JUndefined,
                              createdAt_w = created, lastUpdated_w = updated\<rparr>
                  | Some st \<Rightarrow> st);
          gridState = (applyUpdate updates base)\<lparr>lastUpdated_w := updated\<rparr>
      in ioEmit (MsgGridStateUpdated gridState)
           (ws2\<lparr>gridStates := AList.update gridId gridState (gridStates ws2)\<rparr>))"

definition removeGrid :: "string \<Rightarrow> WebSocketManager \<Rightarrow> WebSocketManager" where
  "removeGrid gridId ws =
     (let ws1 = ioEmit (MsgGridRemoved gridId)
                  (ws\<lparr>gridStates := AList.delete gridId (gridStates ws)\<rparr>);
          (now, ws2) = readClock ws1
      in emitGridEvent \<lparr>type_ev = grid_destroyed, gridId_ev = gridId, timestamp = now,
                         data_ev = JUndefined\<rparr> ws2)"

definition onGridCreated :: "string \<Rightarrow> jsval \<Rightarrow> row list \<Rightarrow> WebSocketManager \<Rightarrow> WebSocketManager" where
  "onGridCreated gridId cfg rows ws =
     (let (created, ws1) = readClock ws;
          (updated, ws2) = readClock ws1;
          gridState = \<lparr>id_w = gridId, config_w = cfg, data_w = rows,
                       filters = JUndefined, sorting = JUndefined,
                       createdAt_w = created, lastUpdated_w = updated\<rparr>;
          ws3 = ws2\<lparr>gridStates := AList.update gridId gridState (gridStates ws2)\<rparr>;
          (now, ws4) = readClock ws3;
          ws5 = emitGridEvent
                  \<lparr>type_ev = grid_created, gridId_ev = gridId, timestamp = now,
                   data_ev = JObj [(''config'', cfg),
                                  (''rowCount'', JNum (rat_of_nat (length rows)))]\<rparr> ws4
      in ioEmit (MsgGridStateUpdated gridState) ws5)"

definition onGridDataUpdated :: "string \<Rightarrow> row list \<Rightarrow> WebSocketManager \<Rightarrow> WebSocketManager" where
  "onGridDataUpdated gridId newData ws =
     (let ws1 = updateGridState gridId (DataUpdate newData) ws;
          (now, ws2) = readClock ws1
      in emitGridEvent
           \<lparr>type_ev = grid_updated, gridId_ev = gridId, timestamp = now,
            data_ev = JObj [(''rowCount'', JNum (rat_of_nat (length newData)))]\<rparr> ws2)"

definition onGridFiltered :: "string \<Rightarrow> jsval \<Rightarrow> nat \<Rightarrow> WebSocketManager \<Rightarrow> WebSocketManager" where
  "onGridFiltered gridId filterModel displayedRows ws =
     (let ws1 = updateGridState gridId (FiltersUpdate filterModel) ws;
          (now, ws2) = readClock ws1
      in emitGridEvent
           \<lparr>type_ev = grid_filtered, gridId_ev = gridId, timestamp = now,
            data_ev = JObj [(''filterModel'', filterModel),
                           (''displayedRows'', JNum (rat_of_nat displayedRows))]\<rparr> ws2)"

definition onGridSorted :: "string \<Rightarrow> jsval \<Rightarrow> WebSocketManager \<Rightarrow> WebSocketManager" where
  "onGridSorted gridId sortModel ws =
     (let ws1 = updateGridState gridId (SortingUpdate sortModel) ws;
          (now, ws2) = readClock ws1
      in emitGridEvent
           \<lparr>type_ev = grid_sorted, gridId_ev = gridId, timestamp = now,
            data_ev = JObj [(''sortModel'', sortModel)]\<rparr> ws2)"

definition onGridExported :: "string \<Rightarrow> string \<Rightarrow> string \<Rightarrow> WebSocketManager \<Rightarrow> WebSocketManager" where
  "onGridExported gridId format fname ws =
     (let (now, ws1) = readClock ws
      in emitGridEvent
           \<lparr>type_ev = grid_exported, gridId_ev = gridId, timestamp = now,
            data_ev = JObj [(''format'', JStr format), (''filename'', JStr fname)]\<rparr> ws1)"

subsection \<open>Manager state\<close>

record GridInstance =
  id_g :: string
  page :: Page
  config :: GridConfig
  createdAt :: nat
  lastUpdated :: nat
  isDestroyed :: bool

text \<open>
  The browser: \<open>closeError\<close> is the message \<^verbatim>\<open>browser.close()\<close> would throw, if any;
  \<open>pagesOpened\<close> counts the pages it has handed out.
\<close>

record Browser =
  closeError :: "string option"
  pagesOpened :: nat

text \<open>
  \<open>grids\<close> is the \<^verbatim>\<open>Map\<close> from identifier to instance, in insertion order
  (\<^verbatim>\<open>get\<close> is \<open>map_of\<close>, \<^verbatim>\<open>set\<close> is \<open>AList.update\<close>, \<^verbatim>\<open>delete\<close> is \<open>AList.delete\<close>).
  Writes to the console are not represented.
\<close>

record GridManager =
  browser :: "Browser option"
  grids :: "(string \<times> GridInstance) list"
  isInitialized :: bool
  webSocketManager :: "WebSocketManager option"

type_synonym 'a outcome = "(js_error + 'a) \<times> GridManager"

text \<open>\<^verbatim>\<open>if (this.webSocketManager) this.webSocketManager.on...(...)\<close>\<close>

definition emit :: "(WebSocketManager \<Rightarrow> WebSocketManager) \<Rightarrow> GridManager \<Rightarrow> GridManager" where
  "emit call m =
     (case webSocketManager m of
        None \<Rightarrow> m
      | Some ws \<Rightarrow> m\<lparr>webSocketManager := Some (call ws)\<rparr>)"

text \<open>
  The instance holds the page by reference: after a round trip the page reached
  through the registry is the page as the round trip left it.
\<close>

definition withPage :: "string \<Rightarrow> GridInstance \<Rightarrow> Page \<Rightarrow> GridManager \<Rightarrow> GridManager" where
  "withPage gridId grid p m = m\<lparr>grids := AList.update gridId (grid\<lparr>page := p\<rparr>) (grids m)\<rparr>"

definition initialize :: "string + Browser \<Rightarrow> GridManager \<Rightarrow> unit outcome" where
  "initialize launch m =
     (if isInitialized m then (Inr (), m)
      else case launch of
        Inl e \<Rightarrow> (Inl (GridManagerError BROWSER_INIT_FAILED None (Some (Error e))), m)
      | Inr b \<Rightarrow> (Inr (), m\<lparr>browser := Some b, isInitialized := True\<rparr>))"

definition getGridInstance :: "GridManager \<Rightarrow> string \<Rightarrow> js_error + GridInstance" where
  "getGridInstance m gridId =
     (case map_of (grids m) gridId of
        None \<Rightarrow> Inl (GridManagerError GRID_NOT_FOUND (Some gridId) None)
      | Some grid \<Rightarrow>
          if isDestroyed grid then Inl (GridManagerError GRID_DESTROYED (Some gridId) None)
          else Inr grid)"

subsection \<open>createGrid\<close>

text \<open>
  What \<^verbatim>\<open>createGrid\<close> takes from its environment: the identifier \<^verbatim>\<open>generateGridId\<close>
  mints, the clock, the outcome of \<^verbatim>\<open>browser.newPage()\<close> (a page, or the message
  thrown) and the outcome of reading grid.html.
\<close>

record CreateEnv =
  newGridId :: string
  clock :: nat
  newPage :: "string + Page"
  gridHtml :: "string + string"

text \<open>
  The steps of the \<^verbatim>\<open>try\<close> block between \<^verbatim>\<open>newPage\<close> and the insertion into the
  registry: viewport, grid.html, wait for \<^verbatim>\<open>window.createAGGrid\<close>, create the grid. The
  answer is the page with its grid, or what was thrown.
\<close>

definition preparePage :: "CreateEnv \<Rightarrow> jsval \<Rightarrow> Page \<Rightarrow> js_error + Page" where
  "preparePage env cfg p0 =
     (case roundTrip OpSetViewport p0 of
        (Some e, p1) \<Rightarrow> Inl (Error e)
      | (None, p1) \<Rightarrow>
         (case gridHtml env of
            Inl e \<Rightarrow> Inl (GridManagerError HTML_LOAD_FAILED None (Some (Error e)))
          | Inr htmlContent \<Rightarrow>
             (case roundTrip OpSetContent p1 of
                (Some e, p2) \<Rightarrow> Inl (Error e)
              | (None, p2) \<Rightarrow>
                 (case roundTrip OpWaitForFunction p2 of
                    (Some e, p3) \<Rightarrow> Inl (Error e)
                  | (None, p3) \<Rightarrow>
                     (case pageCreateGrid cfg p3 of
                        (Inl e, p4) \<Rightarrow> Inl e
                      | (Inr (Inl msg), p4) \<Rightarrow>
                          Inl (Error (if msg \<noteq> [] then msg
                                      else ''Unknown error creating grid''))
                      | (Inr (Inr u), p4) \<Rightarrow> Inr p4)))))"

definition creationFailed :: "string \<Rightarrow> js_error \<Rightarrow> GridManager \<Rightarrow> string outcome" where
  "creationFailed gridId cause m =
     (Inl (GridManagerError GRID_CREATION_FAILED (Some gridId) (Some cause)), m)"

definition createGrid :: "CreateEnv \<Rightarrow> GridManager \<Rightarrow> jsval \<Rightarrow> string outcome" where
  "createGrid env m cfg =
     (case browser m of
        None \<Rightarrow> (Inl (GridManagerError NOT_INITIALIZED None None), m)
      | Some b \<Rightarrow>
         (if \<not> isInitialized m then (Inl (GridManagerError NOT_INITIALIZED None None), m)
          else if \<not> GridConfigSchema cfg
            then (Inl (GridManagerError INVALID_CONFIG None (Some ZodError)), m)
          else
            (let gridId = newGridId env in
             (case newPage env of
                Inl e \<Rightarrow> creationFailed gridId (Error e) m
              | Inr p0 \<Rightarrow>
                 (let m1 = m\<lparr>browser := Some (b\<lparr>pagesOpened := pagesOpened b + 1\<rparr>)\<rparr> in
                  (case preparePage env cfg p0 of
                     Inl cause \<Rightarrow> creationFailed gridId cause m1
                   | Inr p4 \<Rightarrow>
                      (let gridInstance =
                             \<lparr>id_g = gridId, page = p4, config = asGridConfig cfg,
                              createdAt = clock env, lastUpdated = clock env,
                              isDestroyed = False\<rparr>;
                           m2 = m1\<lparr>grids := AList.update gridId gridInstance (grids m1)\<rparr>
                       in (Inr gridId,
                           emit (onGridCreated gridId cfg (rowData (asGridConfig cfg))) m2))))))))"

subsection \<open>updateGridData\<close>

definition updateGridData :: "nat \<Rightarrow> GridManager \<Rightarrow> string \<Rightarrow> row list \<Rightarrow> unit outcome" where
  "updateGridData now m gridId newRows =
     (case getGridInstance m gridId of
        Inl e \<Rightarrow> (Inl e, m)
      | Inr grid \<Rightarrow>
         (case pageUpdateGridData newRows (page grid) of
            (Inl e, p1) \<Rightarrow>
              (Inl (GridManagerError UPDATE_DATA_FAILED (Some gridId) (Some e)),
               withPage gridId grid p1 m)
          | (Inr u, p1) \<Rightarrow>
              (let grid1 = grid\<lparr>page := p1,
                                config := (config grid)\<lparr>rowData := newRows\<rparr>,
                                lastUpdated := now\<rparr>;
                   m1 = m\<lparr>grids := AList.update gridId grid1 (grids m)\<rparr>
               in (Inr (), emit (onGridDataUpdated gridId newRows) m1))))"

subsection \<open>executeGridMethod\<close>

text \<open>\<^verbatim>\<open>params && params[0]\<close>, as a condition.\<close>

definition firstParam :: "jsval list option \<Rightarrow> jsval" where
  "firstParam params =
     (case params of None \<Rightarrow> JUndefined | Some [] \<Rightarrow> JUndefined | Some (x # xs) \<Rightarrow> x)"

definition methodFailed :: "string \<Rightarrow> js_error \<Rightarrow> js_error" where
  "methodFailed gridId cause = GridManagerError METHOD_EXECUTION_FAILED (Some gridId) (Some cause)"

definition executeGridMethod ::
  "grid_api \<Rightarrow> GridManager \<Rightarrow> string \<Rightarrow> string \<Rightarrow> jsval list option \<Rightarrow> jsval outcome" where
  "executeGridMethod api m gridId method params =
     (case getGridInstance m gridId of
        Inl e \<Rightarrow> (Inl e, m)
      | Inr grid \<Rightarrow>
         (case pageApiMethod api method params (page grid) of
            (Inl e, p1) \<Rightarrow> (Inl (methodFailed gridId e), withPage gridId grid p1 m)
          | (Inr result, p1) \<Rightarrow>
             (if webSocketManager m \<noteq> None
                 \<and> method = ''setFilterModel'' \<and> truthy (firstParam params)
              then
                (case pageDisplayedRowCount p1 of
                   (Inl e, p2) \<Rightarrow> (Inl (methodFailed gridId e), withPage gridId grid p2 m)
                 | (Inr displayedRows, p2) \<Rightarrow>
                     (Inr result,
                      emit (onGridFiltered gridId (firstParam params) displayedRows)
                        (withPage gridId grid p2 m)))
              else if webSocketManager m \<noteq> None
                 \<and> method = ''applyColumnState'' \<and> truthy (firstParam params)
              then (Inr result,
                    emit (onGridSorted gridId (firstParam params)) (withPage gridId grid p1 m))
              else (Inr result, withPage gridId grid p1 m))))"

subsection \<open>exportGridData\<close>

record ExportResult =
  data_e :: string
  format_e :: string
  filename :: string

text \<open>\<^verbatim>\<open>new Date().toISOString().replace(/[:.]/g, '-')\<close>, from the ISO string of the clock.\<close>

definition exportTimestamp :: "string \<Rightarrow> string" where
  "exportTimestamp isoNow = map (\<lambda>c. if c = CHR '':'' \<or> c = CHR ''.'' then CHR ''-'' else c) isoNow"

definition exportFailed :: "string \<Rightarrow> js_error \<Rightarrow> js_error" where
  "exportFailed gridId cause = GridManagerError EXPORT_FAILED (Some gridId) (Some cause)"

definition exportGridData ::
  "string \<Rightarrow> GridManager \<Rightarrow> string \<Rightarrow> string \<Rightarrow> ExportResult outcome" where
  "exportGridData isoNow m gridId format =
     (case getGridInstance m gridId of
        Inl e \<Rightarrow> (Inl e, m)
      | Inr grid \<Rightarrow>
         (if \<not> ExportFormatSchema format
          then (Inl (GridManagerError INVALID_EXPORT_FORMAT (Some gridId) (Some ZodError)), m)
          else
            (let timestamp = exportTimestamp isoNow;
                 fname = ''grid-export-'' @ gridId @ ''-'' @ timestamp @ ''.'' @ format
             in if format = ''csv'' \<or> format = ''excel''
                then
                  (case pageGetDataAsCsv (page grid) of
                     (Inl e, p1) \<Rightarrow> (Inl (exportFailed gridId e), withPage gridId grid p1 m)
                   | (Inr csv, p1) \<Rightarrow>
                       (Inr \<lparr>data_e = csv, format_e = format, filename = fname\<rparr>,
                        emit (onGridExported gridId format fname) (withPage gridId grid p1 m)))
                else
                  (Inl (exportFailed gridId (Error (''Unsupported export format: '' @ format))),
                   m))))"

subsection \<open>getGridState\<close>

definition getGridState :: "GridManager \<Rightarrow> string \<Rightarrow> GridState outcome" where
  "getGridState m gridId =
     (case getGridInstance m gridId of
        Inl e \<Rightarrow> (Inl e, m)
      | Inr grid \<Rightarrow>
         (case pageReadState (page grid) of
            (Inl e, p1) \<Rightarrow>
              (Inl (GridManagerError GET_STATE_FAILED (Some gridId) (Some e)),
               withPage gridId grid p1 m)
          | (Inr state, p1) \<Rightarrow> (Inr state, withPage gridId grid p1 m)))"

subsection \<open>destroyGrid\<close>

definition destroyFailed :: "string \<Rightarrow> js_error \<Rightarrow> js_error" where
  "destroyFailed gridId cause = GridManagerError DESTROY_FAILED (Some gridId) (Some cause)"

text \<open>\<^verbatim>\<open>this.grids.delete(gridId)\<close> and the notification that follows it.\<close>

definition removeFromMap :: "string \<Rightarrow> GridManager \<Rightarrow> GridManager" where
  "removeFromMap gridId m = emit (removeGrid gridId) (m\<lparr>grids := AList.delete gridId (grids m)\<rparr>)"

definition destroyGrid :: "GridManager \<Rightarrow> string \<Rightarrow> unit outcome" where
  "destroyGrid m gridId =
     (case map_of (grids m) gridId of
        None \<Rightarrow> (Inl (GridManagerError GRID_NOT_FOUND (Some gridId) None), m)
      | Some grid \<Rightarrow>
         (if \<not> isDestroyed grid then
            (case pageApiDestroy (page grid) of
               (Inl e, p1) \<Rightarrow> (Inl (destroyFailed gridId e), withPage gridId grid p1 m)
             | (Inr u, p1) \<Rightarrow>
                (case pageClose p1 of
                   (Inl e, p2) \<Rightarrow> (Inl (destroyFailed gridId e), withPage gridId grid p2 m)
                 | (Inr u, p2) \<Rightarrow> (Inr (), removeFromMap gridId m)))
          else (Inr (), removeFromMap gridId m)))"

subsection \<open>cleanup, getActiveGrids, getGridInfo\<close>

text \<open>
  \<^verbatim>\<open>for (const gridId of gridIds) { try { await this.destroyGrid(gridId) } catch { log } }\<close>
\<close>

fun destroyAll :: "string list \<Rightarrow> GridManager \<Rightarrow> GridManager" where
  "destroyAll [] m = m"
| "destroyAll (gridId # gridIds) m = destroyAll gridIds (snd (destroyGrid m gridId))"

text \<open>\<^verbatim>\<open>cleanup\<close> has no \<^verbatim>\<open>throw\<close> of its own and catches what its calls throw.\<close>

definition cleanup :: "GridManager \<Rightarrow> unit outcome" where
  "cleanup m =
     (let gridIds = map fst (grids m);
          m1 = destroyAll gridIds m;
          m2 = (case browser m1 of
                  None \<Rightarrow> m1
                | Some b \<Rightarrow>
                   (case closeError b of
                      None \<Rightarrow> m1\<lparr>browser := None\<rparr>
                    | Some e \<Rightarrow> m1))
      in (Inr (), m2\<lparr>isInitialized := False\<rparr>))"

definition getActiveGrids :: "GridManager \<Rightarrow> string list" where
  "getActiveGrids m =
     filter (\<lambda>gid. \<not> (case map_of (grids m) gid of None \<Rightarrow> False | Some g \<Rightarrow> isDestroyed g))
       (map fst (grids m))"

record GridInfo =
  id_i :: string
  config_i :: GridConfig
  createdAt_i :: nat
  lastUpdated_i :: nat
  isDestroyed_i :: bool

definition getGridInfo :: "GridManager \<Rightarrow> string \<Rightarrow> js_error + GridInfo" where
  "getGridInfo m gridId =
     (case getGridInstance m gridId of
        Inl e \<Rightarrow> Inl e
      | Inr grid \<Rightarrow>
          Inr \<lparr>id_i = id_g grid, config_i = config grid, createdAt_i = createdAt grid,
               lastUpdated_i = lastUpdated grid, isDestroyed_i = isDestroyed grid\<rparr>)"

section \<open>Summaries of a grid (data-resources.ts, continued)\<close>

text \<open>
  \<^verbatim>\<open>currentData.map((node) => node.data)\<close> for a truthy \<^verbatim>\<open>currentData\<close>, followed by the
  reads \<^verbatim>\<open>row[field]\<close> that \<^verbatim>\<open>analyzeColumnData\<close> makes for each declared column. A value
  without a \<^verbatim>\<open>map\<close> method, a node that is \<^verbatim>\<open>null\<close> or \<^verbatim>\<open>undefined\<close>, and (when there
  is a column to analyze) a node whose data is \<^verbatim>\<open>null\<close> or \<^verbatim>\<open>undefined\<close> raise a
  \<^verbatim>\<open>TypeError\<close>. Data that is not a plain object is read like an object without own
  properties; what strings and arrays have of their own (length, indices, the members
  of their prototypes) is not represented.
\<close>

definition nullish :: "jsval \<Rightarrow> bool" where
  "nullish v = (v = JNull \<or> v = JUndefined)"

definition rowOf :: "jsval \<Rightarrow> row" where
  "rowOf v = (case v of JObj kvs \<Rightarrow> kvs | _ \<Rightarrow> [])"

definition renderedRowData :: "jsval \<Rightarrow> ColumnDef list \<Rightarrow> js_error + row list" where
  "renderedRowData currentData cols =
     (case currentData of
        JArr nodes \<Rightarrow>
          if list_ex nullish nodes
            then Inl (Error ''TypeError: Cannot read properties of null or undefined'')
          else if cols \<noteq> [] \<and> list_ex (\<lambda>node. nullish (getProp node ''data'')) nodes
            then Inl (Error ''TypeError: Cannot read properties of null or undefined'')
          else Inr (map (\<lambda>node. rowOf (getProp node ''data'')) nodes)
      | _ \<Rightarrow> Inl (Error ''TypeError: currentData.map is not a function''))"

definition summaryFailed :: "string \<Rightarrow> js_error \<Rightarrow> js_error" where
  "summaryFailed gridId cause =
     GridManagerError SUMMARY_GENERATION_FAILED (Some gridId) (Some cause)"

text \<open>\<open>now\<close> is \<^verbatim>\<open>new Date().toISOString()\<close> at the end of the computation.\<close>

definition generateGridSummary ::
  "grid_api \<Rightarrow> (string \<Rightarrow> bool) \<Rightarrow> nat \<Rightarrow> string \<Rightarrow> GridManager \<Rightarrow> string
     \<Rightarrow> GridSummaryStats outcome" where
  "generateGridSummary api dateParse maxArgs now m gridId =
     (case getGridInfo m gridId of
        Inl e \<Rightarrow> (Inl (summaryFailed gridId e), m)
      | Inr gridInfo \<Rightarrow>
         (case getGridState m gridId of
            (Inl e, m1) \<Rightarrow> (Inl (summaryFailed gridId e), m1)
          | (Inr gridState, m1) \<Rightarrow>
             (case executeGridMethod api m1 gridId ''getRenderedNodes'' None of
                (Inl e, m2) \<Rightarrow> (Inl (summaryFailed gridId e), m2)
              | (Inr currentData, m2) \<Rightarrow>
                 (case (if truthy currentData
                        then renderedRowData currentData (columnDefs (config_i gridInfo))
                        else Inr (rowData (config_i gridInfo))) of
                    Inl e \<Rightarrow> (Inl (summaryFailed gridId e), m2)
                  | Inr rows \<Rightarrow>
                     (case summarizeRows dateParse maxArgs now gridId rows
                             (columnDefs (config_i gridInfo)) of
                        Inl e \<Rightarrow> (Inl (summaryFailed gridId e), m2)
                      | Inr summary \<Rightarrow> (Inr summary, m2))))))"

section \<open>The specification's wording\<close>

subsection \<open>Shares of a sample\<close>

fun isNumber :: "jsval \<Rightarrow> bool" where
  "isNumber (JNum n) = True"
| "isNumber v = False"

fun isBoolean :: "jsval \<Rightarrow> bool" where
  "isBoolean (JBool b) = True"
| "isBoolean v = False"

fun isDateLike :: "(string \<Rightarrow> bool) \<Rightarrow> jsval \<Rightarrow> bool" where
  "isDateLike dateParse (JDate d) = True"
| "isDateLike dateParse (JStr s) = dateParse s"
| "isDateLike dateParse v = False"

text \<open>More than 80 percent, and at least 80 percent, of a sample satisfy \<open>P\<close>.\<close>

definition moreThan80 :: "(jsval \<Rightarrow> bool) \<Rightarrow> jsval list \<Rightarrow> bool" where
  "moreThan80 P sample = (10 * length (filter P sample) > 8 * length sample)"

definition atLeast80 :: "(jsval \<Rightarrow> bool) \<Rightarrow> jsval list \<Rightarrow> bool" where
  "atLeast80 P sample = (10 * length (filter P sample) \<ge> 8 * length sample)"

text \<open>The inferred type as the specification words it, with thresholds of at least 80 percent.\<close>

definition inferredTypeSpec :: "(string \<Rightarrow> bool) \<Rightarrow> jsval list \<Rightarrow> string" where
  "inferredTypeSpec dateParse values =
     (let sample = take 10 values
      in if atLeast80 isNumber sample then ''number''
         else if atLeast80 isBoolean sample then ''boolean''
         else if atLeast80 (isDateLike dateParse) sample then ''date''
         else ''text'')"

subsection \<open>Sort state\<close>

definition sortIndexKey :: "ColumnStateItem \<Rightarrow> int" where
  "sortIndexKey col = (case sortIndex col of None \<Rightarrow> 0 | Some i \<Rightarrow> i)"

text \<open>
  Keep the entries whose sort is not null, then order them by sort index, ascending,
  entries with equal index staying in their original order (\<open>sort_key\<close> is the
  library's stable sort). An entry without a sort index is keyed 0.
\<close>

definition sortStateSpec :: "ColumnStateItem list \<Rightarrow> ColumnStateItem list" where
  "sortStateSpec cols = sort_key sortIndexKey (filter (\<lambda>col. sort col \<noteq> JNull) cols)"

subsection \<open>Tearing a grid down\<close>

text \<open>
  The surface of an instance lets itself be torn down: the instance is already marked
  destroyed, or neither the grid's destroy call nor closing the page throws.
\<close>

definition teardownWorks :: "GridInstance \<Rightarrow> bool" where
  "teardownWorks g =
     (isDestroyed g
      \<or> (map_of (faults (page g)) OpApiDestroy = None
         \<and> map_of (faults (page g)) OpClosePage = None))"

definition destroyWorks :: "GridManager \<Rightarrow> string \<Rightarrow> bool" where
  "destroyWorks m gridId =
     (case map_of (grids m) gridId of None \<Rightarrow> True | Some g \<Rightarrow> teardownWorks g)"

subsection \<open>The configuration schema as the specification words it\<close>

definition columnFields :: "jsval \<Rightarrow> string list" where
  "columnFields cfg = map field (objectsOf (getProp cfg ''columnDefs''))"

text \<open>A non-empty ordered column list with unique field identifiers, rows, optional options.\<close>

definition specConfigSchema :: "jsval \<Rightarrow> bool" where
  "specConfigSchema cfg =
     (GridConfigSchema cfg \<and> columnFields cfg \<noteq> [] \<and> distinct (columnFields cfg))"

subsection \<open>Null counts and completeness\<close>

definition nullEntries :: "row list \<Rightarrow> string \<Rightarrow> nat" where
  "nullEntries rows fld = length (filter (\<lambda>r. cell r fld = JNull \<or> cell r fld = JUndefined) rows)"

definition totalNulls :: "row list \<Rightarrow> ColumnDef list \<Rightarrow> nat" where
  "totalNulls rows cols = sum_list (map (\<lambda>c. nullEntries rows (field c)) cols)"

definition roundTo2 :: "rat \<Rightarrow> rat" where
  "roundTo2 x = rat_of_int (round (x * 100)) / 100"

text \<open>\<open>100 \<times> (1 - totalNulls / (N \<times> C))\<close>, rounded to two decimal places.\<close>

definition completenessSpec :: "row list \<Rightarrow> ColumnDef list \<Rightarrow> rat" where
  "completenessSpec rows cols =
     roundTo2 (100 * (1 - rat_of_nat (totalNulls rows cols)
                            / rat_of_nat (length rows * length cols)))"

subsection \<open>The rows a summary is about\<close>

text \<open>The row a rendered row node carries: its \<^verbatim>\<open>data\<close>, an object.\<close>

fun nodeRow :: "jsval \<Rightarrow> row option" where
  "nodeRow (JObj kvs) = (case map_of kvs ''data'' of Some (JObj d) \<Rightarrow> Some d | _ \<Rightarrow> None)"
| "nodeRow v = None"

text \<open>
  The row snapshot, given what the grid answered when asked for its rendered nodes and
  the rows the manager has stored for the grid: an array of row nodes stands for the
  rows the nodes carry, in its order; \<^verbatim>\<open>undefined\<close>, \<^verbatim>\<open>null\<close> and the other falsy answers
  leave the stored rows. \<open>None\<close> for any other answer.
\<close>

fun snapshotSpec :: "jsval \<Rightarrow> row list \<Rightarrow> row list option" where
  "snapshotSpec (JArr nodes) stored = those (map nodeRow nodes)"
| "snapshotSpec v stored = (if truthy v then None else Some stored)"

section \<open>Sample grids\<close>

definition priceRows :: "row list" where
  "priceRows = [[(''price'', JNum 10)], [(''price'', JNull)], [(''price'', JNum 30)]]"

definition priceColumn :: ColumnDef where
  "priceColumn = [(''field'', JStr ''price'')]"

text \<open>The column state of a fresh price grid: the engine's selection column, then \<open>price\<close>.\<close>

definition priceColumnState :: "ColumnStateItem list" where
  "priceColumnState =
     [\<lparr>colId = ''ag-Grid-SelectionColumn'', sort = JNull, sortIndex = None, otherState = []\<rparr>,
      \<lparr>colId = ''price'', sort = JNull, sortIndex = None, otherState = []\<rparr>]"

text \<open>The page of a grid with the column \<open>price\<close> and three rows, every round trip working.\<close>

definition pricePage :: Page where
  "pricePage =
     \<lparr>gridApi = True, gridBuildError = None, builtColumnState = priceColumnState,
      pgRows = priceRows, pgColumnState = priceColumnState,
      pgFilterModel = [], pgRowPasses = (\<lambda>r. True), pgSelectedRows = [],
      pgCsv = ''price'', pgGridDestroyed = False, pgClosed = False,
      faults = [], calls = []\<rparr>"

definition gridOn :: "string \<Rightarrow> Page \<Rightarrow> string \<times> GridInstance" where
  "gridOn gridId p =
     (gridId,
      \<lparr>id_g = gridId, page = p,
       config = \<lparr>columnDefs = [priceColumn], rowData = priceRows, gridOptions = None\<rparr>,
       createdAt = 0, lastUpdated = 0, isDestroyed = False\<rparr>)"

text \<open>A sink that has seen nothing yet, on a clock that stands still.\<close>

definition freshSink :: WebSocketManager where
  "freshSink = \<lparr>gridStates = [], broadcasts = [],
                clockAt = (\<lambda>n. ''2025-01-01T00:00:00.000Z''), clockReads = 0\<rparr>"

text \<open>An initialized manager with a sink attached, holding the given grids.\<close>

definition managerOf :: "(string \<times> GridInstance) list \<Rightarrow> GridManager" where
  "managerOf gs =
     \<lparr>browser = Some \<lparr>closeError = None, pagesOpened = length gs\<rparr>, grids = gs,
      isInitialized = True, webSocketManager = Some freshSink\<rparr>"

text \<open>
  The same page with five columns: \<open>a\<close> sorted with index 1, \<open>b\<close> unsorted, \<open>c\<close> sorted
  with index 0, \<open>d\<close> sorted without an index, \<open>e\<close> sorted with index 1.
\<close>

definition sortedPage :: Page where
  "sortedPage =
     pricePage\<lparr>pgColumnState :=
       [\<lparr>colId = ''a'', sort = JStr ''asc'', sortIndex = Some 1, otherState = []\<rparr>,
        \<lparr>colId = ''b'', sort = JNull, sortIndex = None, otherState = []\<rparr>,
        \<lparr>colId = ''c'', sort = JStr ''desc'', sortIndex = Some 0, otherState = []\<rparr>,
        \<lparr>colId = ''d'', sort = JStr ''asc'', sortIndex = None, otherState = []\<rparr>,
        \<lparr>colId = ''e'', sort = JStr ''desc'', sortIndex = Some 1, otherState = []\<rparr>]\<rparr>"

text \<open>The same page with a filter on \<open>price\<close> that lets one of the three rows through.\<close>

definition filteredPage :: Page where
  "filteredPage =
     pricePage\<lparr>pgFilterModel := [(''price'', JObj [(''filterType'', JStr ''number''),
                                                  (''type'', JStr ''equals''),
                                                  (''filter'', JNum 10)])],
               pgRowPasses := (\<lambda>r. cell r ''price'' = JNum 10)\<rparr>"

text \<open>Pages on which one round trip throws.\<close>

definition brokenDestroyPage :: Page where
  "brokenDestroyPage = pricePage\<lparr>faults := [(OpApiDestroy, ''Target closed'')]\<rparr>"

definition brokenCountPage :: Page where
  "brokenCountPage = pricePage\<lparr>faults := [(OpGetDisplayedRowCount, ''Target closed'')]\<rparr>"

text \<open>
  A grid API that knows \<open>setFilterModel\<close>, \<open>applyColumnState\<close> and \<open>getRenderedNodes\<close>
  (whose row nodes do not survive the trip back from the page and arrive as
  \<^verbatim>\<open>undefined\<close>) and nothing else.
\<close>

definition sampleApi :: grid_api where
  "sampleApi methodName args p =
     (if methodName = ''setFilterModel''
        then Inr (JUndefined, p\<lparr>pgFilterModel := (case args of JObj kvs # rest \<Rightarrow> kvs | _ \<Rightarrow> [])\<rparr>)
      else if methodName = ''applyColumnState'' then Inr (JBool True, p)
      else if methodName = ''getRenderedNodes'' then Inr (JUndefined, p)
      else Inl (Error (''Method '' @ methodName @ '' not found on grid API'')))"

definition statusFilter :: jsval where
  "statusFilter = JObj [(''status'', JObj [(''filterType'', JStr ''set''),
                                          (''values'', JArr [JStr ''completed''])])]"

text \<open>What \<open>createGrid\<close> finds on a healthy host, and a configuration for the price grid.\<close>

definition blankPage :: Page where
  "blankPage =
     \<lparr>gridApi = False, gridBuildError = None, builtColumnState = priceColumnState,
      pgRows = [], pgColumnState = [],
      pgFilterModel = [], pgRowPasses = (\<lambda>r. True), pgSelectedRows = [],
      pgCsv = [], pgGridDestroyed = False, pgClosed = False, faults = [], calls = []\<rparr>"

definition sampleEnv :: CreateEnv where
  "sampleEnv = \<lparr>newGridId = ''grid_1'', clock = 0, newPage = Inr blankPage,
                gridHtml = Inr ''<html></html>''\<rparr>"

definition priceConfig :: jsval where
  "priceConfig =
     JObj [(''columnDefs'', JArr [JObj priceColumn]),
           (''rowData'', JArr (map JObj priceRows))]"

definition noColumnsConfig :: jsval where
  "noColumnsConfig = JObj [(''columnDefs'', JArr []), (''rowData'', JArr (map JObj priceRows))]"

definition twoPriceColumnsConfig :: jsval where
  "twoPriceColumnsConfig =
     JObj [(''columnDefs'', JArr [JObj priceColumn, JObj priceColumn]),
           (''rowData'', JArr (map JObj priceRows))]"

text \<open>
  Two live grids, the second on a page whose destroy call throws, under a browser whose
  \<^verbatim>\<open>close\<close> throws.
\<close>

definition twoGrids :: GridManager where
  "twoGrids = (managerOf [gridOn ''grid_1'' pricePage, gridOn ''grid_2'' brokenDestroyPage])
                \<lparr>browser := Some \<lparr>closeError = Some ''Connection closed'', pagesOpened = 2\<rparr>\<rparr>"

text \<open>The manager after the price grid has been created on a healthy host.\<close>

definition priceManager :: GridManager where
  "priceManager = snd (createGrid sampleEnv (managerOf []) priceConfig)"


text \<open>A grid API whose \<open>getRenderedNodes\<close> answers with no row node at all.\<close>

definition emptyRenderApi :: grid_api where
  "emptyRenderApi methodName args p =
     (if methodName = ''getRenderedNodes'' then Inr (JArr [], p)
      else Inl (Error (''Method '' @ methodName @ '' not found on grid API'')))"

text \<open>
  A grid with the one column \<open>done\<close> and 160 rows, of which 97 hold \<^verbatim>\<open>true\<close> and 63
  hold \<^verbatim>\<open>null\<close>.
\<close>

definition doneRows :: "row list" where
  "doneRows = replicate 97 [(''done'', JBool True)] @ replicate 63 [(''done'', JNull)]"

definition doneColumn :: ColumnDef where
  "doneColumn = [(''field'', JStr ''done'')]"

definition doneManager :: GridManager where
  "doneManager =
     managerOf [(''grid_1'',
        \<lparr>id_g = ''grid_1'', page = pricePage\<lparr>pgRows := doneRows\<rparr>,
         config = \<lparr>columnDefs = [doneColumn], rowData = doneRows, gridOptions = None\<rparr>,
         createdAt = 0, lastUpdated = 0, isDestroyed = False\<rparr>)]"

section \<open>Facts about the registry\<close>

lemma getGridInstance_single:
  "getGridInstance (managerOf [gridOn gid p]) gid = Inr (snd (gridOn gid p))"
  by (simp add: getGridInstance_def managerOf_def gridOn_def)

lemma map_of_withPage:
  "map_of (grids (withPage gridId grid p m)) gridId = Some (grid\<lparr>page := p\<rparr>)"
  by (simp add: withPage_def update_conv')

lemma grids_emit: "grids (emit ev m) = grids m"
  by (simp add: emit_def split: option.splits)

lemma keys_withPage:
  "map_of (grids m) gridId = Some grid \<Longrightarrow>
     map fst (grids (withPage gridId grid' p m)) = map fst (grids m)"
  by (auto simp: withPage_def update_keys dest: map_of_SomeD intro: rev_image_eqI)

lemma webSocketManager_withPage:
  "webSocketManager (withPage gridId grid p m) = webSocketManager m"
  by (simp add: withPage_def)

lemma getGridInstance_withPage:
  "\<not> isDestroyed grid \<Longrightarrow>
     getGridInstance (withPage gridId grid p m) gridId = Inr (grid\<lparr>page := p\<rparr>)"
  by (simp add: getGridInstance_def map_of_withPage)

lemma getActiveGrids_withPage:
  assumes "map_of (grids m) gridId = Some grid" "\<not> isDestroyed grid"
  shows "gridId \<in> set (getActiveGrids (withPage gridId grid p m))"
proof -
  from assms(1) have "gridId \<in> set (map fst (grids m))"
    by (auto dest: map_of_SomeD intro: rev_image_eqI)
  with assms show ?thesis
    by (simp add: getActiveGrids_def map_of_withPage keys_withPage [OF assms(1)]
          del: set_map)
qed

text \<open>Creating the price grid on a healthy host.\<close>

lemma createGrid_price:
  "createGrid sampleEnv (managerOf []) priceConfig
     = (Inr ''grid_1'',
        \<lparr>browser = Some \<lparr>closeError = None, pagesOpened = 1\<rparr>,
         grids = [(''grid_1'',
                   \<lparr>id_g = ''grid_1'',
                    page = pricePage\<lparr>pgCsv := [],
                            calls := [OpSetViewport, OpSetContent, OpWaitForFunction,
                                      OpCreateAGGrid]\<rparr>,
                    config = \<lparr>columnDefs = [priceColumn], rowData = priceRows,
                              gridOptions = None\<rparr>,
                    createdAt = 0, lastUpdated = 0, isDestroyed = False\<rparr>)],
         isInitialized = True,
         webSocketManager = Some (onGridCreated ''grid_1'' priceConfig priceRows freshSink)\<rparr>)"
  by (simp add: createGrid_def managerOf_def sampleEnv_def priceConfig_def preparePage_def
        roundTrip_def blankPage_def pageCreateGrid_def createAGGrid_def getProp_def cell_def
        inherited_def objectPrototypeKeys_def
        isArray_def zOptional_def priceColumn_def priceRows_def asGridConfig_def Let_def
        emit_def pricePage_def field_def)

section \<open>Facts about double-precision rounding\<close>

lemma roundEven_of_int: "roundEven (rat_of_int z) = z"
  by (simp add: roundEven_def)

lemma roundEven_error: "\<bar>rat_of_int (roundEven y) - y\<bar> \<le> 1 / 2"
proof -
  have "rat_of_int \<lfloor>y\<rfloor> \<le> y" "y < rat_of_int \<lfloor>y\<rfloor> + 1"
    by linarith+
  then show ?thesis
    by (auto simp: roundEven_def Let_def abs_le_iff)
qed

lemma powi_of_bitlen:
  assumes "0 < (p::int)"
  shows "(2::rat) powi (bitlen p - 1) \<le> rat_of_int p" and "rat_of_int p < 2 powi (bitlen p)"
proof -
  from assms have b: "1 \<le> bitlen p"
    by (metis bitlen_eq_zero_iff bitlen_nonneg int_one_le_iff_zero_less not_less order_le_less)
  from bitlen_bounds [OF assms]
  have l: "2 ^ nat (bitlen p - 1) \<le> p" and u: "p < 2 ^ nat (bitlen p)" by simp_all
  from l have "rat_of_int (2 ^ nat (bitlen p - 1)) \<le> rat_of_int p"
    by (simp only: of_int_le_iff)
  moreover have "(2::rat) powi (bitlen p - 1) = 2 ^ nat (bitlen p - 1)"
    using b by (simp add: power_int_def)
  ultimately show "(2::rat) powi (bitlen p - 1) \<le> rat_of_int p" by simp
  from u have "rat_of_int p < rat_of_int (2 ^ nat (bitlen p))"
    by (simp only: of_int_less_iff)
  moreover have "(2::rat) powi (bitlen p) = 2 ^ nat (bitlen p)"
    using b by (simp add: power_int_def)
  ultimately show "rat_of_int p < 2 powi (bitlen p)" by simp
qed

lemma expo_bounds:
  assumes "x \<noteq> 0"
  shows "(2::rat) powi (expo x) \<le> \<bar>x\<bar>" and "\<bar>x\<bar> < 2 powi (expo x + 1)"
proof -
  obtain p q where pq: "quotient_of \<bar>x\<bar> = (p, q)" by (cases "quotient_of \<bar>x\<bar>")
  then have q: "0 < q" by (rule quotient_of_denom_pos)
  from pq have x: "\<bar>x\<bar> = rat_of_int p / rat_of_int q" by (rule quotient_of_div)
  from assms have "0 < \<bar>x\<bar>" by simp
  with x q have p: "0 < p" by (simp add: zero_less_divide_iff)
  let ?d = "bitlen p - bitlen q"
  have up: "\<bar>x\<bar> < 2 powi (?d + 1)"
  proof -
    have "rat_of_int p < 2 powi (bitlen p)" using p by (rule powi_of_bitlen)
    moreover have "(2::rat) powi (bitlen q - 1) \<le> rat_of_int q" using q by (rule powi_of_bitlen)
    ultimately have "rat_of_int p * 2 powi (bitlen q - 1) < 2 powi (bitlen p) * rat_of_int q"
      using q p by (intro mult_less_le_imp_less) simp_all
    then have "rat_of_int p / rat_of_int q < 2 powi (bitlen p) / 2 powi (bitlen q - 1)"
      using q by (simp add: divide_less_eq less_divide_eq field_simps)
    also have "\<dots> = 2 powi (?d + 1)"
    proof -
      have eq: "?d + 1 = bitlen p - (bitlen q - 1)" by simp
      show ?thesis by (subst eq) (simp add: power_int_diff)
    qed
    finally show ?thesis by (simp add: x)
  qed
  have lo: "(2::rat) powi (?d - 1) \<le> \<bar>x\<bar>"
  proof -
    have "(2::rat) powi (bitlen p - 1) \<le> rat_of_int p" using p by (rule powi_of_bitlen)
    moreover have "rat_of_int q < 2 powi (bitlen q)" using q by (rule powi_of_bitlen)
    ultimately have "2 powi (bitlen p - 1) * rat_of_int q \<le> rat_of_int p * 2 powi (bitlen q)"
      using q p by (intro mult_mono) simp_all
    then have "2 powi (bitlen p - 1) / 2 powi (bitlen q) \<le> rat_of_int p / rat_of_int q"
      using q by (simp add: field_simps)
    moreover have "(2::rat) powi (bitlen p - 1) / 2 powi (bitlen q) = 2 powi (?d - 1)"
    proof -
      have eq: "?d - 1 = bitlen p - 1 - bitlen q" by simp
      show ?thesis by (subst eq) (simp add: power_int_diff)
    qed
    ultimately show ?thesis by (simp add: x)
  qed
  have e: "expo x = (if 2 powi ?d \<le> \<bar>x\<bar> then ?d else ?d - 1)"
    by (simp add: expo_def pq Let_def)
  show "(2::rat) powi (expo x) \<le> \<bar>x\<bar>"
    using lo by (simp add: e)
  show "\<bar>x\<bar> < 2 powi (expo x + 1)"
    using up by (simp add: e)
qed

lemma expo_unique:
  assumes "(2::rat) powi e \<le> \<bar>x\<bar>" and "\<bar>x\<bar> < 2 powi (e + 1)"
  shows "expo x = e"
proof -
  from assms(1) have nz: "x \<noteq> 0"
    by (metis abs_zero not_le zero_less_numeral zero_less_power_int)
  note b = expo_bounds [OF nz]
  have "\<not> expo x < e"
  proof
    assume "expo x < e"
    then have "(2::rat) powi (expo x + 1) \<le> 2 powi e"
      by (intro power_int_increasing) simp_all
    with b(2) assms(1) show False by simp
  qed
  moreover have "\<not> e < expo x"
  proof
    assume "e < expo x"
    then have "(2::rat) powi (e + 1) \<le> 2 powi (expo x)"
      by (intro power_int_increasing) simp_all
    with b(1) assms(2) show False by simp
  qed
  ultimately show ?thesis by simp
qed

lemma fl_eq:
  assumes "(2::rat) powi e \<le> \<bar>x\<bar>" and "\<bar>x\<bar> < 2 powi (e + 1)" and "- 1022 \<le> e"
  shows "fl x = rat_of_int (roundEven (x / 2 powi (e - 52))) * 2 powi (e - 52)"
  using assms(3) by (simp add: fl_def expo_unique [OF assms(1) assms(2)] max_def Let_def)

lemma fl_0: "fl 0 = 0"
  by (simp add: fl_def roundEven_def)

lemma expo_normal:
  assumes "(2::rat) powi (- 1022) \<le> \<bar>x\<bar>"
  shows "- 1022 \<le> expo x"
proof (rule ccontr)
  assume "\<not> - 1022 \<le> expo x"
  then have "expo x + 1 \<le> - 1022" by simp
  then have "(2::rat) powi (expo x + 1) \<le> 2 powi (- 1022)"
    by (intro power_int_increasing) simp_all
  moreover from assms have "x \<noteq> 0"
    by (metis abs_zero not_le zero_less_numeral zero_less_power_int)
  then have "\<bar>x\<bar> < 2 powi (expo x + 1)" by (rule expo_bounds)
  ultimately show False using assms by simp
qed

lemma fl_error:
  assumes "(2::rat) powi (- 1022) \<le> \<bar>x\<bar>"
  shows "\<bar>fl x - x\<bar> \<le> \<bar>x\<bar> / 2 ^ 53"
proof -
  from assms have nz: "x \<noteq> 0"
    by (metis abs_zero not_le zero_less_numeral zero_less_power_int)
  let ?e = "expo x"
  let ?u = "(2::rat) powi (?e - 52)"
  have u: "0 < ?u" by simp
  have n: "- 1022 \<le> ?e" using assms by (rule expo_normal)
  have f: "fl x = rat_of_int (roundEven (x / ?u)) * ?u"
    using n by (simp add: fl_def max_def Let_def)
  have "fl x - x = (rat_of_int (roundEven (x / ?u)) - x / ?u) * ?u"
    using u by (simp add: f field_simps)
  then have "\<bar>fl x - x\<bar> = \<bar>rat_of_int (roundEven (x / ?u)) - x / ?u\<bar> * ?u"
    using u by (simp add: abs_mult)
  also have "\<dots> \<le> 1 / 2 * ?u"
    using u roundEven_error [of "x / ?u"] by (intro mult_right_mono) simp_all
  also have "1 / 2 * ?u = 2 powi ?e / 2 ^ 53"
  proof -
    have "(2::rat) powi (?e - 52) = 2 powi ?e / 2 powi 52"
      by (simp add: power_int_diff)
    then show ?thesis by simp
  qed
  also have "\<dots> \<le> \<bar>x\<bar> / 2 ^ 53"
    using expo_bounds(1) [OF nz] by (simp add: divide_right_mono)
  finally show ?thesis .
qed

lemma fl_int:
  assumes "\<bar>k\<bar> \<le> 2 ^ 53"
  shows "fl (rat_of_int k) = rat_of_int k"
proof (cases "k = 0")
  case True
  then show ?thesis by (simp add: fl_0)
next
  case False
  let ?x = "rat_of_int k"
  let ?e = "expo ?x"
  from False have nz: "?x \<noteq> 0" by simp
  note b = expo_bounds [OF nz]
  from False have "1 \<le> \<bar>k\<bar>" by simp
  then have "(1::rat) \<le> \<bar>?x\<bar>"
    by (metis of_int_1 of_int_abs of_int_le_iff)
  with b(2) have "(2::rat) powi 0 < 2 powi (?e + 1)" by simp
  then have e0: "0 \<le> ?e"
    by (smt (verit) power_int_increasing one_le_numeral not_less)
  from assms have "\<bar>?x\<bar> \<le> 2 ^ 53"
    by (metis of_int_abs of_int_le_iff of_int_numeral of_int_power)
  with b(1) have "(2::rat) powi ?e \<le> 2 powi 53" by simp
  then have e53: "?e \<le> 53"
    by (smt (verit) power_int_strict_increasing one_less_numeral_iff semiring_norm(76) not_less)
  have f: "fl ?x = rat_of_int (roundEven (?x / 2 powi (?e - 52))) * 2 powi (?e - 52)"
    using e0 by (simp add: fl_def max_def Let_def)
  show ?thesis
  proof (cases "?e \<le> 52")
    case True
    then have "(2::rat) powi (?e - 52) = 1 / 2 ^ nat (52 - ?e)"
      by (simp add: power_int_def inverse_eq_divide power_inverse [symmetric] del: power_inverse)
         (metis diff_ge_0_iff_ge minus_diff_eq nat_0_iff neg_0_le_iff_le power_0 inverse_eq_divide power_one_over div_by_1)
    then have u: "(2::rat) powi (?e - 52) = 1 / rat_of_int (2 ^ nat (52 - ?e))" by simp
    have "?x / 2 powi (?e - 52) = rat_of_int (k * 2 ^ nat (52 - ?e))"
      by (simp add: u)
    then have "roundEven (?x / 2 powi (?e - 52)) = k * 2 ^ nat (52 - ?e)"
      by (simp only: roundEven_of_int)
    then show ?thesis by (simp add: f u)
  next
    case False
    with e53 have e: "?e = 53" by simp
    from b(1) e have "2 ^ 53 \<le> \<bar>?x\<bar>" by simp
    with \<open>\<bar>?x\<bar> \<le> 2 ^ 53\<close> have "\<bar>?x\<bar> = 2 ^ 53" by simp
    then have "?x = 2 ^ 53 \<or> ?x = - (2 ^ 53)" by (simp add: abs_if split: if_splits)
    then show ?thesis
    proof
      assume x: "?x = 2 ^ 53"
      have r: "roundEven (2 ^ 53 / 2 :: rat) = 2 ^ 52"
        using roundEven_of_int [of "2 ^ 52"] by simp
      have "fl ?x = rat_of_int (roundEven (?x / 2)) * 2" using f by (simp add: e)
      also have "\<dots> = rat_of_int (roundEven (2 ^ 53 / 2)) * 2" by (simp only: x)
      also have "\<dots> = 2 ^ 53" by (simp only: r) simp
      finally show ?thesis by (simp only: x)
    next
      assume x: "?x = - (2 ^ 53)"
      have r: "roundEven (- (2 ^ 53) / 2 :: rat) = - (2 ^ 52)"
        using roundEven_of_int [of "- (2 ^ 52)"] by simp
      have "fl ?x = rat_of_int (roundEven (?x / 2)) * 2" using f by (simp add: e)
      also have "\<dots> = rat_of_int (roundEven (- (2 ^ 53) / 2)) * 2" by (simp only: x)
      also have "\<dots> = - (2 ^ 53)" by (simp only: r) simp
      finally show ?thesis by (simp only: x)
    qed
  qed
qed

lemma fl_nat: "n \<le> 2 ^ 53 \<Longrightarrow> fl (rat_of_nat n) = rat_of_nat n"
  using fl_int [of "int n"] by simp

lemma fl_numeral: "(numeral w :: int) \<le> 2 ^ 53 \<Longrightarrow> fl (numeral w) = numeral w"
  using fl_int [of "numeral w"] by simp

lemma fl_1: "fl 1 = 1"
  using fl_int [of 1] by simp

lemma scaled_round_error:
  assumes "0 < (u::rat)"
  shows "\<bar>rat_of_int (roundEven (x / u)) * u - x\<bar> \<le> u / 2"
proof -
  have "rat_of_int (roundEven (x / u)) * u - x = (rat_of_int (roundEven (x / u)) - x / u) * u"
    using assms by (simp add: field_simps)
  then have "\<bar>rat_of_int (roundEven (x / u)) * u - x\<bar>
               = \<bar>rat_of_int (roundEven (x / u)) - x / u\<bar> * u"
    using assms by (simp add: abs_mult)
  also have "\<dots> \<le> 1 / 2 * u"
    using assms roundEven_error [of "x / u"] by (intro mult_right_mono) simp_all
  finally show ?thesis by simp
qed

lemma fl_error_abs: "\<bar>fl x - x\<bar> \<le> (\<bar>x\<bar> + 1) / 2 ^ 53"
proof (cases "(2::rat) powi (- 1022) \<le> \<bar>x\<bar>")
  case True
  then have "\<bar>fl x - x\<bar> \<le> \<bar>x\<bar> / 2 ^ 53" by (rule fl_error)
  also have "\<dots> \<le> (\<bar>x\<bar> + 1) / 2 ^ 53" by (simp add: divide_right_mono)
  finally show ?thesis .
next
  case False
  show ?thesis
  proof (cases "x = 0")
    case True
    then show ?thesis by (simp add: fl_0)
  next
    case nz: False
    define u :: rat where "u = 2 powi (- 1074)"
    have u: "0 < u" by (simp add: u_def)
    from False expo_bounds(1) [OF nz] have "(2::rat) powi (expo x) < 2 powi (- 1022)" by simp
    then have "expo x < - 1022"
      by (smt (verit) power_int_increasing one_le_numeral not_less)
    then have "max (expo x) (- 1022) - 52 = - 1074" by simp
    then have f: "fl x = rat_of_int (roundEven (x / u)) * u"
      by (simp only: fl_def Let_def u_def)
    have "u \<le> 2 powi (- 52)"
      unfolding u_def by (intro power_int_increasing) simp_all
    also have "\<dots> = 2 / 2 ^ 53" by (simp add: power_int_minus inverse_eq_divide)
    finally have "u / 2 \<le> 1 / 2 ^ 53" by simp
    with scaled_round_error [OF u, of x] have "\<bar>fl x - x\<bar> \<le> 1 / 2 ^ 53"
      by (simp only: f)
    also have "\<dots> \<le> (\<bar>x\<bar> + 1) / 2 ^ 53" by (simp add: divide_right_mono)
    finally show ?thesis .
  qed
qed

lemma roundEven_eq:
  assumes "rat_of_int n - 1 / 2 < y" and "y < rat_of_int n + 1 / 2"
  shows "roundEven y = n"
proof -
  have "\<lfloor>y\<rfloor> = n \<or> \<lfloor>y\<rfloor> = n - 1"
    using assms by linarith
  then show ?thesis
  proof
    assume f: "\<lfloor>y\<rfloor> = n"
    with assms have "y - rat_of_int n < 1 / 2" by simp
    with f show ?thesis by (simp add: roundEven_def Let_def)
  next
    assume f: "\<lfloor>y\<rfloor> = n - 1"
    with assms have "1 / 2 < y - rat_of_int (n - 1)" by simp
    with f show ?thesis by (simp add: roundEven_def Let_def)
  qed
qed

lemma fl_value:
  assumes "(2::rat) powi e \<le> \<bar>x\<bar>" and "\<bar>x\<bar> < 2 powi (e + 1)" and "- 1022 \<le> e"
    and "rat_of_int n - 1 / 2 < x / 2 powi (e - 52)"
    and "x / 2 powi (e - 52) < rat_of_int n + 1 / 2"
  shows "fl x = rat_of_int n * 2 powi (e - 52)"
  by (simp only: fl_eq [OF assms(1,2,3)] roundEven_eq [OF assms(4,5)])

section \<open>Type inference over the sample\<close>

lemma countValue_number:
  "numberCount (foldl (countValue dp) c s) = numberCount c + length (filter isNumber s)"
  by (induction s arbitrary: c) (auto elim!: isNumber.elims countValue.elims split: if_splits)

lemma countValue_boolean:
  "booleanCount (foldl (countValue dp) c s) = booleanCount c + length (filter isBoolean s)"
  by (induction s arbitrary: c) (auto elim!: isBoolean.elims countValue.elims split: if_splits)

lemma countValue_date:
  "dateCount (foldl (countValue dp) c s) = dateCount c + length (filter (isDateLike dp) s)"
  by (induction s arbitrary: c) (auto elim!: isDateLike.elims countValue.elims split: if_splits)

lemma share_gt_iff:
  assumes "0 < n"
  shows "(rat_of_nat k / rat_of_nat n > 8 / 10) = (10 * k > 8 * n)"
proof -
  have "(rat_of_nat k / rat_of_nat n > 8 / 10) = (8 * rat_of_nat n < 10 * rat_of_nat k)"
    using assms by (simp add: field_simps)
  also have "\<dots> = (rat_of_nat (8 * n) < rat_of_nat (10 * k))"
    by simp
  also have "\<dots> = (8 * n < 10 * k)"
    by (simp only: of_nat_less_iff)
  finally show ?thesis .
qed

text \<open>
  C8, as the code has it. \<open>inferDataType\<close> looks at the first 10 of the values it is
  given (the non-null values of the column); with no value at all the type is
  \<open>unknown\<close>. Otherwise the type is \<open>number\<close> if strictly more than 80 percent of the
  sample are numbers other than NaN, else \<open>boolean\<close> if strictly more than 80 percent
  are booleans, else \<open>date\<close> if strictly more than 80 percent are dates or strings that
  parse as dates, else \<open>text\<close>.
\<close>

theorem inferDataType_more_than_80:
  "inferDataType dateParse values =
     (if values = [] then ''unknown''
      else if moreThan80 isNumber (take 10 values) then ''number''
      else if moreThan80 isBoolean (take 10 values) then ''boolean''
      else if moreThan80 (isDateLike dateParse) (take 10 values) then ''date''
      else ''text'')"
proof (cases "values = []")
  case True
  then show ?thesis by (simp add: inferDataType_def)
next
  case False
  let ?s = "take 10 values"
  let ?c = "foldl (countValue dateParse) noCounts ?s"
  from False have pos: "0 < length ?s" by (cases "values") simp_all
  have n: "(8 / 10 < rat_of_nat (numberCount ?c) / rat_of_nat (length ?s)) = moreThan80 isNumber ?s"
    unfolding countValue_number moreThan80_def using share_gt_iff [OF pos]
    by (simp add: noCounts_def del: length_take)
  have b: "(8 / 10 < rat_of_nat (booleanCount ?c) / rat_of_nat (length ?s)) = moreThan80 isBoolean ?s"
    unfolding countValue_boolean moreThan80_def using share_gt_iff [OF pos]
    by (simp add: noCounts_def del: length_take)
  have d: "(8 / 10 < rat_of_nat (dateCount ?c) / rat_of_nat (length ?s))
           = moreThan80 (isDateLike dateParse) ?s"
    unfolding countValue_date moreThan80_def using share_gt_iff [OF pos]
    by (simp add: noCounts_def del: length_take)
  from False have "length values \<noteq> 0" by simp
  then show ?thesis
    unfolding inferDataType_def Let_def n b d by (simp only: False if_False)
qed

text \<open>Nine numbers and one string: 90 percent of the sample, so the type is \<open>number\<close>.\<close>

theorem inferDataType_more_than_80_witness:
  "inferDataType ((=) ''2024-01-01'') (replicate 9 (JNum 1) @ [JStr ''a'']) = ''number''"
  using inferDataType_more_than_80 [of "(=) ''2024-01-01''" "replicate 9 (JNum 1) @ [JStr ''a'']"]
  by (simp add: moreThan80_def numeral_eq_Suc)

text \<open>
  C8 as stated fails: with exactly 8 numbers among 10 values, at least 80 percent of
  the sample are numeric and the specification's wording gives \<open>number\<close>, but
  \<open>inferDataType\<close> answers \<open>text\<close>.
\<close>

theorem inferDataType_eight_of_ten_counterexample:
  "atLeast80 isNumber (take 10 (replicate 8 (JNum 1) @ [JStr ''a'', JStr ''b'']))
   \<and> inferredTypeSpec ((=) ''2024-01-01'') (replicate 8 (JNum 1) @ [JStr ''a'', JStr ''b'']) = ''number''
   \<and> inferDataType ((=) ''2024-01-01'') (replicate 8 (JNum 1) @ [JStr ''a'', JStr ''b'']) = ''text''"
  by (simp add: inferDataType_def inferredTypeSpec_def atLeast80_def noCounts_def numeral_eq_Suc)

section \<open>Reading the state: sort order\<close>

lemma insertBy_insort_key: "insertBy compareSortIndex x ys = insort_key sortIndexOr0 x ys"
  by (induction ys) (simp_all add: compareSortIndex_def)

lemma arraySort_sort_key: "arraySort compareSortIndex xs = sort_key sortIndexOr0 xs"
  by (induction xs) (simp_all add: arraySort_def insertBy_insort_key)

lemma sortIndexOr0_toSortItem: "sortIndexOr0 (toSortItem c) = sortIndexKey c"
  by (simp add: sortIndexOr0_def toSortItem_def sortIndexKey_def)

lemma insort_key_toSortItem:
  "insort_key sortIndexOr0 (toSortItem c) (map toSortItem cs)
   = map toSortItem (insort_key sortIndexKey c cs)"
  by (induction cs) (simp_all add: sortIndexOr0_toSortItem)

lemma sort_key_toSortItem:
  "sort_key sortIndexOr0 (map toSortItem cs) = map toSortItem (sort_key sortIndexKey cs)"
  by (induction cs) (simp_all add: insort_key_toSortItem)

lemma extractSortState_spec: "extractSortState cols = map toSortItem (sortStateSpec cols)"
  by (simp add: extractSortState_def sortStateSpec_def arraySort_sort_key sort_key_toSortItem)

lemma extractSortState_sorted: "sorted (map sortIndexOr0 (extractSortState cols))"
  by (simp add: extractSortState_def arraySort_sort_key)

lemma extractSortState_stable:
  "filter (\<lambda>x. sortIndexOr0 x = k) (extractSortState cols)
   = filter (\<lambda>x. sortIndexOr0 x = k) (map toSortItem (filter (\<lambda>col. sort col \<noteq> JNull) cols))"
  by (simp add: extractSortState_def arraySort_sort_key sort_key_stable)

lemma sortStateSpec_sorted: "sorted (map sortIndexKey (sortStateSpec cols))"
  by (simp add: sortStateSpec_def)

lemma sortStateSpec_stable:
  "filter (\<lambda>c. sortIndexKey c = k) (sortStateSpec cols)
   = filter (\<lambda>c. sortIndexKey c = k) (filter (\<lambda>col. sort col \<noteq> JNull) cols)"
  by (simp add: sortStateSpec_def sort_key_stable)

lemma extractSortState_fields:
  "map colId_s (extractSortState cols) = map colId (sortStateSpec cols)
   \<and> map sort_s (extractSortState cols) = map sort (sortStateSpec cols)
   \<and> map sortIndex_s (extractSortState cols) = map sortIndex (sortStateSpec cols)"
  by (simp add: extractSortState_spec toSortItem_def comp_def)

lemma pageReadState_live:
  assumes "gridApi p" and "\<not> pgGridDestroyed p" and "map_of (faults p) OpReadState = None"
  shows "\<exists>s. fst (pageReadState p) = Inr s \<and> sortState s = extractSortState (pgColumnState p)"
  using assms by (simp add: pageReadState_def roundTrip_def Let_def)

lemma pageReadState_destroyed:
  assumes "gridApi p" and "pgGridDestroyed p" and "map_of (faults p) OpReadState = None"
  shows "fst (pageReadState p) = Inl (Error ''TypeError: Cannot read properties of undefined'')"
  using assms by (simp add: pageReadState_def roundTrip_def)

lemma getGridState_via_page:
  assumes "getGridInstance m gridId = Inr grid"
  shows "fst (getGridState m gridId)
           = (case fst (pageReadState (page grid)) of
                Inl e \<Rightarrow> Inl (GridManagerError GET_STATE_FAILED (Some gridId) (Some e))
              | Inr s \<Rightarrow> Inr s)"
    and "snd (getGridState m gridId) = withPage gridId grid (snd (pageReadState (page grid))) m"
  using assms by (auto simp: getGridState_def split: prod.splits sum.splits)

lemma pageReadState_page:
  "snd (pageReadState p) = p\<lparr>calls := calls p @ [OpReadState]\<rparr>"
  by (simp add: pageReadState_def roundTrip_def Let_def split: option.splits)

text \<open>
  C10. For a live grid (its identifier resolves, its grid has not been destroyed on the
  page, and the page answers the read), \<open>getGridState\<close> returns a state whose sort
  state has, entry by entry, the column identifier, the sort and the sort index of the
  column-state entries with a non-null sort, ordered by sort index ascending (a missing
  index counting as 0), ties in their original order: the returned list is ascending
  in its sort indices, and the specification's list is the stable sort of the filtered
  column state. Once the grid has been destroyed on its page while its record is still
  registered, the read fails instead, reported as \<open>GET_STATE_FAILED\<close>. Whatever the read
  answers, the manager afterwards differs from the
  manager before only in the page's record of round trips: registry, instance, rows,
  column state, filter and selection are as they were.
\<close>

theorem getGridState_sortState:
  assumes "getGridInstance m gridId = Inr grid"
  shows "(gridApi (page grid) \<and> \<not> pgGridDestroyed (page grid)
            \<and> map_of (faults (page grid)) OpReadState = None \<longrightarrow>
            (\<exists>s. fst (getGridState m gridId) = Inr s
               \<and> map colId_s (sortState s) = map colId (sortStateSpec (pgColumnState (page grid)))
               \<and> map sort_s (sortState s) = map sort (sortStateSpec (pgColumnState (page grid)))
               \<and> map sortIndex_s (sortState s)
                   = map sortIndex (sortStateSpec (pgColumnState (page grid)))
               \<and> sorted (map (\<lambda>x. case sortIndex_s x of None \<Rightarrow> 0 | Some i \<Rightarrow> i)
                            (sortState s))))
         \<and> (gridApi (page grid) \<and> pgGridDestroyed (page grid)
              \<and> map_of (faults (page grid)) OpReadState = None \<longrightarrow>
              fst (getGridState m gridId)
                = Inl (GridManagerError GET_STATE_FAILED (Some gridId)
                         (Some (Error ''TypeError: Cannot read properties of undefined''))))
         \<and> sorted (map sortIndexKey (sortStateSpec (pgColumnState (page grid))))
         \<and> (\<forall>k. filter (\<lambda>c. sortIndexKey c = k) (sortStateSpec (pgColumnState (page grid)))
                = filter (\<lambda>c. sortIndexKey c = k)
                    (filter (\<lambda>col. sort col \<noteq> JNull) (pgColumnState (page grid))))
         \<and> snd (getGridState m gridId)
             = withPage gridId grid ((page grid)\<lparr>calls := calls (page grid) @ [OpReadState]\<rparr>) m"
proof (intro conjI impI allI)
  assume live: "gridApi (page grid) \<and> \<not> pgGridDestroyed (page grid)
                \<and> map_of (faults (page grid)) OpReadState = None"
  then obtain s where s: "fst (pageReadState (page grid)) = Inr s"
    and so: "sortState s = extractSortState (pgColumnState (page grid))"
    using pageReadState_live [of "page grid"] by blast
  from s have r: "fst (getGridState m gridId) = Inr s"
    by (simp add: getGridState_via_page(1) [OF assms])
  have key: "(\<lambda>x. case sortIndex_s x of None \<Rightarrow> 0 | Some i \<Rightarrow> i) = sortIndexOr0"
    by (simp add: fun_eq_iff sortIndexOr0_def)
  from r so show "\<exists>s. fst (getGridState m gridId) = Inr s
      \<and> map colId_s (sortState s) = map colId (sortStateSpec (pgColumnState (page grid)))
      \<and> map sort_s (sortState s) = map sort (sortStateSpec (pgColumnState (page grid)))
      \<and> map sortIndex_s (sortState s) = map sortIndex (sortStateSpec (pgColumnState (page grid)))
      \<and> sorted (map (\<lambda>x. case sortIndex_s x of None \<Rightarrow> 0 | Some i \<Rightarrow> i) (sortState s))"
    using extractSortState_fields [of "pgColumnState (page grid)"]
      extractSortState_sorted [of "pgColumnState (page grid)"]
    by (simp add: key)
next
  assume "gridApi (page grid) \<and> pgGridDestroyed (page grid)
            \<and> map_of (faults (page grid)) OpReadState = None"
  then have "fst (pageReadState (page grid))
               = Inl (Error ''TypeError: Cannot read properties of undefined'')"
    by (simp add: pageReadState_destroyed)
  then show "fst (getGridState m gridId)
               = Inl (GridManagerError GET_STATE_FAILED (Some gridId)
                        (Some (Error ''TypeError: Cannot read properties of undefined'')))"
    by (simp add: getGridState_via_page(1) [OF assms])
next
  show "sorted (map sortIndexKey (sortStateSpec (pgColumnState (page grid))))"
    by (rule sortStateSpec_sorted)
next
  fix k
  show "filter (\<lambda>c. sortIndexKey c = k) (sortStateSpec (pgColumnState (page grid)))
          = filter (\<lambda>c. sortIndexKey c = k)
              (filter (\<lambda>col. sort col \<noteq> JNull) (pgColumnState (page grid)))"
    by (rule sortStateSpec_stable)
next
  show "snd (getGridState m gridId)
          = withPage gridId grid ((page grid)\<lparr>calls := calls (page grid) @ [OpReadState]\<rparr>) m"
    by (simp add: getGridState_via_page(2) [OF assms] pageReadState_page)
qed

text \<open>
  On the page with columns \<open>a\<close> (ascending, index 1), \<open>b\<close> (unsorted), \<open>c\<close> (descending,
  index 0), \<open>d\<close> (ascending, no index) and \<open>e\<close> (descending, index 1), the sort state is
  \<open>c\<close>, \<open>d\<close>, \<open>a\<close>, \<open>e\<close>, each with its sort and index; on the price page after its grid
  has been destroyed, the read fails.
\<close>

theorem getGridState_sortState_witness:
  "getGridInstance (managerOf [gridOn ''grid_1'' sortedPage]) ''grid_1''
     = Inr (snd (gridOn ''grid_1'' sortedPage))
   \<and> gridApi sortedPage \<and> \<not> pgGridDestroyed sortedPage
   \<and> map_of (faults sortedPage) OpReadState = None
   \<and> (\<exists>s. fst (getGridState (managerOf [gridOn ''grid_1'' sortedPage]) ''grid_1'') = Inr s
          \<and> sortState s
              = [\<lparr>colId_s = ''c'', sort_s = JStr ''desc'', sortIndex_s = Some 0\<rparr>,
                 \<lparr>colId_s = ''d'', sort_s = JStr ''asc'', sortIndex_s = None\<rparr>,
                 \<lparr>colId_s = ''a'', sort_s = JStr ''asc'', sortIndex_s = Some 1\<rparr>,
                 \<lparr>colId_s = ''e'', sort_s = JStr ''desc'', sortIndex_s = Some 1\<rparr>])
   \<and> fst (getGridState (managerOf [gridOn ''grid_1'' (pricePage\<lparr>pgGridDestroyed := True\<rparr>)])
            ''grid_1'')
       = Inl (GridManagerError GET_STATE_FAILED (Some ''grid_1'')
                (Some (Error ''TypeError: Cannot read properties of undefined'')))"
proof -
  have h: "getGridInstance (managerOf [gridOn ''grid_1'' sortedPage]) ''grid_1''
             = Inr (snd (gridOn ''grid_1'' sortedPage))"
    by (rule getGridInstance_single)
  have p: "page (snd (gridOn ''grid_1'' sortedPage)) = sortedPage"
    by (simp add: gridOn_def)
  have ok: "gridApi sortedPage \<and> \<not> pgGridDestroyed sortedPage
            \<and> map_of (faults sortedPage) OpReadState = None"
    by (simp add: sortedPage_def pricePage_def)
  have v: "sortStateSpec (pgColumnState sortedPage)
             = [\<lparr>colId = ''c'', sort = JStr ''desc'', sortIndex = Some 0, otherState = []\<rparr>,
                \<lparr>colId = ''d'', sort = JStr ''asc'', sortIndex = None, otherState = []\<rparr>,
                \<lparr>colId = ''a'', sort = JStr ''asc'', sortIndex = Some 1, otherState = []\<rparr>,
                \<lparr>colId = ''e'', sort = JStr ''desc'', sortIndex = Some 1, otherState = []\<rparr>]"
    by (simp add: sortStateSpec_def sortedPage_def pricePage_def sortIndexKey_def)
  from getGridState_sortState [OF h] ok p obtain s
    where s: "fst (getGridState (managerOf [gridOn ''grid_1'' sortedPage]) ''grid_1'') = Inr s"
      and c: "map colId_s (sortState s) = map colId (sortStateSpec (pgColumnState sortedPage))"
      and d: "map sort_s (sortState s) = map sort (sortStateSpec (pgColumnState sortedPage))"
      and i: "map sortIndex_s (sortState s)
                = map sortIndex (sortStateSpec (pgColumnState sortedPage))"
    by auto
  from c d i have "sortState s
              = [\<lparr>colId_s = ''c'', sort_s = JStr ''desc'', sortIndex_s = Some 0\<rparr>,
                 \<lparr>colId_s = ''d'', sort_s = JStr ''asc'', sortIndex_s = None\<rparr>,
                 \<lparr>colId_s = ''a'', sort_s = JStr ''asc'', sortIndex_s = Some 1\<rparr>,
                 \<lparr>colId_s = ''e'', sort_s = JStr ''desc'', sortIndex_s = Some 1\<rparr>]"
    unfolding v by (auto simp: map_eq_Cons_conv)
  moreover have "fst (getGridState (managerOf [gridOn ''grid_1'' (pricePage\<lparr>pgGridDestroyed := True\<rparr>)])
            ''grid_1'')
       = Inl (GridManagerError GET_STATE_FAILED (Some ''grid_1'')
                (Some (Error ''TypeError: Cannot read properties of undefined'')))"
    using getGridState_sortState
            [OF getGridInstance_single [of "''grid_1''" "pricePage\<lparr>pgGridDestroyed := True\<rparr>"]]
    by (simp add: gridOn_def pricePage_def)
  ultimately show ?thesis using s h ok by blast
qed

section \<open>Export formats\<close>

text \<open>
  C7. For a grid whose identifier resolves, \<open>exportGridData\<close> with a format other than
  \<open>csv\<close> and \<open>excel\<close> fails with \<open>INVALID_EXPORT_FORMAT\<close> and returns the manager
  unchanged, so no round trip to the page has been made (the page's record of calls is
  part of the manager's state). With one of the two valid formats the page is
  contacted: its record of calls grows by the CSV read.
\<close>

theorem exportGridData_invalid_format:
  assumes "getGridInstance m gridId = Inr grid"
  shows "(format \<noteq> ''csv'' \<and> format \<noteq> ''excel'' \<longrightarrow>
            exportGridData isoNow m gridId format
              = (Inl (GridManagerError INVALID_EXPORT_FORMAT (Some gridId) (Some ZodError)), m))
         \<and> (format = ''csv'' \<or> format = ''excel'' \<longrightarrow>
              (\<exists>g. map_of (grids (snd (exportGridData isoNow m gridId format))) gridId = Some g
                 \<and> calls (page g) = calls (page grid) @ [OpGetDataAsCsv]))"
  using assms
  by (auto simp: exportGridData_def ExportFormatSchema_def pageGetDataAsCsv_def roundTrip_def
        Let_def map_of_withPage grids_emit split: option.splits)

text \<open>Exporting the price grid as \<open>pdf\<close> is refused and leaves the manager as it was.\<close>

theorem exportGridData_invalid_format_witness:
  "getGridInstance (managerOf [gridOn ''grid_1'' pricePage]) ''grid_1''
     = Inr (snd (gridOn ''grid_1'' pricePage))
   \<and> exportGridData ''2025-01-01T00:00:00.000Z'' (managerOf [gridOn ''grid_1'' pricePage])
        ''grid_1'' ''pdf''
       = (Inl (GridManagerError INVALID_EXPORT_FORMAT (Some ''grid_1'') (Some ZodError)),
          managerOf [gridOn ''grid_1'' pricePage])"
proof -
  have h: "getGridInstance (managerOf [gridOn ''grid_1'' pricePage]) ''grid_1''
             = Inr (snd (gridOn ''grid_1'' pricePage))"
    by (rule getGridInstance_single)
  from exportGridData_invalid_format [OF h, of "''pdf''"] h show ?thesis
    by simp
qed

section \<open>Reading the state: row counts\<close>

text \<open>Whenever \<open>getGridState\<close> answers, its two counts are the same number.\<close>

lemma getGridState_rowCount:
  "fst (getGridState m gridId) = Inr s \<Longrightarrow> rowCount s = displayedRowCount s"
  by (auto simp: getGridState_def pageReadState_def roundTrip_def Let_def
        split: sum.splits option.splits if_splits prod.splits)

text \<open>
  With a filter that lets every row through, the count read after a successful
  \<open>updateGridData\<close> is the number of rows given.
\<close>

lemma getInstance_after_update:
  assumes "getGridInstance m gridId = Inr grid"
    and "updateGridData now m gridId newRows = (Inr (), m1)"
  shows "\<exists>g. getGridInstance m1 gridId = Inr g \<and> gridApi (page g) \<and> pgRows (page g) = newRows
             \<and> pgRowPasses (page g) = pgRowPasses (page grid)"
  using assms
  by (auto simp: updateGridData_def pageUpdateGridData_def roundTrip_def getGridInstance_def
        Let_def grids_emit update_conv'
        split: option.splits if_splits)

lemma rowCount_after_update_unfiltered:
  assumes "getGridInstance m gridId = Inr grid"
    and "\<forall>r. pgRowPasses (page grid) r"
    and "updateGridData now m gridId newRows = (Inr (), m1)"
    and "fst (getGridState m1 gridId) = Inr s"
  shows "rowCount s = length newRows"
proof -
  from getInstance_after_update [OF assms(1) assms(3)] obtain g
    where g: "getGridInstance m1 gridId = Inr g" "pgRows (page g) = newRows"
      "pgRowPasses (page g) = pgRowPasses (page grid)"
    by blast
  with assms(2) assms(4) show ?thesis
    by (auto simp: getGridState_def pageReadState_def roundTrip_def getDisplayedRowCount_def
          Let_def split: option.splits if_splits)
qed

text \<open>
  C6 at a grid of three rows whose filter lets one row through: the total row count is
  3, and \<open>getGridState\<close> reports \<open>rowCount = 1\<close>, the displayed count.
\<close>

theorem getGridState_rowCount_filtered:
  "length (pgRows filteredPage) = 3
   \<and> fst (getGridState (managerOf [gridOn ''grid_1'' filteredPage]) ''grid_1'')
       = Inr \<lparr>columnState = pgColumnState filteredPage, filterState = pgFilterModel filteredPage,
              sortState = [], selectedRows = [], rowCount = 1, displayedRowCount = 1\<rparr>"
  by (simp add: getGridState_def getGridInstance_def managerOf_def gridOn_def pageReadState_def
        roundTrip_def filteredPage_def pricePage_def getDisplayedRowCount_def priceRows_def
        cell_def inherited_def objectPrototypeKeys_def Let_def extractSortState_def arraySort_def
        priceColumnState_def)

section \<open>Destroying a grid whose surface fails\<close>

text \<open>
  C1, as the code has it. For a registered, not yet destroyed grid whose surface throws
  \<open>e\<close> on the grid's destroy call, or on closing the page after a destroy call that
  worked, \<open>destroyGrid\<close> reports \<open>DESTROY_FAILED\<close> with cause \<open>e\<close>, and the record stays in
  the registry, not marked destroyed: the registry has the same identifiers as before,
  the identifier still resolves, it is still listed by \<open>getActiveGrids\<close>, and the sink
  is not told of a removal.
\<close>

theorem destroyGrid_surface_failure:
  assumes "map_of (grids m) gridId = Some grid" and "\<not> isDestroyed grid"
    and "map_of (faults (page grid)) OpApiDestroy = Some e
         \<or> (map_of (faults (page grid)) OpApiDestroy = None
            \<and> map_of (faults (page grid)) OpClosePage = Some e)"
  shows "fst (destroyGrid m gridId)
           = Inl (GridManagerError DESTROY_FAILED (Some gridId) (Some (Error e)))
         \<and> map fst (grids (snd (destroyGrid m gridId))) = map fst (grids m)
         \<and> (\<exists>g. getGridInstance (snd (destroyGrid m gridId)) gridId = Inr g)
         \<and> gridId \<in> set (getActiveGrids (snd (destroyGrid m gridId)))
         \<and> webSocketManager (snd (destroyGrid m gridId)) = webSocketManager m"
  using assms
  by (auto simp: destroyGrid_def pageApiDestroy_def pageClose_def roundTrip_def
        destroyFailed_def keys_withPage webSocketManager_withPage getGridInstance_withPage
        getActiveGrids_withPage)

text \<open>A grid on a page whose destroy call throws is still listed after \<open>destroyGrid\<close>.\<close>

theorem destroyGrid_surface_failure_witness:
  "map_of (grids (managerOf [gridOn ''grid_1'' brokenDestroyPage])) ''grid_1''
     = Some (snd (gridOn ''grid_1'' brokenDestroyPage))
   \<and> \<not> isDestroyed (snd (gridOn ''grid_1'' brokenDestroyPage))
   \<and> map_of (faults (page (snd (gridOn ''grid_1'' brokenDestroyPage)))) OpApiDestroy
       = Some ''Target closed''
   \<and> ''grid_1'' \<in> set (getActiveGrids
         (snd (destroyGrid (managerOf [gridOn ''grid_1'' brokenDestroyPage]) ''grid_1'')))"
proof -
  have a: "map_of (grids (managerOf [gridOn ''grid_1'' brokenDestroyPage])) ''grid_1''
             = Some (snd (gridOn ''grid_1'' brokenDestroyPage))"
    by (simp add: managerOf_def gridOn_def)
  have b: "\<not> isDestroyed (snd (gridOn ''grid_1'' brokenDestroyPage))"
    by (simp add: gridOn_def)
  have c: "map_of (faults (page (snd (gridOn ''grid_1'' brokenDestroyPage)))) OpApiDestroy
             = Some ''Target closed''"
    by (simp add: gridOn_def brokenDestroyPage_def)
  from destroyGrid_surface_failure [OF a b disjI1, OF c] a b c show ?thesis
    by simp
qed

text \<open>
  C1 as stated fails: on that grid \<open>destroyGrid\<close> reports \<open>DESTROY_FAILED\<close>, yet the
  identifier is still in the registry and is the one active grid.
\<close>

theorem destroyGrid_leaves_record_counterexample:
  "fst (destroyGrid (managerOf [gridOn ''grid_1'' brokenDestroyPage]) ''grid_1'')
     = Inl (GridManagerError DESTROY_FAILED (Some ''grid_1'') (Some (Error ''Target closed'')))
   \<and> getActiveGrids (snd (destroyGrid (managerOf [gridOn ''grid_1'' brokenDestroyPage]) ''grid_1''))
       = [''grid_1'']
   \<and> map_of (grids (snd (destroyGrid (managerOf [gridOn ''grid_1'' brokenDestroyPage]) ''grid_1'')))
        ''grid_1'' \<noteq> None"
  by (simp add: destroyGrid_def managerOf_def gridOn_def brokenDestroyPage_def pricePage_def
        pageApiDestroy_def roundTrip_def destroyFailed_def withPage_def getActiveGrids_def)

section \<open>Operations on a destroyed grid\<close>

lemma destroyGrid_ok_removes:
  assumes "fst (destroyGrid m gridId) = Inr ()"
  shows "map_of (grids (snd (destroyGrid m gridId))) gridId = None"
  using assms
  by (auto simp: destroyGrid_def removeFromMap_def grids_emit delete_conv'
        split: option.splits if_splits prod.splits sum.splits)

text \<open>
  C3, as the code has it. Once \<open>destroyGrid\<close> has succeeded on an identifier, the
  record is gone from the registry, and every later operation on that identifier
  (resolving it, \<open>getGridInfo\<close>, \<open>getGridState\<close>, \<open>updateGridData\<close>,
  \<open>executeGridMethod\<close>, \<open>exportGridData\<close>, a second \<open>destroyGrid\<close>) fails with
  \<open>GRID_NOT_FOUND\<close>, the same failure as for an identifier never issued, and leaves the
  manager unchanged; the identifier is not among the active grids.
\<close>

theorem destroyed_id_not_found:
  assumes "fst (destroyGrid m gridId) = Inr ()"
  shows "getGridInstance (snd (destroyGrid m gridId)) gridId
           = Inl (GridManagerError GRID_NOT_FOUND (Some gridId) None)
         \<and> getGridInfo (snd (destroyGrid m gridId)) gridId
           = Inl (GridManagerError GRID_NOT_FOUND (Some gridId) None)
         \<and> getGridState (snd (destroyGrid m gridId)) gridId
           = (Inl (GridManagerError GRID_NOT_FOUND (Some gridId) None), snd (destroyGrid m gridId))
         \<and> updateGridData now (snd (destroyGrid m gridId)) gridId newRows
           = (Inl (GridManagerError GRID_NOT_FOUND (Some gridId) None), snd (destroyGrid m gridId))
         \<and> executeGridMethod api (snd (destroyGrid m gridId)) gridId method params
           = (Inl (GridManagerError GRID_NOT_FOUND (Some gridId) None), snd (destroyGrid m gridId))
         \<and> exportGridData isoNow (snd (destroyGrid m gridId)) gridId format
           = (Inl (GridManagerError GRID_NOT_FOUND (Some gridId) None), snd (destroyGrid m gridId))
         \<and> destroyGrid (snd (destroyGrid m gridId)) gridId
           = (Inl (GridManagerError GRID_NOT_FOUND (Some gridId) None), snd (destroyGrid m gridId))
         \<and> gridId \<notin> set (getActiveGrids (snd (destroyGrid m gridId)))"
proof -
  let ?m = "snd (destroyGrid m gridId)"
  have none: "map_of (grids ?m) gridId = None"
    using assms by (rule destroyGrid_ok_removes)
  then have nf: "getGridInstance ?m gridId = Inl (GridManagerError GRID_NOT_FOUND (Some gridId) None)"
    by (simp add: getGridInstance_def)
  from none have "gridId \<notin> set (map fst (grids ?m))"
    by (simp add: map_of_eq_None_iff)
  then have "gridId \<notin> set (getActiveGrids ?m)"
    by (simp add: getActiveGrids_def del: set_map)
  with nf none show ?thesis
    by (simp add: getGridInfo_def getGridState_def updateGridData_def executeGridMethod_def
          exportGridData_def destroyGrid_def)
qed

text \<open>After the price grid is destroyed, reading its state fails with \<open>GRID_NOT_FOUND\<close>.\<close>

theorem destroyed_id_not_found_witness:
  "fst (destroyGrid (managerOf [gridOn ''grid_1'' pricePage]) ''grid_1'') = Inr ()
   \<and> fst (getGridState (snd (destroyGrid (managerOf [gridOn ''grid_1'' pricePage]) ''grid_1''))
            ''grid_1'')
       = Inl (GridManagerError GRID_NOT_FOUND (Some ''grid_1'') None)"
proof -
  have h: "fst (destroyGrid (managerOf [gridOn ''grid_1'' pricePage]) ''grid_1'') = Inr ()"
    by (simp add: destroyGrid_def managerOf_def gridOn_def pricePage_def pageApiDestroy_def
          pageClose_def roundTrip_def)
  from destroyed_id_not_found [OF h] h show ?thesis
    by simp
qed

text \<open>
  C3 as stated fails: the identifier \<open>grid_1\<close> is returned by a successful
  \<open>createGrid\<close> and then destroyed; resolving it afterwards fails with
  \<open>GRID_NOT_FOUND\<close>, not with \<open>GRID_DESTROYED\<close>.
\<close>

theorem destroyed_id_not_DestroyedError_counterexample:
  "fst (createGrid sampleEnv (managerOf []) priceConfig) = Inr ''grid_1''
   \<and> fst (destroyGrid (snd (createGrid sampleEnv (managerOf []) priceConfig)) ''grid_1'') = Inr ()
   \<and> getGridInstance
        (snd (destroyGrid (snd (createGrid sampleEnv (managerOf []) priceConfig)) ''grid_1''))
        ''grid_1''
       = Inl (GridManagerError GRID_NOT_FOUND (Some ''grid_1'') None)
   \<and> getGridInstance
        (snd (destroyGrid (snd (createGrid sampleEnv (managerOf []) priceConfig)) ''grid_1''))
        ''grid_1''
       \<noteq> Inl (GridManagerError GRID_DESTROYED (Some ''grid_1'') None)"
  by (simp add: createGrid_price destroyGrid_def pricePage_def pageApiDestroy_def pageClose_def
        roundTrip_def removeFromMap_def emit_def onGridCreated_def removeGrid_def
        readClock_def emitGridEvent_def ioEmit_def freshSink_def getGridInstance_def)

section \<open>Shutting down\<close>

lemma destroyGrid_unknown:
  "map_of (grids m) gridId = None \<Longrightarrow>
     destroyGrid m gridId = (Inl (GridManagerError GRID_NOT_FOUND (Some gridId) None), m)"
  by (simp add: destroyGrid_def)

lemma destroyGrid_works:
  "map_of (grids m) gridId = Some g \<Longrightarrow> teardownWorks g \<Longrightarrow>
     destroyGrid m gridId = (Inr (), removeFromMap gridId m)"
  by (auto simp: destroyGrid_def teardownWorks_def pageApiDestroy_def pageClose_def roundTrip_def)

lemma destroyGrid_fails:
  assumes "map_of (grids m) gridId = Some g" and "\<not> teardownWorks g"
  shows "\<exists>e p. destroyGrid m gridId = (Inl (destroyFailed gridId e), withPage gridId g p m)
               \<and> faults p = faults (page g)"
proof (cases "map_of (faults (page g)) OpApiDestroy")
  case (Some e)
  let ?p = "(page g)\<lparr>calls := calls (page g) @ [OpApiDestroy]\<rparr>"
  from assms Some
  have "destroyGrid m gridId = (Inl (destroyFailed gridId (Error e)), withPage gridId g ?p m)"
    by (simp add: destroyGrid_def teardownWorks_def pageApiDestroy_def roundTrip_def)
  moreover have "faults ?p = faults (page g)" by simp
  ultimately show ?thesis by blast
next
  case None
  with assms obtain e where e: "map_of (faults (page g)) OpClosePage = Some e"
    by (auto simp: teardownWorks_def)
  let ?p1 = "if gridApi (page g)
             then (page g)\<lparr>calls := calls (page g) @ [OpApiDestroy], pgGridDestroyed := True\<rparr>
             else (page g)\<lparr>calls := calls (page g) @ [OpApiDestroy]\<rparr>"
  let ?p = "?p1\<lparr>calls := calls ?p1 @ [OpClosePage]\<rparr>"
  from assms None e
  have "destroyGrid m gridId = (Inl (destroyFailed gridId (Error e)), withPage gridId g ?p m)"
    by (simp add: destroyGrid_def teardownWorks_def pageApiDestroy_def pageClose_def roundTrip_def)
  moreover have "faults ?p = faults (page g)" by simp
  ultimately show ?thesis by blast
qed

lemma keys_removeFromMap:
  "map fst (grids (removeFromMap gridId m)) = removeAll gridId (map fst (grids m))"
  by (simp add: removeFromMap_def grids_emit delete_keys)

lemma destroyGrid_keys:
  "map fst (grids (snd (destroyGrid m gridId)))
     = (if destroyWorks m gridId then removeAll gridId (map fst (grids m))
        else map fst (grids m))"
proof (cases "map_of (grids m) gridId")
  case None
  then have "gridId \<notin> set (map fst (grids m))"
    by (simp add: map_of_eq_None_iff)
  with None show ?thesis
    by (simp add: destroyGrid_unknown destroyWorks_def del: set_map)
next
  case (Some g)
  show ?thesis
  proof (cases "teardownWorks g")
    case True
    with Some show ?thesis
      by (simp add: destroyGrid_works destroyWorks_def keys_removeFromMap)
  next
    case False
    from destroyGrid_fails [OF Some False] obtain e p
      where "destroyGrid m gridId = (Inl (destroyFailed gridId e), withPage gridId g p m)"
      by blast
    with Some False show ?thesis
      by (simp add: destroyWorks_def keys_withPage)
  qed
qed

lemma map_of_withPage_other:
  "k \<noteq> gridId \<Longrightarrow> map_of (grids (withPage gridId g p m)) k = map_of (grids m) k"
  by (simp add: withPage_def update_conv')

lemma map_of_removeFromMap_other:
  "k \<noteq> gridId \<Longrightarrow> map_of (grids (removeFromMap gridId m)) k = map_of (grids m) k"
  by (simp add: removeFromMap_def grids_emit delete_conv')

lemma destroyGrid_destroyWorks:
  assumes "k \<in> set (map fst (grids (snd (destroyGrid m gridId))))"
  shows "destroyWorks (snd (destroyGrid m gridId)) k = destroyWorks m k"
proof (cases "map_of (grids m) gridId")
  case None
  then show ?thesis by (simp add: destroyGrid_unknown)
next
  case (Some g)
  show ?thesis
  proof (cases "teardownWorks g")
    case True
    with Some have d: "destroyGrid m gridId = (Inr (), removeFromMap gridId m)"
      by (rule destroyGrid_works)
    with assms have "k \<noteq> gridId"
      by (auto simp: keys_removeFromMap simp del: set_map)
    with d show ?thesis
      by (simp add: destroyWorks_def map_of_removeFromMap_other)
  next
    case False
    from destroyGrid_fails [OF Some False] obtain e p
      where d: "destroyGrid m gridId = (Inl (destroyFailed gridId e), withPage gridId g p m)"
        and f: "faults p = faults (page g)"
      by blast
    show ?thesis
    proof (cases "k = gridId")
      case True
      with d f Some show ?thesis
        by (simp add: destroyWorks_def map_of_withPage teardownWorks_def)
    next
      case False
      with d show ?thesis
        by (simp add: destroyWorks_def map_of_withPage_other)
    qed
  qed
qed

lemma filter_removeAll_failed:
  assumes "\<not> P gid"
  shows "filter P (removeAll gid ks) = filter P ks"
  using assms by (induction ks) auto

lemma destroyAll_keys:
  "map fst (grids (destroyAll ids m))
     = filter (\<lambda>k. k \<notin> set ids \<or> \<not> destroyWorks m k) (map fst (grids m))"
proof (induction ids arbitrary: m)
  case Nil
  show ?case by simp
next
  case (Cons gid ids)
  let ?m = "snd (destroyGrid m gid)"
  let ?P = "\<lambda>k. k \<notin> set (gid # ids) \<or> \<not> destroyWorks m k"
  have "map fst (grids (destroyAll (gid # ids) m))
          = filter (\<lambda>k. k \<notin> set ids \<or> \<not> destroyWorks ?m k) (map fst (grids ?m))"
    by (simp add: Cons.IH)
  also have "\<dots> = filter (\<lambda>k. k \<notin> set ids \<or> \<not> destroyWorks m k) (map fst (grids ?m))"
    by (rule filter_cong [OF refl]) (simp add: destroyGrid_destroyWorks del: set_map)
  also have "\<dots> = filter ?P (map fst (grids m))"
  proof (cases "destroyWorks m gid")
    case True
    then have "\<not> ?P gid" by simp
    then have "filter ?P (removeAll gid (map fst (grids m))) = filter ?P (map fst (grids m))"
      by (rule filter_removeAll_failed)
    moreover have "filter (\<lambda>k. k \<notin> set ids \<or> \<not> destroyWorks m k) (removeAll gid (map fst (grids m)))
                     = filter ?P (removeAll gid (map fst (grids m)))"
      by (rule filter_cong [OF refl]) auto
    ultimately show ?thesis using True by (simp only: destroyGrid_keys if_True)
  next
    case False
    have "filter (\<lambda>k. k \<notin> set ids \<or> \<not> destroyWorks m k) (map fst (grids m))
            = filter ?P (map fst (grids m))"
      using False by (intro filter_cong [OF refl]) auto
    with False show ?thesis by (simp only: destroyGrid_keys if_False)
  qed
  finally show ?case .
qed

lemma browser_destroyGrid: "browser (snd (destroyGrid m gridId)) = browser m"
proof (cases "map_of (grids m) gridId")
  case None
  then show ?thesis by (simp add: destroyGrid_unknown)
next
  case (Some g)
  show ?thesis
  proof (cases "teardownWorks g")
    case True
    with Some show ?thesis
      by (simp add: destroyGrid_works removeFromMap_def emit_def split: option.splits)
  next
    case False
    from destroyGrid_fails [OF Some False] show ?thesis
      by (auto simp: withPage_def)
  qed
qed

lemma browser_destroyAll: "browser (destroyAll ids m) = browser m"
  by (induction ids arbitrary: m) (simp_all add: browser_destroyGrid)

lemma destroyAll_destroyWorks:
  "k \<in> set (map fst (grids (destroyAll ids m))) \<Longrightarrow>
     destroyWorks (destroyAll ids m) k = destroyWorks m k"
proof (induction ids arbitrary: m)
  case Nil
  show ?case by simp
next
  case (Cons gid ids)
  let ?m = "snd (destroyGrid m gid)"
  from Cons.prems have k: "k \<in> set (map fst (grids (destroyAll ids ?m)))" by simp
  then have "k \<in> set (map fst (grids ?m))"
    unfolding destroyAll_keys [of ids ?m] by simp
  then have "destroyWorks ?m k = destroyWorks m k"
    by (rule destroyGrid_destroyWorks)
  with Cons.IH [OF k] show ?case by simp
qed

lemma getActiveGrids_all_live:
  assumes "\<And>k. k \<in> set (map fst (grids m)) \<Longrightarrow> \<not> destroyWorks m k"
  shows "getActiveGrids m = map fst (grids m)"
  unfolding getActiveGrids_def
proof (rule filter_True)
  show "\<forall>x\<in>set (map fst (grids m)).
          \<not> (case map_of (grids m) x of None \<Rightarrow> False | Some g \<Rightarrow> isDestroyed g)"
  proof
    fix x assume "x \<in> set (map fst (grids m))"
    then have "\<not> destroyWorks m x" by (rule assms)
    then show "\<not> (case map_of (grids m) x of None \<Rightarrow> False | Some g \<Rightarrow> isDestroyed g)"
      by (auto simp: destroyWorks_def teardownWorks_def split: option.splits)
  qed
qed

lemma cleanup_keys:
  "map fst (grids (destroyAll (map fst (grids m)) m))
     = filter (\<lambda>gid. \<not> destroyWorks m gid) (map fst (grids m))"
  unfolding destroyAll_keys by (rule filter_cong [OF refl]) simp

lemma cleanup_active:
  "getActiveGrids (destroyAll (map fst (grids m)) m)
     = filter (\<lambda>gid. \<not> destroyWorks m gid) (map fst (grids m))"
proof -
  let ?m = "destroyAll (map fst (grids m)) m"
  have "getActiveGrids ?m = map fst (grids ?m)"
  proof (rule getActiveGrids_all_live)
    fix k assume k: "k \<in> set (map fst (grids ?m))"
    then have "\<not> destroyWorks m k"
      unfolding cleanup_keys by simp
    with destroyAll_destroyWorks [OF k] show "\<not> destroyWorks ?m k" by simp
  qed
  then show ?thesis by (simp only: cleanup_keys)
qed

lemma getActiveGrids_cong:
  "grids m' = grids m \<Longrightarrow> getActiveGrids m' = getActiveGrids m"
  by (simp add: getActiveGrids_def)

text \<open>
  C4, as the code has it. \<open>cleanup\<close> never raises, whatever the grids' surfaces and the
  browser do. It tries to destroy every grid of the registry: the grids that remain,
  and remain listed by \<open>getActiveGrids\<close>, are exactly those whose surface threw on the
  destroy call or on closing the page, in their original order; all others are gone.
  Afterwards the manager is no longer initialized, and the engine handle is released
  when there was none or its \<^verbatim>\<open>close\<close> worked; when \<^verbatim>\<open>close\<close> throws, the error is
  swallowed and the handle is kept.
\<close>

theorem cleanup_outcome:
  "fst (cleanup m) = Inr ()
   \<and> map fst (grids (snd (cleanup m)))
       = filter (\<lambda>gid. \<not> destroyWorks m gid) (map fst (grids m))
   \<and> getActiveGrids (snd (cleanup m))
       = filter (\<lambda>gid. \<not> destroyWorks m gid) (map fst (grids m))
   \<and> \<not> isInitialized (snd (cleanup m))
   \<and> browser (snd (cleanup m))
       = (case browser m of
            None \<Rightarrow> None
          | Some b \<Rightarrow> (case closeError b of None \<Rightarrow> None | Some e \<Rightarrow> Some b))"
proof -
  let ?m1 = "destroyAll (map fst (grids m)) m"
  have g: "grids (snd (cleanup m)) = grids ?m1"
    by (simp add: cleanup_def Let_def split: option.splits)
  have b: "browser (snd (cleanup m))
             = (case browser m of
                  None \<Rightarrow> None
                | Some b \<Rightarrow> (case closeError b of None \<Rightarrow> None | Some e \<Rightarrow> Some b))"
    by (simp add: cleanup_def Let_def browser_destroyAll split: option.splits)
  have i: "\<not> isInitialized (snd (cleanup m))"
    by (simp add: cleanup_def Let_def)
  have r: "fst (cleanup m) = Inr ()"
    by (simp add: cleanup_def Let_def)
  from g have "getActiveGrids (snd (cleanup m)) = getActiveGrids ?m1"
    by (rule getActiveGrids_cong)
  with g b i r show ?thesis
    by (simp only: cleanup_keys cleanup_active simp_thms)
qed

lemma destroyWorks_twoGrids:
  "destroyWorks twoGrids ''grid_1'' \<and> \<not> destroyWorks twoGrids ''grid_2''"
  by (simp add: twoGrids_def managerOf_def gridOn_def destroyWorks_def teardownWorks_def
        pricePage_def brokenDestroyPage_def)

text \<open>With the two sample grids, the one whose destroy call throws is still active.\<close>

theorem cleanup_outcome_witness:
  "getActiveGrids (snd (cleanup twoGrids)) = [''grid_2'']
   \<and> fst (cleanup twoGrids) = Inr ()
   \<and> browser (snd (cleanup twoGrids))
       = Some \<lparr>closeError = Some ''Connection closed'', pagesOpened = 2\<rparr>"
proof -
  have k: "map fst (grids twoGrids) = [''grid_1'', ''grid_2'']"
    by (simp add: twoGrids_def managerOf_def gridOn_def)
  have b: "browser twoGrids = Some \<lparr>closeError = Some ''Connection closed'', pagesOpened = 2\<rparr>"
    by (simp add: twoGrids_def managerOf_def)
  from cleanup_outcome [of twoGrids] show ?thesis
    by (simp add: k b destroyWorks_twoGrids)
qed

text \<open>
  C4 as stated fails twice: of two live grids the one whose destroy call throws is
  still listed as active after \<open>cleanup\<close>, and although the browser's \<^verbatim>\<open>close\<close> throws,
  \<open>cleanup\<close> raises nothing.
\<close>

theorem cleanup_leaves_failed_grid_counterexample:
  "getActiveGrids twoGrids = [''grid_1'', ''grid_2'']
   \<and> getActiveGrids (snd (cleanup twoGrids)) = [''grid_2'']
   \<and> browser twoGrids = Some \<lparr>closeError = Some ''Connection closed'', pagesOpened = 2\<rparr>
   \<and> fst (cleanup twoGrids) = Inr ()"
  by (simp add: cleanup_def twoGrids_def managerOf_def gridOn_def destroyGrid_def
        pageApiDestroy_def pageClose_def roundTrip_def pricePage_def brokenDestroyPage_def
        removeFromMap_def emit_def onGridCreated_def removeGrid_def
        readClock_def emitGridEvent_def ioEmit_def freshSink_def withPage_def getActiveGrids_def
        destroyFailed_def Let_def)

section \<open>The displayed row count read after a filter call\<close>

lemma executeGridMethod_read_fails:
  assumes "getGridInstance m gridId = Inr grid"
    and "pageApiMethod api ''setFilterModel'' params (page grid) = (Inr result, p1)"
    and "webSocketManager m \<noteq> None" and "truthy (firstParam params)"
    and "map_of (faults p1) OpGetDisplayedRowCount = Some e"
  shows "executeGridMethod api m gridId ''setFilterModel'' params
           = (Inl (GridManagerError METHOD_EXECUTION_FAILED (Some gridId) (Some (Error e))),
              withPage gridId grid (p1\<lparr>calls := calls p1 @ [OpGetDisplayedRowCount]\<rparr>) m)"
  using assms
  by (simp add: executeGridMethod_def pageDisplayedRowCount_def roundTrip_def methodFailed_def)

lemma executeGridMethod_read_works:
  assumes "getGridInstance m gridId = Inr grid"
    and "pageApiMethod api ''setFilterModel'' params (page grid) = (Inr result, p1)"
    and "webSocketManager m = Some ws" and "truthy (firstParam params)"
    and "map_of (faults p1) OpGetDisplayedRowCount = None"
  shows "executeGridMethod api m gridId ''setFilterModel'' params
           = (Inr result,
              emit (onGridFiltered gridId (firstParam params)
                      (if gridApi p1 then getDisplayedRowCount p1 else 0))
                (withPage gridId grid (p1\<lparr>calls := calls p1 @ [OpGetDisplayedRowCount]\<rparr>) m))"
  using assms
  by (simp add: executeGridMethod_def pageDisplayedRowCount_def roundTrip_def
        getDisplayedRowCount_def)

lemma executeGridMethod_no_read:
  assumes "getGridInstance m gridId = Inr grid"
    and "pageApiMethod api method params (page grid) = (Inr result, p1)"
    and "\<not> (method = ''setFilterModel'' \<and> webSocketManager m \<noteq> None \<and> truthy (firstParam params))"
  shows "fst (executeGridMethod api m gridId method params) = Inr result
         \<and> map_of (grids (snd (executeGridMethod api m gridId method params))) gridId
             = Some (grid\<lparr>page := p1\<rparr>)"
proof -
  from assms(3)
  have c: "\<not> (webSocketManager m \<noteq> None \<and> method = ''setFilterModel'' \<and> truthy (firstParam params))"
    by blast
  show ?thesis
    unfolding executeGridMethod_def assms(1) assms(2) sum.case prod.case if_not_P [OF c]
    by (simp add: map_of_withPage grids_emit)
qed

lemma onGridFiltered_last:
  "last (broadcasts (onGridFiltered gridId filterModel displayedRows ws))
     = MsgGridEvent \<lparr>type_ev = grid_filtered, gridId_ev = gridId,
                      timestamp = clockAt ws (clockReads ws + 2),
                      data_ev = JObj [(''filterModel'', filterModel),
                                     (''displayedRows'', JNum (rat_of_nat displayedRows))]\<rparr>"
  by (simp add: onGridFiltered_def updateGridState_def readClock_def emitGridEvent_def
        ioEmit_def Let_def)

text \<open>
  C5, as the code has it. Let the grid resolve and the method call itself succeed on
  the surface. For \<open>setFilterModel\<close> with a sink attached and a truthy first argument,
  the displayed row count is read in the same \<^verbatim>\<open>try\<close> block as the call: if that read
  throws \<open>e\<close>, \<open>executeGridMethod\<close> fails with \<open>METHOD_EXECUTION_FAILED\<close> caused by \<open>e\<close>
  and the sink is not called; if the read works, the result of the call is returned
  and the sink's \<open>onGridFiltered\<close> is called with the count: the last message the sink
  has broadcast is then the \<open>grid_filtered\<close> event with the filter model and the count
  (stamped by the third reading of the sink's clock). In every other case
  (\<open>applyColumnState\<close> and all other methods, no sink, a falsy first argument) no
  second read is made: the page is left as the call left it and the result of the call
  is returned.
\<close>

theorem executeGridMethod_secondary_read:
  assumes "getGridInstance m gridId = Inr grid"
    and "pageApiMethod api method params (page grid) = (Inr result, p1)"
  shows "(method = ''setFilterModel'' \<and> webSocketManager m = Some ws
            \<and> truthy (firstParam params)
            \<and> map_of (faults p1) OpGetDisplayedRowCount = Some e \<longrightarrow>
            fst (executeGridMethod api m gridId method params)
              = Inl (GridManagerError METHOD_EXECUTION_FAILED (Some gridId) (Some (Error e)))
            \<and> webSocketManager (snd (executeGridMethod api m gridId method params))
                = Some ws)
         \<and> (method = ''setFilterModel'' \<and> webSocketManager m = Some ws
            \<and> truthy (firstParam params)
            \<and> map_of (faults p1) OpGetDisplayedRowCount = None \<longrightarrow>
            fst (executeGridMethod api m gridId method params) = Inr result
            \<and> webSocketManager (snd (executeGridMethod api m gridId method params))
                = Some (onGridFiltered gridId (firstParam params)
                          (if gridApi p1 then getDisplayedRowCount p1 else 0) ws)
            \<and> map_option (\<lambda>sink. last (broadcasts sink))
                  (webSocketManager (snd (executeGridMethod api m gridId method params)))
                = Some (MsgGridEvent
                    \<lparr>type_ev = grid_filtered, gridId_ev = gridId,
                     timestamp = clockAt ws (clockReads ws + 2),
                     data_ev = JObj [(''filterModel'', firstParam params),
                                    (''displayedRows'',
                                     JNum (rat_of_nat (if gridApi p1 then getDisplayedRowCount p1
                                                       else 0)))]\<rparr>))
         \<and> (\<not> (method = ''setFilterModel'' \<and> webSocketManager m \<noteq> None
                \<and> truthy (firstParam params)) \<longrightarrow>
            fst (executeGridMethod api m gridId method params) = Inr result
            \<and> map_of (grids (snd (executeGridMethod api m gridId method params))) gridId
                = Some (grid\<lparr>page := p1\<rparr>))"
proof (intro conjI impI)
  assume a: "method = ''setFilterModel'' \<and> webSocketManager m = Some ws
             \<and> truthy (firstParam params)
             \<and> map_of (faults p1) OpGetDisplayedRowCount = Some e"
  then have ws: "webSocketManager m \<noteq> None" by simp
  from a assms(2) have pm: "pageApiMethod api ''setFilterModel'' params (page grid) = (Inr result, p1)"
    by simp
  from a have t: "truthy (firstParam params)"
    and f: "map_of (faults p1) OpGetDisplayedRowCount = Some e" by simp_all
  note r = executeGridMethod_read_fails [OF assms(1) pm ws t f]
  from a r show "fst (executeGridMethod api m gridId method params)
                   = Inl (GridManagerError METHOD_EXECUTION_FAILED (Some gridId) (Some (Error e)))"
    by simp
  from a r show "webSocketManager (snd (executeGridMethod api m gridId method params))
                   = Some ws"
    by (simp add: webSocketManager_withPage)
next
  assume a: "method = ''setFilterModel'' \<and> webSocketManager m = Some ws
             \<and> truthy (firstParam params)
             \<and> map_of (faults p1) OpGetDisplayedRowCount = None"
  from a assms(2) have pm: "pageApiMethod api ''setFilterModel'' params (page grid) = (Inr result, p1)"
    by simp
  from a have ws: "webSocketManager m = Some ws" and t: "truthy (firstParam params)"
    and f: "map_of (faults p1) OpGetDisplayedRowCount = None" by simp_all
  note r = executeGridMethod_read_works [OF assms(1) pm ws t f]
  from a r show "fst (executeGridMethod api m gridId method params) = Inr result"
    by simp
  from a r have w: "webSocketManager (snd (executeGridMethod api m gridId method params))
                   = Some (onGridFiltered gridId (firstParam params)
                             (if gridApi p1 then getDisplayedRowCount p1 else 0) ws)"
    by (simp add: emit_def webSocketManager_withPage)
  then show "webSocketManager (snd (executeGridMethod api m gridId method params))
                   = Some (onGridFiltered gridId (firstParam params)
                             (if gridApi p1 then getDisplayedRowCount p1 else 0) ws)" .
  show "map_option (\<lambda>sink. last (broadcasts sink))
          (webSocketManager (snd (executeGridMethod api m gridId method params)))
        = Some (MsgGridEvent
            \<lparr>type_ev = grid_filtered, gridId_ev = gridId,
             timestamp = clockAt ws (clockReads ws + 2),
             data_ev = JObj [(''filterModel'', firstParam params),
                            (''displayedRows'',
                             JNum (rat_of_nat (if gridApi p1 then getDisplayedRowCount p1
                                               else 0)))]\<rparr>)"
    by (simp only: w option.map onGridFiltered_last)
next
  assume a: "\<not> (method = ''setFilterModel'' \<and> webSocketManager m \<noteq> None
                \<and> truthy (firstParam params))"
  from executeGridMethod_no_read [OF assms a]
  show "fst (executeGridMethod api m gridId method params) = Inr result"
    and "map_of (grids (snd (executeGridMethod api m gridId method params))) gridId
           = Some (grid\<lparr>page := p1\<rparr>)"
    by simp_all
qed

lemma setFilterModel_on_brokenCountPage:
  "pageApiMethod sampleApi ''setFilterModel'' (Some [statusFilter]) brokenCountPage
     = (Inr JUndefined,
        brokenCountPage\<lparr>calls := [OpApiMethod ''setFilterModel''],
                        pgFilterModel := [(''status'', JObj [(''filterType'', JStr ''set''),
                                            (''values'', JArr [JStr ''completed''])])]\<rparr>)"
  by (simp add: pageApiMethod_def roundTrip_def brokenCountPage_def pricePage_def sampleApi_def
        statusFilter_def)

text \<open>
  On a page where only the displayed-row-count read throws, \<open>setFilterModel\<close> succeeds
  on the surface and \<open>executeGridMethod\<close> fails.
\<close>

theorem executeGridMethod_secondary_read_witness:
  "getGridInstance (managerOf [gridOn ''grid_1'' brokenCountPage]) ''grid_1''
     = Inr (snd (gridOn ''grid_1'' brokenCountPage))
   \<and> fst (pageApiMethod sampleApi ''setFilterModel'' (Some [statusFilter])
             (page (snd (gridOn ''grid_1'' brokenCountPage)))) = Inr JUndefined
   \<and> fst (executeGridMethod sampleApi (managerOf [gridOn ''grid_1'' brokenCountPage])
             ''grid_1'' ''setFilterModel'' (Some [statusFilter]))
       = Inl (GridManagerError METHOD_EXECUTION_FAILED (Some ''grid_1'')
                (Some (Error ''Target closed'')))"
proof -
  let ?p1 = "brokenCountPage\<lparr>calls := [OpApiMethod ''setFilterModel''],
                        pgFilterModel := [(''status'', JObj [(''filterType'', JStr ''set''),
                                            (''values'', JArr [JStr ''completed''])])]\<rparr>"
  have h: "getGridInstance (managerOf [gridOn ''grid_1'' brokenCountPage]) ''grid_1''
             = Inr (snd (gridOn ''grid_1'' brokenCountPage))"
    by (rule getGridInstance_single)
  have p: "pageApiMethod sampleApi ''setFilterModel'' (Some [statusFilter])
             (page (snd (gridOn ''grid_1'' brokenCountPage))) = (Inr JUndefined, ?p1)"
    by (simp add: gridOn_def setFilterModel_on_brokenCountPage)
  have c: "webSocketManager (managerOf [gridOn ''grid_1'' brokenCountPage]) = Some freshSink
           \<and> truthy (firstParam (Some [statusFilter]))
           \<and> map_of (faults ?p1) OpGetDisplayedRowCount = Some ''Target closed''"
    by (simp add: managerOf_def firstParam_def statusFilter_def brokenCountPage_def)
  from executeGridMethod_secondary_read [OF h p, of freshSink "''Target closed''"] h p c
  show ?thesis by simp
qed

text \<open>
  C5 as stated fails: the \<open>setFilterModel\<close> call itself succeeds on the page, the read
  of the displayed row count alone throws, and \<open>executeGridMethod\<close> fails with
  \<open>METHOD_EXECUTION_FAILED\<close>.
\<close>

theorem secondary_read_failure_propagates_counterexample:
  "fst (pageApiMethod sampleApi ''setFilterModel'' (Some [statusFilter]) brokenCountPage)
     = Inr JUndefined
   \<and> fst (executeGridMethod sampleApi (managerOf [gridOn ''grid_1'' brokenCountPage])
             ''grid_1'' ''setFilterModel'' (Some [statusFilter]))
       = Inl (GridManagerError METHOD_EXECUTION_FAILED (Some ''grid_1'')
                (Some (Error ''Target closed'')))"
proof -
  let ?p1 = "brokenCountPage\<lparr>calls := [OpApiMethod ''setFilterModel''],
                        pgFilterModel := [(''status'', JObj [(''filterType'', JStr ''set''),
                                            (''values'', JArr [JStr ''completed''])])]\<rparr>"
  have h: "getGridInstance (managerOf [gridOn ''grid_1'' brokenCountPage]) ''grid_1''
             = Inr (snd (gridOn ''grid_1'' brokenCountPage))"
    by (rule getGridInstance_single)
  have p: "pageApiMethod sampleApi ''setFilterModel'' (Some [statusFilter])
             (page (snd (gridOn ''grid_1'' brokenCountPage))) = (Inr JUndefined, ?p1)"
    by (simp add: gridOn_def setFilterModel_on_brokenCountPage)
  have w: "webSocketManager (managerOf [gridOn ''grid_1'' brokenCountPage]) \<noteq> None"
    by (simp add: managerOf_def)
  have t: "truthy (firstParam (Some [statusFilter]))"
    by (simp add: firstParam_def statusFilter_def)
  have f: "map_of (faults ?p1) OpGetDisplayedRowCount = Some ''Target closed''"
    by (simp add: brokenCountPage_def)
  from executeGridMethod_read_fails [OF h p w t f] show ?thesis
    by (simp add: setFilterModel_on_brokenCountPage)
qed

section \<open>Validating a configuration\<close>

lemma GridConfigSchema_two_keys:
  "GridConfigSchema (JObj [(''columnDefs'', JArr cols), (''rowData'', JArr rows)])
     = (list_all ColumnDefSchema cols \<and> list_all zRecordAny rows)"
  by (simp add: cell_def inherited_def objectPrototypeKeys_def zOptional_def)

lemma createGrid_valid_not_INVALID_CONFIG:
  assumes "GridConfigSchema cfg"
  shows "fst (createGrid env m cfg) \<noteq> Inl (GridManagerError INVALID_CONFIG None c)"
  using assms
  by (simp add: createGrid_def creationFailed_def Let_def split: option.splits sum.splits)

text \<open>
  C2, as the code has it. On an initialized manager, a configuration that violates
  \<open>GridConfigSchema\<close> makes \<open>createGrid\<close> fail with \<open>INVALID_CONFIG\<close> and leaves the
  manager exactly as it was: no page has been opened and no registry entry inserted; a
  configuration that satisfies the schema never fails with \<open>INVALID_CONFIG\<close>. On a
  manager that is not initialized \<open>createGrid\<close> fails with \<open>NOT_INITIALIZED\<close> before it
  validates anything. The schema asks for an array of column definitions (objects with
  a string \<open>field\<close> and well-typed optional attributes), an array of row objects, and
  optional options: for a configuration made of columns and rows it holds exactly when
  every column and every row is well-formed, so an empty column list and repeated
  field identifiers are accepted.
\<close>

theorem createGrid_invalid_config:
  "(isInitialized m \<and> browser m \<noteq> None \<and> \<not> GridConfigSchema cfg \<longrightarrow>
      createGrid env m cfg = (Inl (GridManagerError INVALID_CONFIG None (Some ZodError)), m))
   \<and> (GridConfigSchema cfg \<longrightarrow>
        fst (createGrid env m cfg) \<noteq> Inl (GridManagerError INVALID_CONFIG None c))
   \<and> (\<not> isInitialized m \<or> browser m = None \<longrightarrow>
        createGrid env m cfg = (Inl (GridManagerError NOT_INITIALIZED None None), m))
   \<and> (GridConfigSchema (JObj [(''columnDefs'', JArr cols), (''rowData'', JArr rows)])
        = (list_all ColumnDefSchema cols \<and> list_all zRecordAny rows))"
proof (intro conjI impI)
  assume "isInitialized m \<and> browser m \<noteq> None \<and> \<not> GridConfigSchema cfg"
  then show "createGrid env m cfg
               = (Inl (GridManagerError INVALID_CONFIG None (Some ZodError)), m)"
    by (auto simp: createGrid_def)
next
  assume "GridConfigSchema cfg"
  then show "fst (createGrid env m cfg) \<noteq> Inl (GridManagerError INVALID_CONFIG None c)"
    by (rule createGrid_valid_not_INVALID_CONFIG)
next
  assume "\<not> isInitialized m \<or> browser m = None"
  then show "createGrid env m cfg = (Inl (GridManagerError NOT_INITIALIZED None None), m)"
    by (auto simp: createGrid_def split: option.splits)
next
  show "GridConfigSchema (JObj [(''columnDefs'', JArr cols), (''rowData'', JArr rows)])
          = (list_all ColumnDefSchema cols \<and> list_all zRecordAny rows)"
    by (rule GridConfigSchema_two_keys)
qed

text \<open>A configuration whose \<open>columnDefs\<close> is a string is refused, the manager untouched.\<close>

theorem createGrid_invalid_config_witness:
  "isInitialized (managerOf []) \<and> browser (managerOf []) \<noteq> None
   \<and> \<not> GridConfigSchema (JObj [(''columnDefs'', JStr ''price''), (''rowData'', JArr [])])
   \<and> createGrid sampleEnv (managerOf [])
        (JObj [(''columnDefs'', JStr ''price''), (''rowData'', JArr [])])
       = (Inl (GridManagerError INVALID_CONFIG None (Some ZodError)), managerOf [])"
proof -
  have i: "isInitialized (managerOf []) \<and> browser (managerOf []) \<noteq> None"
    by (simp add: managerOf_def)
  have n: "\<not> GridConfigSchema (JObj [(''columnDefs'', JStr ''price''), (''rowData'', JArr [])])"
    by (simp add: cell_def inherited_def objectPrototypeKeys_def)
  from createGrid_invalid_config
         [of "managerOf []" "JObj [(''columnDefs'', JStr ''price''), (''rowData'', JArr [])]"
             sampleEnv]
    i n show ?thesis by simp
qed

lemma createGrid_noColumns:
  "fst (createGrid sampleEnv (managerOf []) noColumnsConfig) = Inr ''grid_1''
   \<and> map fst (grids (snd (createGrid sampleEnv (managerOf []) noColumnsConfig))) = [''grid_1'']
   \<and> browser (snd (createGrid sampleEnv (managerOf []) noColumnsConfig))
       = Some \<lparr>closeError = None, pagesOpened = 1\<rparr>"
  by (simp add: createGrid_def managerOf_def sampleEnv_def noColumnsConfig_def preparePage_def
        roundTrip_def blankPage_def pageCreateGrid_def createAGGrid_def getProp_def cell_def inherited_def objectPrototypeKeys_def
        isArray_def zOptional_def priceRows_def asGridConfig_def Let_def
        emit_def onGridCreated_def removeGrid_def
        readClock_def emitGridEvent_def ioEmit_def freshSink_def)

text \<open>
  C2 as stated fails: a configuration with no column violates the schema the claim
  describes, yet \<open>createGrid\<close> accepts it, opens a page and registers the grid; a
  configuration with the field \<open>price\<close> twice violates it too and passes validation.
\<close>

theorem createGrid_accepts_no_columns_counterexample:
  "\<not> specConfigSchema noColumnsConfig
   \<and> fst (createGrid sampleEnv (managerOf []) noColumnsConfig) = Inr ''grid_1''
   \<and> map fst (grids (snd (createGrid sampleEnv (managerOf []) noColumnsConfig))) = [''grid_1'']
   \<and> browser (snd (createGrid sampleEnv (managerOf []) noColumnsConfig))
       = Some \<lparr>closeError = None, pagesOpened = 1\<rparr>
   \<and> \<not> specConfigSchema twoPriceColumnsConfig
   \<and> GridConfigSchema twoPriceColumnsConfig"
  by (simp add: createGrid_noColumns)
     (simp add: specConfigSchema_def columnFields_def noColumnsConfig_def twoPriceColumnsConfig_def
        getProp_def cell_def inherited_def objectPrototypeKeys_def priceColumn_def field_def zOptional_def priceRows_def)

section \<open>Null counts and completeness of a summary\<close>

lemma length_numericValuesOf: "length (numericValuesOf vs) \<le> length vs"
  by (induction vs rule: numericValuesOf.induct) simp_all

lemma length_stringValuesOf: "length (stringValuesOf vs) \<le> length vs"
  by (induction vs rule: stringValuesOf.induct) simp_all

lemma length_minus_notNullish:
  "length data - length (filter notNullish (map (\<lambda>r. cell r fld) data)) = nullEntries data fld"
proof -
  have "length (filter (\<lambda>r. notNullish (cell r fld)) data)
          + length (filter (\<lambda>r. \<not> notNullish (cell r fld)) data) = length data"
    by (rule sum_length_filter_compl)
  moreover have "length (filter notNullish (map (\<lambda>r. cell r fld) data))
                   = length (filter (\<lambda>r. notNullish (cell r fld)) data)"
    by (simp add: filter_map comp_def)
  moreover have "nullEntries data fld = length (filter (\<lambda>r. \<not> notNullish (cell r fld)) data)"
    by (simp add: nullEntries_def notNullish_def)
  ultimately show ?thesis by simp
qed

lemma analyzeColumnData_Inr:
  assumes "analyzeColumnData dp maxArgs data fld cd = Inr stat"
  shows "nullCount stat = nullEntries data fld \<and> field_c stat = fld"
proof -
  from assms have "nullCount stat
      = length data - length (filter notNullish (map (\<lambda>r. cell r fld) data))
    \<and> field_c stat = fld"
    by (auto simp: analyzeColumnData_def Let_def split: if_splits)
  then show ?thesis by (simp only: length_minus_notNullish)
qed

lemma analyzeColumnData_ok:
  assumes "length data \<le> maxArgs"
  shows "\<exists>stat. analyzeColumnData dp maxArgs data fld cd = Inr stat"
proof -
  let ?vals = "filter notNullish (map (\<lambda>r. cell r fld) data)"
  have "length ?vals \<le> length data"
    by (metis length_filter_le length_map)
  from this assms have v: "length ?vals \<le> maxArgs" by (rule le_trans)
  from v length_numericValuesOf [of ?vals]
  have n: "\<not> length (numericValuesOf ?vals) > maxArgs" by simp
  from v length_stringValuesOf [of ?vals]
  have s: "\<not> length (map length (stringValuesOf ?vals)) > maxArgs" by simp
  show ?thesis
    unfolding analyzeColumnData_def Let_def using n s by (simp only: if_False) simp
qed

lemma analyzeColumns_Inr:
  assumes "analyzeColumns dp maxArgs rows cols = Inr stats"
  shows "map nullCount stats = map (\<lambda>c. nullEntries rows (field c)) cols
         \<and> map field_c stats = map field cols"
  using assms
proof (induction cols arbitrary: stats)
  case Nil
  then show ?case by simp
next
  case (Cons c cols)
  from Cons.prems obtain stat rest where
    a: "analyzeColumnData dp maxArgs rows (field c) c = Inr stat"
    and r: "analyzeColumns dp maxArgs rows cols = Inr rest"
    and s: "stats = stat # rest"
    by (auto split: sum.splits)
  from analyzeColumnData_Inr [OF a] Cons.IH [OF r] s show ?case by simp
qed

lemma analyzeColumns_ok:
  assumes "length rows \<le> maxArgs"
  shows "\<exists>stats. analyzeColumns dp maxArgs rows cols = Inr stats"
proof (induction cols)
  case Nil
  show ?case by simp
next
  case (Cons c cols)
  from analyzeColumnData_ok [OF assms, of dp "field c" c] obtain stat where
    "analyzeColumnData dp maxArgs rows (field c) c = Inr stat" by blast
  moreover from Cons.IH obtain rest where "analyzeColumns dp maxArgs rows cols = Inr rest"
    by blast
  ultimately show ?case by simp
qed

lemma nullEntries_le: "nullEntries rows fld \<le> length rows"
  by (simp add: nullEntries_def)

lemma totalNulls_le: "totalNulls rows cols \<le> length rows * length cols"
proof (induction cols)
  case Nil
  show ?case by (simp add: totalNulls_def)
next
  case (Cons c cols)
  have "totalNulls rows (c # cols) = nullEntries rows (field c) + totalNulls rows cols"
    by (simp add: totalNulls_def)
  with nullEntries_le [of rows "field c"] Cons show ?case by simp
qed

lemma nullCells_exact:
  assumes "a + sum_list (map nullCount stats) \<le> 2 ^ 53"
  shows "foldl (\<lambda>sum stat. fl (sum + rat_of_nat (nullCount stat))) (rat_of_nat a) stats
           = rat_of_nat (a + sum_list (map nullCount stats))"
  using assms
proof (induction stats arbitrary: a)
  case Nil
  show ?case by simp
next
  case (Cons stat stats)
  from Cons.prems have le: "a + nullCount stat \<le> 2 ^ 53" by simp
  have "fl (rat_of_nat a + rat_of_nat (nullCount stat)) = rat_of_nat (a + nullCount stat)"
    using fl_nat [OF le] by simp
  moreover from Cons.prems have "(a + nullCount stat) + sum_list (map nullCount stats) \<le> 2 ^ 53"
    by simp
  ultimately show ?case
    using Cons.IH [of "a + nullCount stat"] by (simp add: add.assoc)
qed

lemma mathRound_0: "mathRound 0 = 0"
proof -
  have "\<lfloor>1 / 2 :: rat\<rfloor> = 0" by (rule floor_unique) simp_all
  then show ?thesis by (simp add: mathRound_def)
qed

text \<open>The summary of a snapshot that is not too long for \<^verbatim>\<open>Math.min\<close>.\<close>

lemma summarizeRows_ok:
  assumes len: "length rows \<le> maxArgs" and cells: "length rows * length cols \<le> 2 ^ 53"
  shows "\<exists>s. summarizeRows dp maxArgs now gid rows cols = Inr s
           \<and> gridId_s s = gid \<and> generatedAt s = now
           \<and> totalRows s = length rows \<and> totalColumns s = length cols
           \<and> map nullCount (columnStats s) = map (\<lambda>c. nullEntries rows (field c)) cols
           \<and> map field_c (columnStats s) = map field cols
           \<and> completeness s
               = (if 0 < length rows * length cols
                  then fl (rat_of_int (mathRound (fl (fl (fl
                         (rat_of_nat (length rows * length cols - totalNulls rows cols)
                            / rat_of_nat (length rows * length cols)) * 100) * 100))) / 100)
                  else 0)"
proof -
  let ?T = "length rows * length cols"
  let ?n = "totalNulls rows cols"
  from analyzeColumns_ok [OF len] obtain stats where
    a: "analyzeColumns dp maxArgs rows cols = Inr stats" by blast
  note i = analyzeColumns_Inr [OF a]
  from i have l: "length stats = length cols" by (metis length_map)
  from i have sum: "sum_list (map nullCount stats) = ?n"
    by (simp add: totalNulls_def)
  have nT: "?n \<le> ?T" by (rule totalNulls_le)
  have tc: "fl (rat_of_nat (length rows) * rat_of_nat (length stats)) = rat_of_nat ?T"
    using fl_nat [OF cells] by (simp add: l)
  from nT cells have "0 + sum_list (map nullCount stats) \<le> 2 ^ 53" by (simp add: sum)
  from nullCells_exact [OF this]
  have nc: "foldl (\<lambda>sum stat. fl (sum + rat_of_nat (nullCount stat))) 0 stats = rat_of_nat ?n"
    by (simp add: sum)
  have "?T - ?n \<le> 2 ^ 53" using cells by simp
  from fl_nat [OF this] nT
  have d: "fl (rat_of_nat ?T - rat_of_nat ?n) = rat_of_nat (?T - ?n)"
    by (simp add: of_nat_diff)
  have z: "fl (rat_of_int (mathRound (fl (0 * 100))) / 100) = 0"
    by (simp add: fl_0 mathRound_0)
  show ?thesis
  proof (cases "0 < ?T")
    case True
    then have p: "rat_of_nat ?T > 0" by simp
    show ?thesis
      unfolding summarizeRows_def Let_def a sum.case tc nc d if_P [OF p] if_P [OF True]
      using i l by simp
  next
    case False
    then have p: "\<not> rat_of_nat ?T > 0" by auto
    show ?thesis
      unfolding summarizeRows_def Let_def a sum.case tc nc d if_not_P [OF p] if_not_P [OF False]
      using i l z by simp
  qed
qed

lemma mathRound_error: "\<bar>rat_of_int (mathRound y) - y\<bar> \<le> 1 / 2"
proof -
  have "rat_of_int \<lfloor>y + 1 / 2\<rfloor> \<le> y + 1 / 2" by (rule of_int_floor_le)
  moreover have "y + 1 / 2 < rat_of_int \<lfloor>y + 1 / 2\<rfloor> + 1"
    using floor_correct [of "y + 1 / 2"] by simp
  ultimately show ?thesis unfolding mathRound_def by linarith
qed

text \<open>
  The three rounded operations before \<^verbatim>\<open>Math.round\<close> move the value by less than
  \<open>10\<^sup>-\<^sup>9\<close>, so the integer it picks is within a half (and that little) of the exact
  hundredths.
\<close>

lemma completeness_bound:
  fixes T n :: nat
  assumes T: "0 < T" and n: "n \<le> T"
  shows "\<bar>rat_of_int (mathRound (fl (fl (fl (rat_of_nat (T - n) / rat_of_nat T) * 100) * 100)))
           - 10000 * (1 - rat_of_nat n / rat_of_nat T)\<bar> \<le> 1 / 2 + 1 / 10 ^ 9"
proof -
  define x where "x = rat_of_nat (T - n) / rat_of_nat T"
  define a where "a = fl x"
  define b where "b = fl (a * 100)"
  define c where "c = fl (b * 100)"
  from T have T0: "rat_of_nat T > 0" by simp
  have x0: "0 \<le> x" unfolding x_def by simp
  have "rat_of_nat (T - n) \<le> rat_of_nat T" by simp
  with T0 have x1: "x \<le> 1" unfolding x_def by (simp add: divide_le_eq)
  have xe: "x = 1 - rat_of_nat n / rat_of_nat T"
    unfolding x_def using T0 n by (simp add: of_nat_diff diff_divide_distrib)
  define eps :: rat where "eps = 1 / 2 ^ 53"
  have e0: "0 \<le> eps" by (simp add: eps_def)
  have e1: "eps \<le> 1 / 1000000000000000" by (simp add: eps_def)
  have fe: "\<bar>fl y - y\<bar> \<le> B * eps" if "\<bar>y\<bar> + 1 \<le> B" for y B
  proof -
    have "\<bar>fl y - y\<bar> \<le> (\<bar>y\<bar> + 1) * eps"
      using fl_error_abs [of y] by (simp add: eps_def)
    also have "\<dots> \<le> B * eps" using that e0 by (rule mult_right_mono)
    finally show ?thesis .
  qed
  from x0 x1 have "\<bar>x\<bar> + 1 \<le> 2" by linarith
  then have ea: "\<bar>a - x\<bar> \<le> 2 * eps" unfolding a_def by (rule fe)
  with x0 x1 e1 have a2: "\<bar>a\<bar> \<le> 2" by linarith
  then have "\<bar>a * 100\<bar> + 1 \<le> 201" by (simp only: abs_mult)
  then have eb: "\<bar>b - a * 100\<bar> \<le> 201 * eps" unfolding b_def by (rule fe)
  from ea eb have ebx: "\<bar>b - x * 100\<bar> \<le> 401 * eps" by linarith
  with x0 x1 e1 have b101: "\<bar>b\<bar> \<le> 101" by linarith
  then have "\<bar>b * 100\<bar> + 1 \<le> 10101" by (simp only: abs_mult)
  then have ec: "\<bar>c - b * 100\<bar> \<le> 10101 * eps" unfolding c_def by (rule fe)
  from ebx ec have "\<bar>c - x * 10000\<bar> \<le> 50201 * eps" by linarith
  with e1 have ecx: "\<bar>c - x * 10000\<bar> \<le> 1 / 1000000000" by linarith
  define y where "y = 1 - rat_of_nat n / rat_of_nat T"
  from xe have xy: "x = y" by (simp only: y_def)
  from mathRound_error [of c] ecx xy
  have "\<bar>rat_of_int (mathRound c) - 10000 * y\<bar> \<le> 1 / 2 + 1 / 1000000000" by linarith
  then have "\<bar>rat_of_int (mathRound c) - 10000 * y\<bar> \<le> 1 / 2 + 1 / 10 ^ 9" by simp
  then show ?thesis unfolding c_def b_def a_def x_def y_def .
qed

text \<open>How \<open>generateGridSummary\<close> comes to its snapshot.\<close>

lemma those_nodeRow:
  assumes "those (map nodeRow nodes) = Some rows"
  shows "\<not> list_ex nullish nodes
         \<and> \<not> list_ex (\<lambda>node. nullish (getProp node ''data'')) nodes
         \<and> map (\<lambda>node. rowOf (getProp node ''data'')) nodes = rows"
  using assms
proof (induction nodes arbitrary: rows)
  case Nil
  then show ?case by simp
next
  case (Cons node nodes)
  from Cons.prems obtain d rest where
    n: "nodeRow node = Some d" and r: "those (map nodeRow nodes) = Some rest"
    and rows: "rows = d # rest"
    by (auto split: option.splits)
  from n obtain kvs where k: "node = JObj kvs" "map_of kvs ''data'' = Some (JObj d)"
    by (cases node) (auto split: option.splits jsval.splits)
  then have "getProp node ''data'' = JObj d"
    by (simp add: getProp_def cell_def)
  with k Cons.IH [OF r] rows show ?case
    by (simp add: nullish_def rowOf_def)
qed

lemma snapshot_of_answer:
  assumes "snapshotSpec currentData stored = Some rows"
  shows "(if truthy currentData then renderedRowData currentData cols else Inr stored) = Inr rows"
proof (cases currentData)
  case (JArr nodes)
  with assms have "those (map nodeRow nodes) = Some rows" by simp
  from those_nodeRow [OF this] JArr show ?thesis
    by (simp add: renderedRowData_def)
qed (use assms in \<open>simp_all split: if_splits\<close>)

lemma generateGridSummary_snapshot:
  assumes "getGridInfo m gridId = Inr info"
    and "getGridState m gridId = (Inr st, m1)"
    and "executeGridMethod api m1 gridId ''getRenderedNodes'' None = (Inr currentData, m2)"
    and "snapshotSpec currentData (rowData (config_i info)) = Some rows"
    and "summarizeRows dp maxArgs now gridId rows (columnDefs (config_i info)) = Inr s"
  shows "generateGridSummary api dp maxArgs now m gridId = (Inr s, m2)"
  using assms(1,2,3,5) snapshot_of_answer [OF assms(4), of "columnDefs (config_i info)"]
  by (simp add: generateGridSummary_def)

text \<open>A summary on a page where every round trip works.\<close>

lemma summary_steps:
  assumes g: "getGridInstance m gridId = Inr grid"
    and api: "gridApi (page grid)" and live: "\<not> pgGridDestroyed (page grid)"
    and nofault: "faults (page grid) = []"
    and answer: "\<And>p. api ''getRenderedNodes'' [] p = Inr (v, p)"
  shows "\<exists>st m1 m2. getGridState m gridId = (Inr st, m1)
           \<and> executeGridMethod api m1 gridId ''getRenderedNodes'' None = (Inr v, m2)"
proof -
  let ?p1 = "(page grid)\<lparr>calls := calls (page grid) @ [OpReadState]\<rparr>"
  from g have nd: "\<not> isDestroyed grid"
    by (auto simp: getGridInstance_def split: option.splits if_splits)
  from g api live nofault obtain st where
    st: "getGridState m gridId = (Inr st, withPage gridId grid ?p1 m)"
    by (simp add: getGridState_def pageReadState_def roundTrip_def Let_def)
  have g1: "getGridInstance (withPage gridId grid ?p1 m) gridId = Inr (grid\<lparr>page := ?p1\<rparr>)"
    using nd by (rule getGridInstance_withPage)
  obtain m2 where
    "executeGridMethod api (withPage gridId grid ?p1 m) gridId ''getRenderedNodes'' None
       = (Inr v, m2)"
    using api nofault answer
    by (simp add: executeGridMethod_def g1 pageApiMethod_def roundTrip_def)
  with st show ?thesis by blast
qed

lemma generateGridSummary_healthy:
  assumes g: "getGridInstance m gridId = Inr grid"
    and api: "gridApi (page grid)" and live: "\<not> pgGridDestroyed (page grid)"
    and nofault: "faults (page grid) = []"
    and answer: "\<And>p. api ''getRenderedNodes'' [] p = Inr (v, p)"
    and snap: "snapshotSpec v (rowData (config grid)) = Some rows"
    and sum: "summarizeRows dp maxArgs now gridId rows (columnDefs (config grid)) = Inr s"
  shows "fst (generateGridSummary api dp maxArgs now m gridId) = Inr s"
proof -
  from summary_steps [where api = api and v = v, OF g api live nofault answer] obtain st m1 m2 where
    st: "getGridState m gridId = (Inr st, m1)"
    and ex: "executeGridMethod api m1 gridId ''getRenderedNodes'' None = (Inr v, m2)"
    by blast
  let ?info = "\<lparr>id_i = id_g grid, config_i = config grid, createdAt_i = createdAt grid,
                 lastUpdated_i = lastUpdated grid, isDestroyed_i = isDestroyed grid\<rparr>"
  from g have info: "getGridInfo m gridId = Inr ?info" by (simp add: getGridInfo_def)
  from snap have snap': "snapshotSpec v (rowData (config_i ?info)) = Some rows" by simp
  from sum have sum': "summarizeRows dp maxArgs now gridId rows (columnDefs (config_i ?info)) = Inr s"
    by simp
  from generateGridSummary_snapshot [OF info st ex snap' sum'] show ?thesis by simp
qed

text \<open>The grid with the column \<open>price\<close> and the rows 10, null, 30.\<close>

lemma priceManager_grid:
  "getGridInstance priceManager ''grid_1''
     = Inr \<lparr>id_g = ''grid_1'',
            page = pricePage\<lparr>pgCsv := [],
                     calls := [OpSetViewport, OpSetContent, OpWaitForFunction, OpCreateAGGrid]\<rparr>,
            config = \<lparr>columnDefs = [priceColumn], rowData = priceRows, gridOptions = None\<rparr>,
            createdAt = 0, lastUpdated = 0, isDestroyed = False\<rparr>"
  by (simp add: priceManager_def createGrid_price getGridInstance_def)

lemma fl_2_of_3: "fl (2 / 3) = 6004799503160661 / 2 ^ 53"
  using fl_value [of "- 1" "2 / 3" 6004799503160661] by (simp add: power_int_minus)

lemma fl_2_of_3_percent: "fl (fl (2 / 3) * 100) = 4691249611844266 / 2 ^ 46"
  unfolding fl_2_of_3
  using fl_value [of 6 "6004799503160661 / 2 ^ 53 * 100" 4691249611844266] by simp

lemma fl_2_of_3_hundredths: "fl (fl (fl (2 / 3) * 100) * 100) = 7330077518506666 / 2 ^ 40"
  unfolding fl_2_of_3_percent
  using fl_value [of 12 "4691249611844266 / 2 ^ 46 * 100" 7330077518506666] by simp

lemma mathRound_2_of_3: "mathRound (fl (fl (fl (2 / 3) * 100) * 100)) = 6667"
  unfolding fl_2_of_3_hundredths mathRound_def by (rule floor_unique) simp_all

lemma price_stats:
  assumes "2 \<le> maxArgs"
  shows "analyzeColumns dp maxArgs priceRows [priceColumn]
     = Inr [\<lparr>field_c = ''price'', type_c = ''number'', nullCount = 1, uniqueCount = 2,
         sampleValues = [JNum 10, JNum 30], min_c = Some 10, max_c = Some 30,
         mean = Some 20, median = Some 20, avgLength = None, maxLength = None,
         minLength = None\<rparr>]"
  using assms
  by (simp add: analyzeColumnData_def priceRows_def priceColumn_def field_def
        declaredType_def cell_def inherited_def objectPrototypeKeys_def notNullish_def
        inferDataType_def noCounts_def mathMin_def mathMax_def medianOf_def jsSum_def Let_def
        fl_numeral)

lemma price_summary:
  assumes "2 \<le> maxArgs"
  shows "summarizeRows dp maxArgs now gid priceRows [priceColumn]
     = Inr \<lparr>gridId_s = gid, totalRows = 3, totalColumns = 1,
        columnStats = [\<lparr>field_c = ''price'', type_c = ''number'', nullCount = 1, uniqueCount = 2,
         sampleValues = [JNum 10, JNum 30], min_c = Some 10, max_c = Some 30,
         mean = Some 20, median = Some 20, avgLength = None, maxLength = None,
         minLength = None\<rparr>],
        dataTypes = [(''number'', JNum 1)], completeness = fl (6667 / 100),
        generatedAt = now\<rparr>"
  unfolding summarizeRows_def price_stats [OF assms] sum.case Let_def
  by (simp add: priceRows_def countType_def cell_def inherited_def objectPrototypeKeys_def
        fl_numeral fl_1 mathRound_2_of_3)

lemma priceManager_summary:
  assumes "2 \<le> maxArgs"
  shows "fst (generateGridSummary sampleApi dp maxArgs now priceManager ''grid_1'')
     = Inr \<lparr>gridId_s = ''grid_1'', totalRows = 3, totalColumns = 1,
        columnStats = [\<lparr>field_c = ''price'', type_c = ''number'', nullCount = 1, uniqueCount = 2,
         sampleValues = [JNum 10, JNum 30], min_c = Some 10, max_c = Some 30,
         mean = Some 20, median = Some 20, avgLength = None, maxLength = None,
         minLength = None\<rparr>],
        dataTypes = [(''number'', JNum 1)], completeness = fl (6667 / 100),
        generatedAt = now\<rparr>"
proof (rule generateGridSummary_healthy [where v = JUndefined and rows = priceRows,
         OF priceManager_grid])
  show "\<And>p. sampleApi ''getRenderedNodes'' [] p = Inr (JUndefined, p)"
    by (simp add: sampleApi_def)
  show "summarizeRows dp maxArgs now ''grid_1'' priceRows (columnDefs (config \<lparr>id_g = ''grid_1'',
            page = pricePage\<lparr>pgCsv := [],
                     calls := [OpSetViewport, OpSetContent, OpWaitForFunction, OpCreateAGGrid]\<rparr>,
            config = \<lparr>columnDefs = [priceColumn], rowData = priceRows, gridOptions = None\<rparr>,
            createdAt = 0, lastUpdated = 0, isDestroyed = False\<rparr>))
     = Inr \<lparr>gridId_s = ''grid_1'', totalRows = 3, totalColumns = 1,
        columnStats = [\<lparr>field_c = ''price'', type_c = ''number'', nullCount = 1, uniqueCount = 2,
         sampleValues = [JNum 10, JNum 30], min_c = Some 10, max_c = Some 30,
         mean = Some 20, median = Some 20, avgLength = None, maxLength = None,
         minLength = None\<rparr>],
        dataTypes = [(''number'', JNum 1)], completeness = fl (6667 / 100),
        generatedAt = now\<rparr>"
    using price_summary [OF assms] by simp
qed (simp_all add: pricePage_def)

text \<open>The same grid when the grid answers that no row node is rendered.\<close>

lemma empty_stats:
  "analyzeColumns dp maxArgs [] [priceColumn]
     = Inr [\<lparr>field_c = ''price'', type_c = ''unknown'', nullCount = 0, uniqueCount = 0,
         sampleValues = [], min_c = None, max_c = None,
         mean = None, median = None, avgLength = None, maxLength = None,
         minLength = None\<rparr>]"
  by (simp add: analyzeColumnData_def priceColumn_def field_def
        declaredType_def cell_def inherited_def objectPrototypeKeys_def
        inferDataType_def Let_def)

lemma empty_summary:
  "summarizeRows dp maxArgs now gid [] [priceColumn]
     = Inr \<lparr>gridId_s = gid, totalRows = 0, totalColumns = 1,
        columnStats = [\<lparr>field_c = ''price'', type_c = ''unknown'', nullCount = 0, uniqueCount = 0,
         sampleValues = [], min_c = None, max_c = None,
         mean = None, median = None, avgLength = None, maxLength = None,
         minLength = None\<rparr>],
        dataTypes = [(''unknown'', JNum 1)], completeness = 0,
        generatedAt = now\<rparr>"
  unfolding summarizeRows_def empty_stats sum.case Let_def
  by (simp add: countType_def cell_def inherited_def objectPrototypeKeys_def
        fl_0 mathRound_0)

lemma priceManager_nothing_rendered:
  "fst (generateGridSummary emptyRenderApi dp maxArgs now priceManager ''grid_1'')
     = Inr \<lparr>gridId_s = ''grid_1'', totalRows = 0, totalColumns = 1,
        columnStats = [\<lparr>field_c = ''price'', type_c = ''unknown'', nullCount = 0, uniqueCount = 0,
         sampleValues = [], min_c = None, max_c = None,
         mean = None, median = None, avgLength = None, maxLength = None,
         minLength = None\<rparr>],
        dataTypes = [(''unknown'', JNum 1)], completeness = 0,
        generatedAt = now\<rparr>"
proof (rule generateGridSummary_healthy [where v = "JArr []" and rows = "[]",
         OF priceManager_grid])
  show "\<And>p. emptyRenderApi ''getRenderedNodes'' [] p = Inr (JArr [], p)"
    by (simp add: emptyRenderApi_def)
  show "summarizeRows dp maxArgs now ''grid_1'' [] (columnDefs (config \<lparr>id_g = ''grid_1'',
            page = pricePage\<lparr>pgCsv := [],
                     calls := [OpSetViewport, OpSetContent, OpWaitForFunction, OpCreateAGGrid]\<rparr>,
            config = \<lparr>columnDefs = [priceColumn], rowData = priceRows, gridOptions = None\<rparr>,
            createdAt = 0, lastUpdated = 0, isDestroyed = False\<rparr>))
     = Inr \<lparr>gridId_s = ''grid_1'', totalRows = 0, totalColumns = 1,
        columnStats = [\<lparr>field_c = ''price'', type_c = ''unknown'', nullCount = 0, uniqueCount = 0,
         sampleValues = [], min_c = None, max_c = None,
         mean = None, median = None, avgLength = None, maxLength = None,
         minLength = None\<rparr>],
        dataTypes = [(''unknown'', JNum 1)], completeness = 0,
        generatedAt = now\<rparr>"
    using empty_summary by simp
qed (simp_all add: pricePage_def)

text \<open>The grid of 160 cells of which 63 are null.\<close>

lemma fl_97_of_160: "fl (97 / 160) = 5460614548186726 / 2 ^ 53"
  using fl_value [of "- 1" "97 / 160" 5460614548186726] by (simp add: power_int_minus)

lemma fl_97_of_160_percent: "fl (fl (97 / 160) * 100) = 8532210231541759 / 2 ^ 47"
  unfolding fl_97_of_160
  using fl_value [of 5 "5460614548186726 / 2 ^ 53 * 100" 8532210231541759] by simp

lemma fl_97_of_160_hundredths:
  "fl (fl (fl (97 / 160) * 100) * 100) = 6665789243391999 / 2 ^ 40"
  unfolding fl_97_of_160_percent
  using fl_value [of 12 "8532210231541759 / 2 ^ 47 * 100" 6665789243391999] by simp

lemma mathRound_97_of_160: "mathRound (fl (fl (fl (97 / 160) * 100) * 100)) = 6062"
  unfolding fl_97_of_160_hundredths mathRound_def by (rule floor_unique) simp_all

lemma fl_6062_hundredths: "fl (rat_of_int 6062 / 100) = 8531506544099983 / 2 ^ 47"
  using fl_value [of 5 "6062 / 100" 8531506544099983] by simp

lemma nullEntries_doneRows: "nullEntries doneRows ''done'' = 63"
  by (simp add: nullEntries_def doneRows_def cell_def)

lemma doneManager_grid:
  "getGridInstance doneManager ''grid_1''
     = Inr \<lparr>id_g = ''grid_1'', page = pricePage\<lparr>pgRows := doneRows\<rparr>,
         config = \<lparr>columnDefs = [doneColumn], rowData = doneRows, gridOptions = None\<rparr>,
         createdAt = 0, lastUpdated = 0, isDestroyed = False\<rparr>"
  by (simp add: doneManager_def managerOf_def getGridInstance_def)

lemma doneManager_summary:
  "\<exists>s. fst (generateGridSummary sampleApi dp 100000 now doneManager ''grid_1'') = Inr s
     \<and> totalRows s = 160 \<and> totalColumns s = 1 \<and> map nullCount (columnStats s) = [63]
     \<and> completeness s = 8531506544099983 / 2 ^ 47"
proof -
  have len: "length doneRows = 160" by (simp add: doneRows_def)
  have fld: "field doneColumn = ''done''" by (simp add: doneColumn_def field_def cell_def)
  have tn: "totalNulls doneRows [doneColumn] = 63"
    by (simp add: totalNulls_def fld nullEntries_doneRows)
  have "length doneRows \<le> 100000" "length doneRows * length [doneColumn] \<le> 2 ^ 53"
    by (simp_all add: len)
  from summarizeRows_ok [OF this, of dp now "''grid_1''"] obtain s where
    s: "summarizeRows dp 100000 now ''grid_1'' doneRows [doneColumn] = Inr s"
    and f: "totalRows s = 160" "totalColumns s = 1" "map nullCount (columnStats s) = [63]"
    and c: "completeness s
              = fl (rat_of_int (mathRound (fl (fl (fl (97 / 160) * 100) * 100))) / 100)"
    by (auto simp: len tn fld nullEntries_doneRows)
  from c have c': "completeness s = 8531506544099983 / 2 ^ 47"
    by (simp only: mathRound_97_of_160 fl_6062_hundredths)
  have "fst (generateGridSummary sampleApi dp 100000 now doneManager ''grid_1'') = Inr s"
  proof (rule generateGridSummary_healthy [where v = JUndefined and rows = doneRows,
           OF doneManager_grid])
    show "\<And>p. sampleApi ''getRenderedNodes'' [] p = Inr (JUndefined, p)"
      by (simp add: sampleApi_def)
    show "summarizeRows dp 100000 now ''grid_1'' doneRows (columnDefs (config \<lparr>id_g = ''grid_1'',
           page = pricePage\<lparr>pgRows := doneRows\<rparr>,
           config = \<lparr>columnDefs = [doneColumn], rowData = doneRows, gridOptions = None\<rparr>,
           createdAt = 0, lastUpdated = 0, isDestroyed = False\<rparr>)) = Inr s"
      using s by simp
  qed (simp_all add: pricePage_def)
  with f c' show ?thesis by (intro exI [of _ s] conjI)
qed

lemma completenessSpec_doneRows: "completenessSpec doneRows [doneColumn] = 6063 / 100"
proof -
  have len: "length doneRows = 160" by (simp add: doneRows_def)
  have fld: "field doneColumn = ''done''" by (simp add: doneColumn_def field_def cell_def)
  have tn: "totalNulls doneRows [doneColumn] = 63"
    by (simp add: totalNulls_def fld nullEntries_doneRows)
  have "\<lfloor>6063 :: rat\<rfloor> = 6063" by simp
  then show ?thesis
    by (simp add: completenessSpec_def roundTo2_def tn len round_def)
qed

text \<open>
  C9. \<open>generateGridSummary\<close> summarises a row snapshot that depends on what the grid answers
  when asked for its rendered nodes: an array of row nodes makes the snapshot the rows
  those nodes carry (none, if the array is empty), a falsy answer such as \<^verbatim>\<open>undefined\<close>
  makes it the rows stored with the grid. Whenever the grid is registered, its state can
  be read, the call for the rendered nodes succeeds with such an answer, the snapshot has
  \<open>N\<close> rows, no more than the engine accepts as arguments of one call, and \<open>N \<times> C\<close> is at
  most \<open>2\<^sup>5\<^sup>3\<close> for the \<open>C\<close> declared columns, the summary is returned, with \<open>totalRows = N\<close>,
  \<open>totalColumns = C\<close>, one entry per declared column in order, and each column's
  \<open>nullCount\<close> the number of snapshot rows whose entry for the column's field is null or
  undefined. Its \<open>completeness\<close> is the double nearest to \<open>k / 100\<close> for an integer \<open>k\<close>;
  when there is at least one cell, \<open>k\<close> differs from \<open>10000 \<times> (1 - totalNulls / (N \<times> C))\<close>
  by at most \<open>1/2 + 10\<^sup>-\<^sup>9\<close> (the percentage rounded to two decimals, where a value
  halfway between two hundredths may go either way); when there is none, it is 0.
  For the grid created with the one column \<open>price\<close> and the rows 10, null, 30, on a grid
  whose rendered nodes arrive as \<^verbatim>\<open>undefined\<close>, the summary has three rows and one column
  of type \<open>number\<close> with \<open>nullCount = 1\<close>, \<open>min = 10\<close>, \<open>max = 30\<close>, \<open>mean = 20\<close>, and
  completeness 66.67.
\<close>

theorem generateGridSummary_snapshot_figures:
  "(getGridInfo m gridId = Inr info
      \<and> getGridState m gridId = (Inr st, m1)
      \<and> executeGridMethod api m1 gridId ''getRenderedNodes'' None = (Inr currentData, m2)
      \<and> snapshotSpec currentData (rowData (config_i info)) = Some rows
      \<and> length rows \<le> maxArgs
      \<and> length rows * length (columnDefs (config_i info)) \<le> 2 ^ 53
    \<longrightarrow> (\<exists>s k. generateGridSummary api dp maxArgs now m gridId = (Inr s, m2)
           \<and> gridId_s s = gridId
           \<and> totalRows s = length rows
           \<and> totalColumns s = length (columnDefs (config_i info))
           \<and> map field_c (columnStats s) = map field (columnDefs (config_i info))
           \<and> map nullCount (columnStats s)
               = map (\<lambda>c. nullEntries rows (field c)) (columnDefs (config_i info))
           \<and> completeness s = fl (rat_of_int k / 100)
           \<and> (0 < length rows * length (columnDefs (config_i info)) \<longrightarrow>
                 \<bar>rat_of_int k
                    - 10000 * (1 - rat_of_nat (totalNulls rows (columnDefs (config_i info)))
                                    / rat_of_nat (length rows * length (columnDefs (config_i info))))\<bar>
                   \<le> 1 / 2 + 1 / 10 ^ 9)
           \<and> (length rows * length (columnDefs (config_i info)) = 0 \<longrightarrow> completeness s = 0)))
   \<and> (2 \<le> maxArgs \<longrightarrow>
        fst (generateGridSummary sampleApi dp maxArgs now priceManager ''grid_1'')
          = Inr \<lparr>gridId_s = ''grid_1'', totalRows = 3, totalColumns = 1,
                 columnStats =
                   [\<lparr>field_c = ''price'', type_c = ''number'', nullCount = 1, uniqueCount = 2,
                     sampleValues = [JNum 10, JNum 30], min_c = Some 10, max_c = Some 30,
                     mean = Some 20, median = Some 20, avgLength = None, maxLength = None,
                     minLength = None\<rparr>],
                 dataTypes = [(''number'', JNum 1)], completeness = fl (6667 / 100),
                 generatedAt = now\<rparr>)"
proof (intro conjI impI)
  let ?cols = "columnDefs (config_i info)"
  let ?T = "length rows * length ?cols"
  let ?n = "totalNulls rows ?cols"
  assume h: "getGridInfo m gridId = Inr info
      \<and> getGridState m gridId = (Inr st, m1)
      \<and> executeGridMethod api m1 gridId ''getRenderedNodes'' None = (Inr currentData, m2)
      \<and> snapshotSpec currentData (rowData (config_i info)) = Some rows
      \<and> length rows \<le> maxArgs
      \<and> length rows * length (columnDefs (config_i info)) \<le> 2 ^ 53"
  then have info: "getGridInfo m gridId = Inr info"
    and st: "getGridState m gridId = (Inr st, m1)"
    and ex: "executeGridMethod api m1 gridId ''getRenderedNodes'' None = (Inr currentData, m2)"
    and snap: "snapshotSpec currentData (rowData (config_i info)) = Some rows"
    and len: "length rows \<le> maxArgs"
    and cells: "?T \<le> 2 ^ 53"
    by simp_all
  from summarizeRows_ok [OF len cells, of dp now gridId] obtain s where
    s: "summarizeRows dp maxArgs now gridId rows ?cols = Inr s"
    and f: "gridId_s s = gridId" "totalRows s = length rows" "totalColumns s = length ?cols"
      "map nullCount (columnStats s) = map (\<lambda>c. nullEntries rows (field c)) ?cols"
      "map field_c (columnStats s) = map field ?cols"
    and c: "completeness s
              = (if 0 < ?T
                 then fl (rat_of_int (mathRound (fl (fl (fl
                        (rat_of_nat (?T - ?n) / rat_of_nat ?T) * 100) * 100))) / 100)
                 else 0)"
    by blast
  define k where
    "k = (if 0 < ?T
          then mathRound (fl (fl (fl (rat_of_nat (?T - ?n) / rat_of_nat ?T) * 100) * 100))
          else 0)"
  have g: "generateGridSummary api dp maxArgs now m gridId = (Inr s, m2)"
    using info st ex snap s by (rule generateGridSummary_snapshot)
  have ck: "completeness s = fl (rat_of_int k / 100)"
    unfolding c k_def by (simp add: fl_0)
  have bound: "\<bar>rat_of_int k - 10000 * (1 - rat_of_nat ?n / rat_of_nat ?T)\<bar> \<le> 1 / 2 + 1 / 10 ^ 9"
    if "0 < ?T"
    unfolding k_def if_P [OF that]
    using that totalNulls_le [of rows ?cols] by (rule completeness_bound)
  have none: "completeness s = 0" if "?T = 0"
  proof -
    from that have "\<not> 0 < ?T" by linarith
    then show ?thesis unfolding c by (rule if_not_P)
  qed
  from g f ck bound none
  show "\<exists>s k. generateGridSummary api dp maxArgs now m gridId = (Inr s, m2)
           \<and> gridId_s s = gridId
           \<and> totalRows s = length rows
           \<and> totalColumns s = length ?cols
           \<and> map field_c (columnStats s) = map field ?cols
           \<and> map nullCount (columnStats s) = map (\<lambda>c. nullEntries rows (field c)) ?cols
           \<and> completeness s = fl (rat_of_int k / 100)
           \<and> (0 < ?T \<longrightarrow>
                 \<bar>rat_of_int k - 10000 * (1 - rat_of_nat ?n / rat_of_nat ?T)\<bar>
                   \<le> 1 / 2 + 1 / 10 ^ 9)
           \<and> (?T = 0 \<longrightarrow> completeness s = 0)"
    by (intro exI [of _ s] exI [of _ k] conjI impI)
next
  assume "2 \<le> maxArgs"
  then show "fst (generateGridSummary sampleApi dp maxArgs now priceManager ''grid_1'')
          = Inr \<lparr>gridId_s = ''grid_1'', totalRows = 3, totalColumns = 1,
                 columnStats =
                   [\<lparr>field_c = ''price'', type_c = ''number'', nullCount = 1, uniqueCount = 2,
                     sampleValues = [JNum 10, JNum 30], min_c = Some 10, max_c = Some 30,
                     mean = Some 20, median = Some 20, avgLength = None, maxLength = None,
                     minLength = None\<rparr>],
                 dataTypes = [(''number'', JNum 1)], completeness = fl (6667 / 100),
                 generatedAt = now\<rparr>"
    by (rule priceManager_summary)
qed

text \<open>
  The created price grid, its rendered nodes arriving as \<^verbatim>\<open>undefined\<close>: the summary is
  returned with three rows, one column, one null entry in \<open>price\<close> and completeness
  66.67, the integer \<open>k\<close> being 6667; it is the summary the scenario names.
\<close>

theorem generateGridSummary_snapshot_figures_witness:
  "\<exists>s m2. generateGridSummary sampleApi ((=) ''2024-01-01'') 100000
              ''2025-01-01T00:00:00.000Z'' priceManager ''grid_1'' = (Inr s, m2)
      \<and> snapshotSpec JUndefined priceRows = Some priceRows
      \<and> gridId_s s = ''grid_1''
      \<and> totalRows s = 3 \<and> totalColumns s = 1
      \<and> map field_c (columnStats s) = [''price'']
      \<and> map nullCount (columnStats s) = [1]
      \<and> completeness s = fl (6667 / 100)
      \<and> s = \<lparr>gridId_s = ''grid_1'', totalRows = 3, totalColumns = 1,
               columnStats =
                 [\<lparr>field_c = ''price'', type_c = ''number'', nullCount = 1, uniqueCount = 2,
                   sampleValues = [JNum 10, JNum 30], min_c = Some 10, max_c = Some 30,
                   mean = Some 20, median = Some 20, avgLength = None, maxLength = None,
                   minLength = None\<rparr>],
               dataTypes = [(''number'', JNum 1)], completeness = fl (6667 / 100),
               generatedAt = ''2025-01-01T00:00:00.000Z''\<rparr>"
proof -
  let ?grid = "\<lparr>id_g = ''grid_1'',
            page = pricePage\<lparr>pgCsv := [],
                     calls := [OpSetViewport, OpSetContent, OpWaitForFunction, OpCreateAGGrid]\<rparr>,
            config = \<lparr>columnDefs = [priceColumn], rowData = priceRows, gridOptions = None\<rparr>,
            createdAt = 0, lastUpdated = 0, isDestroyed = False\<rparr>"
  let ?info = "\<lparr>id_i = ''grid_1'',
            config_i = \<lparr>columnDefs = [priceColumn], rowData = priceRows, gridOptions = None\<rparr>,
            createdAt_i = 0, lastUpdated_i = 0, isDestroyed_i = False\<rparr>"
  have info: "getGridInfo priceManager ''grid_1'' = Inr ?info"
    by (simp add: getGridInfo_def priceManager_grid)
  have "\<exists>st m1 m2. getGridState priceManager ''grid_1'' = (Inr st, m1)
           \<and> executeGridMethod sampleApi m1 ''grid_1'' ''getRenderedNodes'' None
               = (Inr JUndefined, m2)"
    by (rule summary_steps [where grid = ?grid and api = sampleApi and v = JUndefined,
          OF priceManager_grid])
       (simp_all add: pricePage_def sampleApi_def)
  then obtain st m1 m2 where
    st: "getGridState priceManager ''grid_1'' = (Inr st, m1)"
    and ex: "executeGridMethod sampleApi m1 ''grid_1'' ''getRenderedNodes'' None
               = (Inr JUndefined, m2)"
    by blast
  have len: "length priceRows = 3" by (simp add: priceRows_def)
  have fld: "field priceColumn = ''price''"
    by (simp add: priceColumn_def field_def cell_def)
  have ne: "nullEntries priceRows ''price'' = 1"
    by (simp add: nullEntries_def priceRows_def cell_def)
  have tn: "totalNulls priceRows [priceColumn] = 1"
    by (simp add: totalNulls_def fld ne)
  have snap: "snapshotSpec JUndefined priceRows = Some priceRows" by simp
  have hyps: "getGridInfo priceManager ''grid_1'' = Inr ?info
      \<and> getGridState priceManager ''grid_1'' = (Inr st, m1)
      \<and> executeGridMethod sampleApi m1 ''grid_1'' ''getRenderedNodes'' None
          = (Inr JUndefined, m2)
      \<and> snapshotSpec JUndefined (rowData (config_i ?info)) = Some priceRows
      \<and> length priceRows \<le> 100000
      \<and> length priceRows * length (columnDefs (config_i ?info)) \<le> 2 ^ 53"
    using info st ex by (simp add: len)
  from generateGridSummary_snapshot_figures
         [where m = priceManager and gridId = "''grid_1''" and info = ?info and st = st
            and ?m1.0 = m1 and api = sampleApi and currentData = JUndefined and ?m2.0 = m2
            and rows = priceRows and maxArgs = 100000 and dp = "(=) ''2024-01-01''"
            and now = "''2025-01-01T00:00:00.000Z''", THEN conjunct1, rule_format, OF hyps]
  have "\<exists>s k. generateGridSummary sampleApi ((=) ''2024-01-01'') 100000
          ''2025-01-01T00:00:00.000Z'' priceManager ''grid_1'' = (Inr s, m2)
      \<and> gridId_s s = ''grid_1'' \<and> totalRows s = 3 \<and> totalColumns s = 1
      \<and> map field_c (columnStats s) = [''price''] \<and> map nullCount (columnStats s) = [1]
      \<and> completeness s = fl (rat_of_int k / 100)
      \<and> \<bar>rat_of_int k - 20000 / 3\<bar> \<le> 1 / 2 + 1 / 1000000000"
    by (simp add: len fld ne tn)
  then obtain s k where
    r: "generateGridSummary sampleApi ((=) ''2024-01-01'') 100000
          ''2025-01-01T00:00:00.000Z'' priceManager ''grid_1'' = (Inr s, m2)
      \<and> gridId_s s = ''grid_1'' \<and> totalRows s = 3 \<and> totalColumns s = 1
      \<and> map field_c (columnStats s) = [''price''] \<and> map nullCount (columnStats s) = [1]
      \<and> completeness s = fl (rat_of_int k / 100)
      \<and> \<bar>rat_of_int k - 20000 / 3\<bar> \<le> 1 / 2 + 1 / 1000000000"
    by (elim exE) (rule that)
  then have g: "generateGridSummary sampleApi ((=) ''2024-01-01'') 100000
          ''2025-01-01T00:00:00.000Z'' priceManager ''grid_1'' = (Inr s, m2)"
    and f: "gridId_s s = ''grid_1''" "totalRows s = 3" "totalColumns s = 1"
      "map field_c (columnStats s) = [''price'']" "map nullCount (columnStats s) = [1]"
    and c: "completeness s = fl (rat_of_int k / 100)"
    and b: "\<bar>rat_of_int k - 20000 / 3\<bar> \<le> 1 / 2 + 1 / 1000000000"
    by simp_all
  from b have "rat_of_int k < 6668" by linarith
  moreover from b have "6666 < rat_of_int k" by linarith
  ultimately have "k < 6668" "6666 < k" by simp_all
  then have "k = 6667" by simp
  with c have "completeness s = fl (6667 / 100)" by simp
  moreover have "fst (generateGridSummary sampleApi ((=) ''2024-01-01'') 100000
                       ''2025-01-01T00:00:00.000Z'' priceManager ''grid_1'')
      = Inr \<lparr>gridId_s = ''grid_1'', totalRows = 3, totalColumns = 1,
               columnStats =
                 [\<lparr>field_c = ''price'', type_c = ''number'', nullCount = 1, uniqueCount = 2,
                   sampleValues = [JNum 10, JNum 30], min_c = Some 10, max_c = Some 30,
                   mean = Some 20, median = Some 20, avgLength = None, maxLength = None,
                   minLength = None\<rparr>],
               dataTypes = [(''number'', JNum 1)], completeness = fl (6667 / 100),
               generatedAt = ''2025-01-01T00:00:00.000Z''\<rparr>"
    using generateGridSummary_snapshot_figures
            [where maxArgs = 100000 and dp = "(=) ''2024-01-01''"
               and now = "''2025-01-01T00:00:00.000Z''", THEN conjunct2]
    by simp
  with g have "s = \<lparr>gridId_s = ''grid_1'', totalRows = 3, totalColumns = 1,
               columnStats =
                 [\<lparr>field_c = ''price'', type_c = ''number'', nullCount = 1, uniqueCount = 2,
                   sampleValues = [JNum 10, JNum 30], min_c = Some 10, max_c = Some 30,
                   mean = Some 20, median = Some 20, avgLength = None, maxLength = None,
                   minLength = None\<rparr>],
               dataTypes = [(''number'', JNum 1)], completeness = fl (6667 / 100),
               generatedAt = ''2025-01-01T00:00:00.000Z''\<rparr>"
    by simp
  ultimately show ?thesis using g f snap by (intro exI [of _ s] exI [of _ m2] conjI)
qed

text \<open>
  The same price grid when the grid answers that no row node is rendered: the summary
  counts no row and no null entry in \<open>price\<close>, of unknown type, although one of the three
  stored entries is null. And a grid of 160 cells of which 63 are null: the summary
  reports the double nearest to 60.62, where 60.625 rounded to two decimals the way
  \<^verbatim>\<open>Math.round\<close> rounds is 60.63.
\<close>

theorem generateGridSummary_rendered_rows_counterexample:
  "fst (generateGridSummary emptyRenderApi ((=) ''2024-01-01'') 100000
          ''2025-01-01T00:00:00.000Z'' priceManager ''grid_1'')
     = Inr \<lparr>gridId_s = ''grid_1'', totalRows = 0, totalColumns = 1,
            columnStats =
              [\<lparr>field_c = ''price'', type_c = ''unknown'', nullCount = 0, uniqueCount = 0,
                sampleValues = [], min_c = None, max_c = None, mean = None, median = None,
                avgLength = None, maxLength = None, minLength = None\<rparr>],
            dataTypes = [(''unknown'', JNum 1)], completeness = 0,
            generatedAt = ''2025-01-01T00:00:00.000Z''\<rparr>
   \<and> nullEntries priceRows ''price'' = 1
   \<and> (case fst (generateGridSummary sampleApi ((=) ''2024-01-01'') 100000
                   ''2025-01-01T00:00:00.000Z'' doneManager ''grid_1'') of
         Inl e \<Rightarrow> None
       | Inr s \<Rightarrow> Some (totalRows s, totalColumns s, map nullCount (columnStats s),
                        completeness s))
       = Some (160, 1, [63], 8531506544099983 / 2 ^ 47)
   \<and> \<bar>8531506544099983 / 2 ^ 47 - 6062 / 100 :: rat\<bar> < 1 / 10 ^ 14
   \<and> completenessSpec doneRows [doneColumn] = 6063 / 100"
proof (intro conjI)
  show "fst (generateGridSummary emptyRenderApi ((=) ''2024-01-01'') 100000
          ''2025-01-01T00:00:00.000Z'' priceManager ''grid_1'')
     = Inr \<lparr>gridId_s = ''grid_1'', totalRows = 0, totalColumns = 1,
            columnStats =
              [\<lparr>field_c = ''price'', type_c = ''unknown'', nullCount = 0, uniqueCount = 0,
                sampleValues = [], min_c = None, max_c = None, mean = None, median = None,
                avgLength = None, maxLength = None, minLength = None\<rparr>],
            dataTypes = [(''unknown'', JNum 1)], completeness = 0,
            generatedAt = ''2025-01-01T00:00:00.000Z''\<rparr>"
    by (rule priceManager_nothing_rendered)
  show "nullEntries priceRows ''price'' = 1"
    by (simp add: nullEntries_def priceRows_def cell_def)
  from doneManager_summary [of "(=) ''2024-01-01''" "''2025-01-01T00:00:00.000Z''"]
  obtain s where
    r: "fst (generateGridSummary sampleApi ((=) ''2024-01-01'') 100000
            ''2025-01-01T00:00:00.000Z'' doneManager ''grid_1'') = Inr s
     \<and> totalRows s = 160 \<and> totalColumns s = 1 \<and> map nullCount (columnStats s) = [63]
     \<and> completeness s = 8531506544099983 / 2 ^ 47"
    by (elim exE) (rule that)
  then show "(case fst (generateGridSummary sampleApi ((=) ''2024-01-01'') 100000
                   ''2025-01-01T00:00:00.000Z'' doneManager ''grid_1'') of
         Inl e \<Rightarrow> None
       | Inr s \<Rightarrow> Some (totalRows s, totalColumns s, map nullCount (columnStats s),
                        completeness s))
       = Some (160, 1, [63], 8531506544099983 / 2 ^ 47)"
    by (simp only: sum.case)
  show "\<bar>8531506544099983 / 2 ^ 47 - 6062 / 100 :: rat\<bar> < 1 / 10 ^ 14" by simp
  show "completenessSpec doneRows [doneColumn] = 6063 / 100"
    by (rule completenessSpec_doneRows)
qed

text \<open>An entry is what \<^verbatim>\<open>row[field]\<close> reads: a member every object inherits is not a null entry.\<close>

lemma nullEntries_inherited: "nullEntries [[(''price'', JNum 1)]] ''constructor'' = 0"
  by (simp add: nullEntries_def cell_def inherited_def objectPrototypeKeys_def)

end
